theory Spec2Isabelle
  imports Complex_Main "HOL-Library.Word" "HOL-Library.Stream"
begin

unbundle bit_operations_syntax

section \<open>Conventions of the embedding\<close>

text \<open>
  The sources are JavaScript. A JavaScript number is modelled as a \<^typ>\<open>real\<close>
  (no rounding, no NaN, no infinity), a loop counter as a \<^typ>\<open>nat\<close>, the zone depth
  (always \<open>index + 1\<close> at the call sites in World) as an \<^typ>\<open>int\<close>. A field that may
  be \<open>undefined\<close>, or that the code guards with \<open>typeof v === 'number'\<close>, is an
  \<^typ>\<open>'a option\<close>. An object with identity (an entity handed to the spatial hash) is a
  reference into an explicit store.
\<close>

text \<open>\<open>a || d\<close> on an optional number: \<open>undefined\<close> and \<open>0\<close> are falsy.\<close>

definition num_or :: "real option \<Rightarrow> real \<Rightarrow> real" where
  "num_or v d = (case v of None \<Rightarrow> d | Some a \<Rightarrow> if a = 0 then d else a)"

text \<open>\<open>(typeof v === 'number') ? v : d\<close>.\<close>

definition num_default :: "real option \<Rightarrow> real \<Rightarrow> real" where
  "num_default v d = (case v of None \<Rightarrow> d | Some a \<Rightarrow> a)"

text \<open>\<open>Math.floor\<close>, \<open>Math.ceil\<close> and \<open>Math.hypot\<close> on numbers.\<close>

definition js_floor :: "real \<Rightarrow> real" where
  "js_floor v = of_int \<lfloor>v\<rfloor>"

definition js_ceil :: "real \<Rightarrow> real" where
  "js_ceil v = of_int \<lceil>v\<rceil>"

definition hypot :: "real \<Rightarrow> real \<Rightarrow> real" where
  "hypot a b = sqrt (a * a + b * b)"

section \<open>SpatialHash.js\<close>

text \<open>
  An entity is an object \<open>{ x, y, radius?, size?, r? }\<close>. The grid stores references to
  entities; the store maps a reference to the entity's current fields.
\<close>

record entity =
  ent_x :: real
  ent_y :: real
  ent_radius :: "real option"
  ent_size :: "real option"
  ent_r :: "real option"

type_synonym ref = nat
type_synonym store = "ref \<Rightarrow> entity"

text \<open>
  The cell key \<open>(cx << 16) ^ cy\<close>: both operands go through ToInt32, so the key is the
  32-bit pattern of the result.
\<close>

type_synonym cellkey = "32 word"

record grid =
  cellSize :: real
  invCell :: real
  cells :: "cellkey \<rightharpoonup> ref list"
  entityCells :: "ref \<rightharpoonup> cellkey list"

text \<open>A bucket is a JavaScript \<open>Set\<close>: a duplicate-free list in insertion order.\<close>

definition set_add :: "'a \<Rightarrow> 'a list \<Rightarrow> 'a list" where
  "set_add e b = (if e \<in> set b then b else b @ [e])"

definition set_delete :: "'a \<Rightarrow> 'a list \<Rightarrow> 'a list" where
  "set_delete e b = removeAll e b"

definition create :: "real \<Rightarrow> grid" where
  "create cs = \<lparr> cellSize = cs, invCell = 1 / cs, cells = Map.empty, entityCells = Map.empty \<rparr>"

definition clear :: "grid \<Rightarrow> grid" where
  "clear g = g \<lparr> cells := Map.empty, entityCells := Map.empty \<rparr>"

definition cell_key :: "int \<Rightarrow> int \<Rightarrow> cellkey" where
  "cell_key cx cy = push_bit 16 (word_of_int cx) XOR word_of_int cy"

definition key_of :: "grid \<Rightarrow> real \<Rightarrow> real \<Rightarrow> cellkey" where
  "key_of g wx wy = cell_key \<lfloor>wx * invCell g\<rfloor> \<lfloor>wy * invCell g\<rfloor>"

text \<open>The two nested \<open>for\<close> loops over \<open>cx\<close> and \<open>cy\<close>, in their order.\<close>

definition cell_range :: "int \<Rightarrow> int \<Rightarrow> int \<Rightarrow> int \<Rightarrow> cellkey list" where
  "cell_range minCX maxCX minCY maxCY =
     concat (map (\<lambda>cx. map (\<lambda>cy. cell_key cx cy) [minCY..maxCY]) [minCX..maxCX])"

text \<open>\<open>entity.radius || entity.size || entity.r || d\<close>.\<close>

definition radius_or :: "entity \<Rightarrow> real \<Rightarrow> real" where
  "radius_or e d = num_or (ent_radius e) (num_or (ent_size e) (num_or (ent_r e) d))"

definition entity_cells :: "grid \<Rightarrow> entity \<Rightarrow> cellkey list" where
  "entity_cells g e =
     (let r = radius_or e 16;
          x = ent_x e;
          y = ent_y e;
          inv = invCell g;
          minCX = \<lfloor>(x - r) * inv\<rfloor>;
          maxCX = \<lfloor>(x + r) * inv\<rfloor>;
          minCY = \<lfloor>(y - r) * inv\<rfloor>;
          maxCY = \<lfloor>(y + r) * inv\<rfloor>
      in cell_range minCX maxCX minCY maxCY)"

definition bucket_add :: "ref \<Rightarrow> cellkey \<Rightarrow> (cellkey \<rightharpoonup> ref list) \<Rightarrow> (cellkey \<rightharpoonup> ref list)" where
  "bucket_add e k c =
     (case c k of
        None \<Rightarrow> c(k \<mapsto> set_add e [])
      | Some b \<Rightarrow> c(k \<mapsto> set_add e b))"

definition insert_entity :: "grid \<Rightarrow> store \<Rightarrow> ref \<Rightarrow> grid" where
  "insert_entity g h e =
     (let keys = entity_cells g (h e)
      in g \<lparr> cells := fold (bucket_add e) keys (cells g),
             entityCells := (entityCells g)(e \<mapsto> keys) \<rparr>)"

definition bucket_remove :: "ref \<Rightarrow> cellkey \<Rightarrow> (cellkey \<rightharpoonup> ref list) \<Rightarrow> (cellkey \<rightharpoonup> ref list)" where
  "bucket_remove e k c =
     (case c k of
        None \<Rightarrow> c
      | Some b \<Rightarrow>
          (let b' = set_delete e b
           in if length b' = 0 then c(k := None) else c(k \<mapsto> b')))"

definition remove_entity :: "grid \<Rightarrow> ref \<Rightarrow> grid" where
  "remove_entity g e =
     (case entityCells g e of
        None \<Rightarrow> g
      | Some keys \<Rightarrow>
          g \<lparr> cells := fold (bucket_remove e) keys (cells g),
              entityCells := (entityCells g)(e := None) \<rparr>)"

definition update_entity :: "grid \<Rightarrow> store \<Rightarrow> ref \<Rightarrow> grid" where
  "update_entity g h e = insert_entity (remove_entity g e) h e"

definition query :: "grid \<Rightarrow> real \<Rightarrow> real \<Rightarrow> real \<Rightarrow> ref list" where
  "query g x y radius =
     (let inv = invCell g;
          minCX = \<lfloor>(x - radius) * inv\<rfloor>;
          maxCX = \<lfloor>(x + radius) * inv\<rfloor>;
          minCY = \<lfloor>(y - radius) * inv\<rfloor>;
          maxCY = \<lfloor>(y + radius) * inv\<rfloor>
      in fold (\<lambda>key result.
                 case cells g key of
                   None \<Rightarrow> result
                 | Some bucket \<Rightarrow> fold set_add bucket result)
              (cell_range minCX maxCX minCY maxCY) [])"

text \<open>The distance test of \<open>queryCircle\<close>, with its own fallback \<open>|| 0\<close> for the radius.\<close>

definition in_circle :: "store \<Rightarrow> real \<Rightarrow> real \<Rightarrow> real \<Rightarrow> ref \<Rightarrow> bool" where
  "in_circle h x y radius ent =
     (let dx = ent_x (h ent) - x;
          dy = ent_y (h ent) - y;
          er = radius_or (h ent) 0;
          dist2 = dx * dx + dy * dy;
          maxDist = radius + er
      in dist2 \<le> maxDist * maxDist)"

definition queryCircle :: "grid \<Rightarrow> store \<Rightarrow> real \<Rightarrow> real \<Rightarrow> real \<Rightarrow> ref list" where
  "queryCircle g h x y radius = filter (in_circle h x y radius) (query g x y radius)"

definition insertAll :: "grid \<Rightarrow> store \<Rightarrow> ref list \<Rightarrow> grid" where
  "insertAll g h entities = fold (\<lambda>e g'. insert_entity g' h e) entities g"

section \<open>SeededRandom.js\<close>

text \<open>
  Modelled from the spec: SeededRandom.js is not among the sources. The spec gives it a
  32-bit seed and says that the output is a pure function of the seed and the number of
  draws so far, with \<open>next()\<close> in \<open>[0,1)\<close>, \<open>range(a,b)\<close>, \<open>int(a,b)\<close> inclusive,
  \<open>pick(list)\<close> and \<open>chance(p)\<close>. The generator is therefore the stream of its
  raw outputs: \<open>next()\<close> takes the head, reduced to 32 bits and scaled into \<open>[0,1)\<close>,
  and leaves the tail. The transform that turns a seed into this stream is a parameter of \<open>generate\<close>.
\<close>

type_synonym rng = "nat stream"

definition rng_next :: "rng \<Rightarrow> real \<times> rng" where
  "rng_next r = (real (shd r mod 4294967296) / 4294967296, stl r)"

definition rng_range :: "rng \<Rightarrow> real \<Rightarrow> real \<Rightarrow> real \<times> rng" where
  "rng_range r a b = (a + fst (rng_next r) * (b - a), snd (rng_next r))"

definition rng_int :: "rng \<Rightarrow> real \<Rightarrow> real \<Rightarrow> real \<times> rng" where
  "rng_int r a b = (js_floor (a + fst (rng_next r) * (b - a + 1)), snd (rng_next r))"

text \<open>\<open>pick\<close> of an empty array is \<open>undefined\<close>.\<close>

definition rng_pick :: "rng \<Rightarrow> 'a list \<Rightarrow> 'a option \<times> rng" where
  "rng_pick r xs =
     (let i = nat \<lfloor>fst (rng_next r) * real (length xs)\<rfloor>
      in (if i < length xs then Some (xs ! i) else None, snd (rng_next r)))"

definition rng_chance :: "rng \<Rightarrow> real \<Rightarrow> bool \<times> rng" where
  "rng_chance r p = (fst (rng_next r) < p, snd (rng_next r))"

text \<open>
  The weighted pick that the generator writes out three times:
  \<open>for (const t of list) { roll -= weight(t); if (roll <= 0) return t; }\<close>;
  \<open>None\<close> when the loop ends without a hit, where each caller has its own fallback.
\<close>

fun pick_weighted :: "('a \<Rightarrow> real) \<Rightarrow> real \<Rightarrow> 'a list \<Rightarrow> 'a option" where
  "pick_weighted wt roll [] = None"
| "pick_weighted wt roll (t # ts) =
     (let roll' = roll - wt t
      in if roll' \<le> 0 then Some t else pick_weighted wt roll' ts)"

section \<open>Loops\<close>

text \<open>
  \<open>for (let i = i0; i < n && cond; i++) body\<close>, on a state \<open>s\<close> that holds every
  variable the body assigns. A \<open>continue\<close> is a body that returns early.
\<close>

function for_loop :: "nat \<Rightarrow> real \<Rightarrow> ('s \<Rightarrow> bool) \<Rightarrow> (nat \<Rightarrow> 's \<Rightarrow> 's) \<Rightarrow> 's \<Rightarrow> 's" where
  "for_loop i n cond body s =
     (if real i < n \<and> cond s then for_loop (Suc i) n cond body (body i s) else s)"
  by pat_completeness auto
termination
  by (relation "measure (\<lambda>(i, n, cond, body, s). nat \<lceil>n\<rceil> - i)") (auto, linarith)

declare for_loop.simps [simp del]

text \<open>\<open>for (let s = 0; s <= n; s++) body\<close>.\<close>

function for_loop_le :: "nat \<Rightarrow> real \<Rightarrow> (nat \<Rightarrow> 's \<Rightarrow> 's) \<Rightarrow> 's \<Rightarrow> 's" where
  "for_loop_le i n body s =
     (if real i \<le> n then for_loop_le (Suc i) n body (body i s) else s)"
  by pat_completeness auto
termination
  by (relation "measure (\<lambda>(i, n, body, s). nat (\<lfloor>n\<rfloor> + 1) - i)") (auto, linarith)

declare for_loop_le.simps [simp del]

text \<open>
  \<open>for (let i = 0; i < rng.int(a, b); i++) body\<close>: the bound is drawn again before every
  iteration, and the draw that ends the loop is consumed too.
\<close>

function for_loop_int ::
  "nat \<Rightarrow> real \<Rightarrow> real \<Rightarrow> (nat \<Rightarrow> rng \<times> 's \<Rightarrow> rng \<times> 's) \<Rightarrow> rng \<times> 's \<Rightarrow> rng \<times> 's" where
  "for_loop_int i a b body (r, s) =
     (if real i < fst (rng_int r a b)
      then for_loop_int (Suc i) a b body (body i (snd (rng_int r a b), s))
      else (snd (rng_int r a b), s))"
  by pat_completeness auto
termination
proof (relation "measure (\<lambda>(i, a, b, body, rs). nat \<lceil>max a (b + 1)\<rceil> - i)")
  show "wf (measure (\<lambda>(i, a, b, body, rs). nat \<lceil>max a (b + 1)\<rceil> - i))"
    by simp
next
  fix i :: nat and a b :: real and body :: "nat \<Rightarrow> rng \<times> 's \<Rightarrow> rng \<times> 's"
    and r :: rng and s :: 's
  let ?u = "fst (rng_next r)"
  assume less: "real i < fst (rng_int r a b)"
  have "shd r mod 4294967296 < 4294967296"
    by simp
  then have "real (shd r mod 4294967296) < real 4294967296"
    by (rule less_imp_of_nat_less)
  then have u: "0 \<le> ?u" "?u < 1"
    by (simp_all add: rng_next_def)
  have "a + ?u * (b - a + 1) \<le> max a (b + 1)"
  proof (cases "0 \<le> b - a + 1")
    case True
    then have "?u * (b - a + 1) \<le> 1 * (b - a + 1)"
      using u by (intro mult_right_mono) auto
    then show ?thesis by simp
  next
    case False
    then have "?u * (b - a + 1) \<le> 0"
      using u by (simp add: mult_nonneg_nonpos)
    then show ?thesis by simp
  qed
  moreover have "fst (rng_int r a b) \<le> a + ?u * (b - a + 1)"
    by (simp add: rng_int_def js_floor_def)
  ultimately have "real i < max a (b + 1)"
    using less by linarith
  then have "i < nat \<lceil>max a (b + 1)\<rceil>"
    by linarith
  then show "((Suc i, a, b, body, body i (snd (rng_int r a b), s)), (i, a, b, body, r, s))
        \<in> measure (\<lambda>(i, a, b, body, rs). nat \<lceil>max a (b + 1)\<rceil> - i)"
    by simp
qed

declare for_loop_int.simps [simp del]

section \<open>Data read by MapGenerator.js\<close>

text \<open>\<open>a || d\<close> on an optional string (\<open>undefined\<close> and the empty string are falsy)
  and on an optional array (every array is truthy).\<close>

definition str_or :: "string option \<Rightarrow> string \<Rightarrow> string" where
  "str_or v d = (case v of None \<Rightarrow> d | Some a \<Rightarrow> if a = [] then d else a)"

definition list_or :: "'a list option \<Rightarrow> 'a list \<Rightarrow> 'a list" where
  "list_or v d = (case v of None \<Rightarrow> d | Some a \<Rightarrow> a)"

text \<open>\<open>cfg.width\<close> and \<open>cfg.height\<close>: an array of at least two numbers (its first two
  elements), a number, or anything else.\<close>

datatype dim = DimRange real real | DimFixed real | DimAbsent

text \<open>\<open>actConfig.generation || {}\<close>: an absent object is the record with every field absent.\<close>

record generation_cfg =
  gen_enemyDensity :: "real option"
  gen_eliteDensity :: "real option"
  gen_obstacleDensity :: "real option"
  gen_width :: dim
  gen_height :: dim

record nebula_cfg =
  neb_enabled :: bool
  neb_count :: "real option"
  neb_color :: "string option"

record act_config =
  act_generation :: generation_cfg
  act_biome :: "string option"
  act_pool :: "string list option"
  act_elitePool :: "string list option"
  act_bgColor :: "string option"
  act_nebula :: "nebula_cfg option"

text \<open>\<open>State.data.config?.exploration || {}\<close>; a field is \<open>Some v\<close> when
  \<open>typeof v === 'number'\<close>.\<close>

record tuning =
  enemyDensityMult :: "real option"
  eliteDensityMult :: "real option"
  mapScale :: "real option"
  maxEnemySpawnsPerZone :: "real option"
  enemySpawnMinDistFromSpawn :: "real option"
  enemySpawnMinDistFromExit :: "real option"
  enemySpawnMinDistBetween :: "real option"
  maxEliteSpawnsPerZone :: "real option"
  maxObstaclesPerZone :: "real option"
  maxDecorationsPerZone :: "real option"
  maxStarsBackground :: "real option"
  maxStarsMidground :: "real option"

text \<open>\<open>State.data.packs\<close>.\<close>

record pack_member =
  pm_type :: "string option"
  pm_min :: "real option"
  pm_max :: "real option"

record pack_template =
  tpl_id :: "string option"
  tpl_weight :: "real option"
  tpl_members :: "pack_member list option"
  tpl_types :: "string list option"

record packs_data =
  packs_templates :: "pack_template list option"
  packChance :: "real option"
  packSizeMin :: "real option"
  packSizeMax :: "real option"
  maxPacksPerZone :: "real option"
  memberSpacing :: "real option"
  packs_minDistFromSpawn :: "real option"
  packs_minDistFromExit :: "real option"

text \<open>The global \<open>State\<close>: the two tables the generator reads; every other field of
  \<open>State\<close> (scene, world, meta, run, player) is the extension of the record.\<close>

record game_state =
  data_exploration :: tuning
  data_packs :: "packs_data option"

record options =
  opt_depth :: "int option"
  opt_mods :: "string list option"
  opt_difficulty :: "string option"

text \<open>\<open>options.depth || 1\<close>.\<close>

definition depth_of :: "int option \<Rightarrow> int" where
  "depth_of d = (case d of None \<Rightarrow> 1 | Some v \<Rightarrow> if v = 0 then 1 else v)"

section \<open>The Zone and what it holds\<close>

record point =
  pt_x :: real
  pt_y :: real

text \<open>An entry of \<open>zone.enemySpawns\<close>. A flag that the source leaves out is \<open>False\<close>;
  \<open>poiId\<close> is the string \<open>poi_<index>_<type>\<close>, kept as the pair.\<close>

record enemy_spawn =
  es_x :: real
  es_y :: real
  es_type :: "string option"
  es_patrol :: "string option"
  es_patrolRadius :: real
  es_active :: bool
  es_killed :: bool
  es_packId :: "string option"
  es_poiId :: "(nat \<times> string) option"
  es_ambush :: bool
  es_ambushDelay :: "real option"
  es_isElite :: bool

record elite_spawn =
  el_x :: real
  el_y :: real
  el_type :: "string option"
  el_active :: bool
  el_killed :: bool

record obstacle =
  ob_x :: real
  ob_y :: real
  ob_type :: "string option"
  ob_radius :: real
  ob_rotation :: real
  ob_destructible :: bool
  ob_hp :: "real option"
  ob_damage :: "real option"
  ob_hunting :: bool
  ob_huntSpeed :: "real option"
  ob_dotDamage :: "real option"
  ob_glow :: "string option"
  ob_resourceType :: "string option"
  ob_resourceMult :: "real option"
  ob_voidShardChance :: "real option"
  ob_cosmicDustChance :: "real option"
  ob_itemChance :: "real option"
  ob_isGenerator :: bool

text \<open>An obstacle literal with only the fields every obstacle has.\<close>

definition mk_obstacle ::
  "real \<Rightarrow> real \<Rightarrow> string option \<Rightarrow> real \<Rightarrow> real \<Rightarrow> bool \<Rightarrow> real option \<Rightarrow> obstacle" where
  "mk_obstacle x y t radius rotation destructible hp =
     \<lparr> ob_x = x, ob_y = y, ob_type = t, ob_radius = radius, ob_rotation = rotation,
       ob_destructible = destructible, ob_hp = hp, ob_damage = None, ob_hunting = False,
       ob_huntSpeed = None, ob_dotDamage = None, ob_glow = None, ob_resourceType = None,
       ob_resourceMult = None, ob_voidShardChance = None, ob_cosmicDustChance = None,
       ob_itemChance = None, ob_isGenerator = False \<rparr>"

record decoration =
  dc_x :: real
  dc_y :: real
  dc_type :: "string option"
  dc_width :: "real option"
  dc_height :: "real option"
  dc_radius :: "real option"
  dc_color :: "string option"
  dc_alpha :: real
  dc_rotation :: real
  dc_scale :: real
  dc_variant :: "real option"
  dc_size :: "real option"

record star =
  star_x :: real
  star_y :: real
  star_size :: real
  star_brightness :: real
  star_twinkle :: bool

record wisp =
  wisp_x :: real
  wisp_y :: real
  wisp_width :: real
  wisp_height :: real
  wisp_color :: string
  wisp_alpha :: real
  wisp_rotation :: real

text \<open>The four layers; their constant scroll speeds (0.1, 0.3, 0.6, 0.9) are left out.\<close>

record parallax =
  bg_color :: string
  bg_stars :: "star list"
  mid_stars :: "star list"
  fg_objects :: "wisp list"

record reward =
  rw_type :: string
  rw_rarity :: "string option"
  rw_scrap :: "real option"
  rw_cells :: "real option"
  rw_value :: "real option"
  rw_voidShards :: "real option"

record wave_config =
  wave_count :: real
  wave_enemiesPerWave :: real
  wave_pool :: "string list"

text \<open>An entry of \<open>poi.enemies\<close>, before it is copied into \<open>zone.enemySpawns\<close>.\<close>

record poi_enemy =
  pe_x :: real
  pe_y :: real
  pe_type :: "string option"
  pe_patrol :: string
  pe_patrolRadius :: real
  pe_ambush :: bool
  pe_ambushDelay :: "real option"
  pe_isElite :: bool

text \<open>A POI. Its \<open>id\<close> is \<open>poi_<index>_<type>\<close>, kept as the pair; the icon, a fixed
  non-ASCII string per type, is left out.\<close>

record poi =
  poi_id :: "nat \<times> string"
  poi_type :: string
  poi_x :: real
  poi_y :: real
  poi_radius :: real
  poi_label :: string
  poi_reward :: "reward option"
  poi_enemies :: "poi_enemy list"
  poi_obstacles :: "obstacle list"
  poi_triggered :: bool
  poi_cleared :: bool
  poi_collected :: bool
  poi_hidden :: bool
  poi_interactable :: bool
  poi_interactPrompt :: "string option"
  poi_waveConfig :: "wave_config option"

text \<open>An objective; \<open>icon\<close> and \<open>desc\<close> (text built from \<open>target\<close>) are left out.\<close>

record objective =
  obj_type :: string
  obj_label :: string
  obj_progress :: real
  obj_target :: real
  obj_complete :: bool
  obj_exitLocked :: bool
  obj_bonusScrap :: real
  obj_bonusCells :: real
  obj_arenaCenter :: "point option"
  obj_arenaRadius :: "real option"
  obj_failed :: "bool option"
  obj_corruptionRate :: "real option"
  obj_currentMult :: "real option"
  obj_generators :: "obstacle list option"

record branch_exit =
  br_id :: string
  br_label :: string
  br_color :: string
  br_desc :: string
  br_modifiers :: real
  br_lootMult :: real
  br_isVault :: bool
  br_x :: real
  br_y :: real
  br_radius :: real

text \<open>The Zone. \<open>bossSpawn\<close> is always \<open>null\<close>, \<open>pickups\<close> and \<open>portals\<close> always empty
  in \<open>generate\<close>, so they are left out. \<open>exit\<close> is \<open>null\<close> in the literal and assigned
  before anything reads it; \<open>pois\<close>, \<open>resourceNodes\<close> and \<open>objective\<close> are assigned
  after the literal (empty and \<open>None\<close> until then); \<open>branchExits\<close> exists only from
  depth 3.\<close>

record zone =
  zone_seed :: nat
  zone_width :: real
  zone_height :: real
  zone_biome :: string
  zone_spawn :: point
  zone_exit :: point
  enemySpawns :: "enemy_spawn list"
  eliteSpawns :: "elite_spawn list"
  obstacles :: "obstacle list"
  decorations :: "decoration list"
  zone_parallax :: parallax
  pois :: "poi list"
  resourceNodes :: "obstacle list"
  zone_objective :: "objective option"
  branchExits :: "branch_exit list option"

section \<open>MapGenerator.js: spawn point, exit point, parallax, enemy and elite spawns\<close>

text \<open>Every function takes the generator state first and returns the state it leaves.\<close>

definition generateSpawnPoint :: "rng \<Rightarrow> real \<Rightarrow> real \<Rightarrow> point \<times> rng" where
  "generateSpawnPoint r w h =
     (let (edge, r1) = rng_pick r [''bottom'', ''left'', ''right''];
          margin = 100
      in if edge = Some ''bottom'' then
           (let (x, r2) = rng_range r1 margin (w - margin)
            in (\<lparr> pt_x = x, pt_y = h - margin \<rparr>, r2))
         else if edge = Some ''left'' then
           (let (y, r2) = rng_range r1 margin (h - margin)
            in (\<lparr> pt_x = margin, pt_y = y \<rparr>, r2))
         else if edge = Some ''right'' then
           (let (y, r2) = rng_range r1 margin (h - margin)
            in (\<lparr> pt_x = w - margin, pt_y = y \<rparr>, r2))
         else (\<lparr> pt_x = w / 2, pt_y = h - margin \<rparr>, r1))"

definition generateExitPoint :: "rng \<Rightarrow> point \<Rightarrow> real \<Rightarrow> real \<Rightarrow> point \<times> rng" where
  "generateExitPoint r spawn w h =
     (let margin = 100
      in if pt_y spawn > h / 2 then
           (let (x, r1) = rng_range r margin (w - margin)
            in (\<lparr> pt_x = x, pt_y = margin \<rparr>, r1))
         else if pt_x spawn < w / 2 then
           (let (y, r1) = rng_range r margin (h - margin)
            in (\<lparr> pt_x = w - margin, pt_y = y \<rparr>, r1))
         else
           (let (y, r1) = rng_range r margin (h - margin)
            in (\<lparr> pt_x = margin, pt_y = y \<rparr>, r1)))"

definition star_step :: "real \<Rightarrow> real \<Rightarrow> nat \<Rightarrow> rng \<times> star list \<Rightarrow> rng \<times> star list" where
  "star_step w h i = (\<lambda>(r, stars).
     let (x, r1) = rng_range r 0 w;
         (y, r2) = rng_range r1 0 h;
         (size, r3) = rng_range r2 0.5 2;
         (brightness, r4) = rng_range r3 0.3 1;
         (twinkle, r5) = rng_chance r4 0.3
     in (r5, stars @ [\<lparr> star_x = x, star_y = y, star_size = size,
                        star_brightness = brightness, star_twinkle = twinkle \<rparr>]))"

text \<open>\<open>cap\<close> is \<open>null\<close> or a floored number; \<open>cap ? \<dots>\<close> is false for \<open>null\<close> and for 0.\<close>

definition generateStarfield ::
  "rng \<Rightarrow> real \<Rightarrow> real \<Rightarrow> real \<Rightarrow> real option \<Rightarrow> star list \<times> rng" where
  "generateStarfield r w h density maxCount =
     (let countRaw = js_floor (w * h * density);
          cap = (case maxCount of
                   Some m \<Rightarrow> if m > 0 then Some (js_floor m) else None
                 | None \<Rightarrow> None);
          count = (case cap of
                     Some c \<Rightarrow> if c \<noteq> 0 then min countRaw c else countRaw
                   | None \<Rightarrow> countRaw);
          (r', stars) = for_loop 0 count (\<lambda>_. True) (star_step w h) (r, [])
      in (stars, r'))"

definition wisp_step ::
  "real \<Rightarrow> real \<Rightarrow> string \<Rightarrow> nat \<Rightarrow> rng \<times> wisp list \<Rightarrow> rng \<times> wisp list" where
  "wisp_step w h color i = (\<lambda>(r, wisps).
     let (x, r1) = rng_range r 0 w;
         (y, r2) = rng_range r1 0 h;
         (width, r3) = rng_range r2 200 500;
         (height, r4) = rng_range r3 100 300;
         (alpha, r5) = rng_range r4 0.05 0.15;
         (rotation, r6) = rng_range r5 0 (pi * 2)
     in (r6, wisps @ [\<lparr> wisp_x = x, wisp_y = y, wisp_width = width, wisp_height = height,
                        wisp_color = color, wisp_alpha = alpha, wisp_rotation = rotation \<rparr>]))"

definition generateNebulaWisps ::
  "rng \<Rightarrow> real \<Rightarrow> real \<Rightarrow> nebula_cfg option \<Rightarrow> wisp list \<times> rng" where
  "generateNebulaWisps r w h nebulaConfig =
     (case nebulaConfig of
        None \<Rightarrow> ([], r)
      | Some nc \<Rightarrow>
          if \<not> neb_enabled nc then ([], r)
          else
            (let (count, r1) = (case neb_count nc of
                                  None \<Rightarrow> rng_int r 3 8
                                | Some c \<Rightarrow> if c = 0 then rng_int r 3 8 else (c, r));
                 color = str_or (neb_color nc) ''#4400aa'';
                 (r2, wisps) = for_loop 0 count (\<lambda>_. True) (wisp_step w h color) (r1, [])
             in (wisps, r2)))"

definition generateParallax ::
  "rng \<Rightarrow> 'a game_state_scheme \<Rightarrow> act_config \<Rightarrow> real \<Rightarrow> real \<Rightarrow> parallax \<times> rng" where
  "generateParallax r st actConfig w h =
     (let tune = data_exploration st;
          maxBgStars = num_default (maxStarsBackground tune) 1800;
          maxMidStars = num_default (maxStarsMidground tune) 1200;
          (bgStars, r1) = generateStarfield r (w * 1.5) (h * 1.5) 0.0003 (Some maxBgStars);
          (midStars, r2) = generateStarfield r1 (w * 1.3) (h * 1.3) 0.0002 (Some maxMidStars);
          (objects, r3) = generateNebulaWisps r2 w h (act_nebula actConfig)
      in (\<lparr> bg_color = str_or (act_bgColor actConfig) ''#0a0a15'', bg_stars = bgStars,
            mid_stars = midStars, fg_objects = objects \<rparr>, r3))"

definition enemy_spawn_step ::
  "string list \<Rightarrow> real \<Rightarrow> real \<Rightarrow> point \<Rightarrow> point \<Rightarrow> real \<Rightarrow> real \<Rightarrow> real \<Rightarrow> nat
     \<Rightarrow> rng \<times> enemy_spawn list \<Rightarrow> rng \<times> enemy_spawn list" where
  "enemy_spawn_step pool w h spawn exit minDistFromSpawn minDistFromExit minDistBetween i =
     (\<lambda>(r, spawns).
        let (x, r1) = rng_range r 100 (w - 100);
            (y, r2) = rng_range r1 100 (h - 100);
            distSpawn = hypot (x - pt_x spawn) (y - pt_y spawn);
            distExit = hypot (x - pt_x exit) (y - pt_y exit)
        in if distSpawn < minDistFromSpawn then (r2, spawns)
           else if distExit < minDistFromExit then (r2, spawns)
           else if list_ex (\<lambda>s. hypot (x - es_x s) (y - es_y s) < minDistBetween) spawns
           then (r2, spawns)
           else
             (let (type, r3) = rng_pick r2 pool;
                  (patrol, r4) = rng_pick r3 [''static'', ''circle'', ''line'', ''wander''];
                  (patrolRadius, r5) = rng_int r4 50 150
              in (r5, spawns @ [\<lparr> es_x = x, es_y = y, es_type = type, es_patrol = patrol,
                                   es_patrolRadius = patrolRadius, es_active = False,
                                   es_killed = False, es_packId = None, es_poiId = None,
                                   es_ambush = False, es_ambushDelay = None,
                                   es_isElite = False \<rparr>])))"

definition generateEnemySpawns ::
  "rng \<Rightarrow> 'a game_state_scheme \<Rightarrow> string list \<Rightarrow> real \<Rightarrow> real \<Rightarrow> real \<Rightarrow> point \<Rightarrow> point
     \<Rightarrow> enemy_spawn list \<times> rng" where
  "generateEnemySpawns r st pool density w h spawn exit =
     (let tune = data_exploration st;
          maxSpawns = num_default (maxEnemySpawnsPerZone tune) 120;
          countRaw = js_floor (w * h * density);
          count = max 0 (min countRaw maxSpawns);
          minDistFromSpawn = num_default (enemySpawnMinDistFromSpawn tune) 300;
          minDistFromExit = num_default (enemySpawnMinDistFromExit tune) 200;
          minDistBetween = num_default (enemySpawnMinDistBetween tune) 150;
          (r', spawns) =
            for_loop 0 (count * 3) (\<lambda>(r, spawns). real (length spawns) < count)
              (enemy_spawn_step pool w h spawn exit minDistFromSpawn minDistFromExit
                 minDistBetween)
              (r, [])
      in (spawns, r'))"

definition elite_spawn_step ::
  "string list \<Rightarrow> real \<Rightarrow> real \<Rightarrow> nat \<Rightarrow> rng \<times> elite_spawn list \<Rightarrow> rng \<times> elite_spawn list" where
  "elite_spawn_step pool w h i = (\<lambda>(r, spawns).
     let (x, r1) = rng_range r 200 (w - 200);
         (y, r2) = rng_range r1 200 (h - 200);
         (type, r3) = rng_pick r2 pool
     in (r3, spawns @ [\<lparr> el_x = x, el_y = y, el_type = type,
                         el_active = False, el_killed = False \<rparr>]))"

definition generateEliteSpawns ::
  "rng \<Rightarrow> 'a game_state_scheme \<Rightarrow> string list \<Rightarrow> real \<Rightarrow> real \<Rightarrow> real \<Rightarrow> elite_spawn list \<times> rng" where
  "generateEliteSpawns r st pool density w h =
     (let tune = data_exploration st;
          maxElites = num_default (maxEliteSpawnsPerZone tune) 8;
          countRaw = js_floor (w * h * density);
          count = max 1 (min countRaw maxElites);
          (r', spawns) = for_loop 0 count (\<lambda>_. True) (elite_spawn_step pool w h) (r, [])
      in (spawns, r'))"

section \<open>MapGenerator.js: the pack director\<close>

text \<open>The Fisher-Yates pass \<open>for (let i = idx.length - 1; i > 0; i--)\<close>.\<close>

fun shuffle_from :: "nat \<Rightarrow> rng \<times> nat list \<Rightarrow> rng \<times> nat list" where
  "shuffle_from 0 (r, idx) = (r, idx)"
| "shuffle_from (Suc n) (r, idx) =
     (let i = Suc n;
          (j, r1) = rng_int r 0 (real i);
          tmp = idx ! i;
          idx1 = idx[i := idx ! nat \<lfloor>j\<rfloor>];
          idx2 = idx1[nat \<lfloor>j\<rfloor> := tmp]
      in shuffle_from n (r1, idx2))"

text \<open>\<open>typeof t.weight === 'number' ? t.weight : 1\<close>.\<close>

definition tpl_weight_of :: "pack_template \<Rightarrow> real" where
  "tpl_weight_of t = num_default (tpl_weight t) 1"

text \<open>\<open>pickTemplate\<close>; the caller has checked that \<open>templates\<close> is not empty.\<close>

definition pickTemplate :: "rng \<Rightarrow> pack_template \<Rightarrow> pack_template list \<Rightarrow> pack_template \<times> rng" where
  "pickTemplate r t0 ts =
     (let total = fold (\<lambda>t total. total + tpl_weight_of t) (t0 # ts) 0;
          (roll, r1) = rng_range r 0 total
      in (case pick_weighted tpl_weight_of roll (t0 # ts) of Some t \<Rightarrow> t | None \<Rightarrow> t0, r1))"

definition validAnchor :: "point \<Rightarrow> point \<Rightarrow> real \<Rightarrow> real \<Rightarrow> enemy_spawn \<Rightarrow> bool" where
  "validAnchor spawnPt exitPt minDistFromSpawn minDistFromExit p =
     (let ds = hypot (es_x p - pt_x spawnPt) (es_y p - pt_y spawnPt);
          de = hypot (es_x p - pt_x exitPt) (es_y p - pt_y exitPt)
      in ds \<ge> minDistFromSpawn \<and> de \<ge> minDistFromExit)"

text \<open>The member types of a template with explicit \<open>members\<close>.\<close>

definition member_step :: "pack_member \<Rightarrow> rng \<times> string option list \<Rightarrow> rng \<times> string option list" where
  "member_step mm = (\<lambda>(r, memberTypes).
     let mi = num_default (pm_min mm) 1;
         ma = num_default (pm_max mm) mi;
         (cnt, r1) = rng_int r mi ma
     in (r1, for_loop 0 cnt (\<lambda>_. True) (\<lambda>c mts. mts @ [pm_type mm]) memberTypes))"

definition member_types :: "rng \<Rightarrow> pack_template \<Rightarrow> string option list option \<times> rng" where
  "member_types r tpl =
     (case tpl_members tpl of
        None \<Rightarrow> (None, r)
      | Some members \<Rightarrow>
          if length members > 0 then
            (let (r1, memberTypes) = fold member_step members (r, [])
             in (if length memberTypes < 1 then None else Some memberTypes, r1))
          else (None, r))"

text \<open>The inner loop that marks up to \<open>size - 1\<close> further unused indices.\<close>

definition consume_step :: "nat list \<Rightarrow> nat \<Rightarrow> nat set \<times> nat \<Rightarrow> nat set \<times> nat" where
  "consume_step idx kk = (\<lambda>(used, consumed).
     let j = idx ! kk
     in if j \<in> used then (used, consumed) else (insert j used, consumed + 1))"

text \<open>\<open>!type\<close>: \<open>null\<close>, \<open>undefined\<close> and the empty string.\<close>

definition no_type :: "string option \<Rightarrow> bool" where
  "no_type t = (case t of None \<Rightarrow> True | Some s \<Rightarrow> s = [])"

definition pack_member_step ::
  "enemy_spawn \<Rightarrow> pack_template \<Rightarrow> string option list option \<Rightarrow> real \<Rightarrow> real \<Rightarrow> string list
     \<Rightarrow> nat \<Rightarrow> rng \<times> enemy_spawn list \<Rightarrow> rng \<times> enemy_spawn list" where
  "pack_member_step anchor tpl memberTypes sz spacing pool m = (\<lambda>(r, out).
     let (angle, r1) = rng_range r 0 (pi * 2);
         (dist, r2) = rng_range r1 30 spacing;
         px = es_x anchor + cos angle * dist;
         py = es_y anchor + sin angle * dist;
         (type, r3) =
           (case memberTypes of
              Some mts \<Rightarrow>
                if real (length mts) = sz then (mts ! m, r2)
                else (case tpl_types tpl of
                        Some ts \<Rightarrow> if length ts > 0 then rng_pick r2 ts else (None, r2)
                      | None \<Rightarrow> (None, r2))
            | None \<Rightarrow>
                (case tpl_types tpl of
                   Some ts \<Rightarrow> if length ts > 0 then rng_pick r2 ts else (None, r2)
                 | None \<Rightarrow> (None, r2)));
         (type', r4) = (if no_type type then rng_pick r3 pool else (type, r3))
     in (r4, out @ [\<lparr> es_x = px, es_y = py, es_type = type', es_patrol = es_patrol anchor,
                       es_patrolRadius = es_patrolRadius anchor, es_active = False,
                       es_killed = False, es_packId = Some (str_or (tpl_id tpl) ''pack''),
                       es_poiId = None, es_ambush = False, es_ambushDelay = None,
                       es_isElite = False \<rparr>]))"

text \<open>The pack built at an accepted anchor \<open>spawns[i]\<close>, \<open>i = idx[k]\<close>: the template, the
  size, the indices it consumes and its members. The state is the generator, the set
  \<open>used\<close>, the list \<open>out\<close> and the counter \<open>packsMade\<close>.\<close>

definition make_pack ::
  "nat list \<Rightarrow> pack_template \<Rightarrow> pack_template list \<Rightarrow> string list \<Rightarrow> real \<Rightarrow> real \<Rightarrow> real
     \<Rightarrow> nat \<Rightarrow> nat \<Rightarrow> enemy_spawn
     \<Rightarrow> rng \<times> nat set \<times> enemy_spawn list \<times> nat \<Rightarrow> rng \<times> nat set \<times> enemy_spawn list \<times> nat" where
  "make_pack idx t0 ts pool minSize maxSize spacing k i anchor = (\<lambda>(r1, used, out, packsMade).
     let (tpl, r2) = pickTemplate r1 t0 ts;
         (memberTypes, r3) = member_types r2 tpl;
         (sz, r4) = (case memberTypes of
                       Some mts \<Rightarrow> (real (length mts), r3)
                     | None \<Rightarrow> rng_int r3 minSize maxSize);
         (used', consumed) =
           for_loop (k + 1) (real (length idx))
             (\<lambda>(used, consumed). real consumed < sz)
             (consume_step idx) (insert i used, 1);
         (r5, out') =
           for_loop 0 sz (\<lambda>_. True)
             (pack_member_step anchor tpl memberTypes sz spacing pool) (r4, out)
     in (r5, used', out', packsMade + 1))"

text \<open>One pass of the main loop over the shuffled indices, with its three
  \<open>continue\<close> exits and the chance test.\<close>

definition pack_step ::
  "enemy_spawn list \<Rightarrow> nat list \<Rightarrow> pack_template \<Rightarrow> pack_template list \<Rightarrow> string list
     \<Rightarrow> point \<Rightarrow> point \<Rightarrow> real \<Rightarrow> real \<Rightarrow> real \<Rightarrow> real \<Rightarrow> real \<Rightarrow> real \<Rightarrow> nat
     \<Rightarrow> rng \<times> nat set \<times> enemy_spawn list \<times> nat \<Rightarrow> rng \<times> nat set \<times> enemy_spawn list \<times> nat" where
  "pack_step spawns idx t0 ts pool spawnPt exitPt chance minSize maxSize spacing
       minDistFromSpawn minDistFromExit k = (\<lambda>(r, used, out, packsMade).
     let i = idx ! k
     in if i \<in> used then (r, used, out, packsMade)
        else if \<not> i < length spawns then (r, used, out, packsMade)
        else if \<not> validAnchor spawnPt exitPt minDistFromSpawn minDistFromExit (spawns ! i)
        then (r, used, out, packsMade)
        else
          (let anchor = spawns ! i;
               (roll, r1) = rng_range r 0 1
           in if roll > chance then (r1, used, out, packsMade)
              else make_pack idx t0 ts pool minSize maxSize spacing k i anchor
                     (r1, used, out, packsMade)))"

text \<open>The last loop: the spawns that no pack consumed, in their order.\<close>

definition remaining_singles :: "enemy_spawn list \<Rightarrow> nat set \<Rightarrow> enemy_spawn list" where
  "remaining_singles spawns used =
     map snd (filter (\<lambda>(i, s). i \<notin> used) (enumerate 0 spawns))"

definition applyPackDirector ::
  "rng \<Rightarrow> 'a game_state_scheme \<Rightarrow> enemy_spawn list \<Rightarrow> string list \<Rightarrow> point \<Rightarrow> point
     \<Rightarrow> enemy_spawn list \<times> rng" where
  "applyPackDirector r st spawns pool spawnPt exitPt =
     (case data_packs st of
        None \<Rightarrow> (spawns, r)
      | Some packsData \<Rightarrow>
          (case packs_templates packsData of
             None \<Rightarrow> (spawns, r)
           | Some [] \<Rightarrow> (spawns, r)
           | Some (t0 # ts) \<Rightarrow>
               (let chance = num_default (packChance packsData) 0.7;
                    minSize = num_default (packSizeMin packsData) 3;
                    maxSize = num_default (packSizeMax packsData) 5;
                    maxPacks = num_default (maxPacksPerZone packsData) 6;
                    spacing = num_default (memberSpacing packsData) 120;
                    minDistFromSpawn = num_default (packs_minDistFromSpawn packsData) 350;
                    minDistFromExit = num_default (packs_minDistFromExit packsData) 250
                in if real (length spawns) < minSize then (spawns, r)
                   else
                     (let (r1, idx) = shuffle_from (length spawns - 1) (r, [0..<length spawns]);
                          (r2, used, out, packsMade) =
                            for_loop 0 (real (length idx))
                              (\<lambda>(r, used, out, packsMade). real packsMade < maxPacks)
                              (pack_step spawns idx t0 ts pool spawnPt exitPt chance
                                 minSize maxSize spacing minDistFromSpawn minDistFromExit)
                              (r1, {}, [], 0)
                      in (out @ remaining_singles spawns used, r2)))))"

section \<open>MapGenerator.js: obstacles\<close>

text \<open>One asteroid of a corridor wall; \<open>spread\<close> is drawn and never used.\<close>

definition wall_step ::
  "real \<Rightarrow> real \<Rightarrow> real \<Rightarrow> real \<Rightarrow> real \<Rightarrow> real \<Rightarrow> real \<Rightarrow> real \<Rightarrow> real \<Rightarrow> real \<Rightarrow> nat
     \<Rightarrow> rng \<times> obstacle list \<Rightarrow> rng \<times> obstacle list" where
  "wall_step w h baseX baseY jitterX jitterY perpX perpY corridorWidth side a = (\<lambda>(r, walls).
     let (o1, r1) = rng_range r 20 120;
         offset = corridorWidth * 0.5 + o1;
         (spread, r2) = rng_range r1 (- 40) 40;
         (j1, r3) = rng_range r2 (- 20) 20;
         px = baseX + jitterX + perpX * offset * side + j1;
         (j2, r4) = rng_range r3 (- 20) 20;
         py = baseY + jitterY + perpY * offset * side + j2
     in if px < 50 \<or> px > w - 50 \<or> py < 50 \<or> py > h - 50 then (r4, walls)
        else
          (let (radius, r5) = rng_int r4 20 55;
               (rotation, r6) = rng_range r5 0 (pi * 2);
               (hp, r7) = rng_int r6 30 60
           in (r7, walls @ [mk_obstacle px py (Some ''asteroid'') radius rotation True (Some hp)])))"

definition segment_step ::
  "real \<Rightarrow> real \<Rightarrow> real \<Rightarrow> real \<Rightarrow> real \<Rightarrow> real \<Rightarrow> real \<Rightarrow> real \<Rightarrow> real \<Rightarrow> real \<Rightarrow> nat
     \<Rightarrow> rng \<times> obstacle list \<Rightarrow> rng \<times> obstacle list" where
  "segment_step w h budget perCorridor sx sy ex ey segments corridorWidth s = (\<lambda>(r, walls).
     let t = real s / segments;
         baseX = sx + (ex - sx) * t;
         baseY = sy + (ey - sy) * t;
         dx = ex - sx;
         dy = ey - sy;
         len = (if hypot dx dy = 0 then 1 else hypot dx dy);
         perpX = - dy / len;
         perpY = dx / len;
         (jitterX, r1) = rng_range r (- 80) 80;
         (jitterY, r2) = rng_range r1 (- 80) 80;
         asteroidsPerSide = js_floor (perCorridor / segments / 2)
     in fold (\<lambda>side. for_loop 0 asteroidsPerSide
                        (\<lambda>(r, walls). real (length walls) < budget)
                        (wall_step w h baseX baseY jitterX jitterY perpX perpY corridorWidth side))
             [- 1, 1] (r2, walls))"

definition corridor_step ::
  "real \<Rightarrow> real \<Rightarrow> real \<Rightarrow> real \<Rightarrow> nat \<Rightarrow> rng \<times> obstacle list \<Rightarrow> rng \<times> obstacle list" where
  "corridor_step w h budget perCorridor c = (\<lambda>(r, walls).
     let (startEdge, r1) = rng_pick r [''top'', ''bottom'', ''left'', ''right''];
         m = 150;
         (sx, sy, ex, ey, r3) =
           (if startEdge = Some ''top'' then
              (let (sx, r2) = rng_range r1 m (w - m); (ex, r3) = rng_range r2 m (w - m)
               in (sx, m, ex, h - m, r3))
            else if startEdge = Some ''bottom'' then
              (let (sx, r2) = rng_range r1 m (w - m); (ex, r3) = rng_range r2 m (w - m)
               in (sx, h - m, ex, m, r3))
            else if startEdge = Some ''left'' then
              (let (sy, r2) = rng_range r1 m (h - m); (ey, r3) = rng_range r2 m (h - m)
               in (m, sy, w - m, ey, r3))
            else
              (let (sy, r2) = rng_range r1 m (h - m); (ey, r3) = rng_range r2 m (h - m)
               in (w - m, sy, m, ey, r3)));
         (segments, r4) = rng_int r3 8 15;
         (corridorWidth, r5) = rng_range r4 100 200
     in for_loop_le 0 segments
          (segment_step w h budget perCorridor sx sy ex ey segments corridorWidth) (r5, walls))"

definition generateCorridorWalls :: "rng \<Rightarrow> real \<Rightarrow> real \<Rightarrow> real \<Rightarrow> obstacle list \<times> rng" where
  "generateCorridorWalls r w h budget =
     (let (corridorCount, r1) = rng_int r 2 4;
          perCorridor = js_floor (budget / corridorCount);
          (r2, walls) =
            for_loop 0 corridorCount (\<lambda>_. True) (corridor_step w h budget perCorridor) (r1, [])
      in (walls, r2))"

text \<open>The \<open>hp\<close> and \<open>damage\<close> of a cluster or scatter obstacle, by its type.\<close>

definition obstacle_hp :: "rng \<Rightarrow> string option \<Rightarrow> real \<times> rng" where
  "obstacle_hp r t =
     (if t = Some ''asteroid'' then rng_int r 25 60
      else (if t = Some ''mine'' then 6 else 12, r))"

definition obstacle_damage :: "int \<Rightarrow> string option \<Rightarrow> real" where
  "obstacle_damage depth t =
     (if t = Some ''mine'' then 8 + js_floor (real_of_int depth * 0.25) else 0)"

definition cluster_member_step ::
  "string list \<Rightarrow> int \<Rightarrow> real \<Rightarrow> real \<Rightarrow> real \<Rightarrow> nat
     \<Rightarrow> rng \<times> obstacle list \<times> nat \<Rightarrow> rng \<times> obstacle list \<times> nat" where
  "cluster_member_step mods depth cx cy clusterRadius i = (\<lambda>(r, obs, clusterUsed).
     let (a, r1) = rng_range r 0 (pi * 2);
         (d, r2) = rng_range r1 0 clusterRadius;
         typePool = (if ''MINEFIELD'' \<in> set mods
                     then [''asteroid'', ''debris'', ''mine'', ''mine'']
                     else [''asteroid'', ''debris'', ''asteroid'']);
         (type, r3) = rng_pick r2 typePool;
         (radius, r4) = (if type = Some ''asteroid'' then rng_int r3 20 60 else rng_int r3 12 25);
         (rotation, r5) = rng_range r4 0 (pi * 2);
         (hp, r6) = obstacle_hp r5 type
     in (r6,
         obs @ [(mk_obstacle (cx + cos a * d) (cy + sin a * d) type radius rotation True (Some hp))
                  \<lparr> ob_damage := Some (obstacle_damage depth type) \<rparr>],
         clusterUsed + 1))"

definition cluster_step ::
  "string list \<Rightarrow> int \<Rightarrow> real \<Rightarrow> real \<Rightarrow> real \<Rightarrow> nat
     \<Rightarrow> rng \<times> obstacle list \<times> nat \<Rightarrow> rng \<times> obstacle list \<times> nat" where
  "cluster_step mods depth w h clusterBudget c = (\<lambda>(r, obs, clusterUsed).
     let (cx, r1) = rng_range r 200 (w - 200);
         (cy, r2) = rng_range r1 200 (h - 200);
         (clusterSize, r3) = rng_int r2 8 20;
         (clusterRadius, r4) = rng_range r3 80 200
     in for_loop 0 clusterSize (\<lambda>(r, obs, clusterUsed). real clusterUsed < clusterBudget)
          (cluster_member_step mods depth cx cy clusterRadius) (r4, obs, clusterUsed))"

definition scatter_step ::
  "string list \<Rightarrow> int \<Rightarrow> real \<Rightarrow> real \<Rightarrow> nat \<Rightarrow> rng \<times> obstacle list \<Rightarrow> rng \<times> obstacle list" where
  "scatter_step mods depth w h i = (\<lambda>(r, obs).
     let typePool = (if ''MINEFIELD'' \<in> set mods
                     then [''asteroid'', ''debris'', ''mine'', ''mine'']
                     else [''asteroid'', ''debris'']);
         (type, r1) = rng_pick r typePool;
         (x, r2) = rng_range r1 100 (w - 100);
         (y, r3) = rng_range r2 100 (h - 100);
         (radius, r4) = (if type = Some ''asteroid'' then rng_int r3 25 70 else rng_int r3 15 30);
         (rotation, r5) = rng_range r4 0 (pi * 2);
         (hp, r6) = obstacle_hp r5 type
     in (r6, obs @ [(mk_obstacle x y type radius rotation True (Some hp))
                      \<lparr> ob_damage := Some (obstacle_damage depth type) \<rparr>]))"

text \<open>The chaos lane: \<open>if (obs.hp)\<close> skips an absent and a zero \<open>hp\<close>.\<close>

definition chaos_scale :: "obstacle \<Rightarrow> obstacle" where
  "chaos_scale obs =
     (let obs1 = (case ob_hp obs of
                    None \<Rightarrow> obs
                  | Some v \<Rightarrow> if v = 0 then obs else obs \<lparr> ob_hp := Some (js_ceil (v * 2.5)) \<rparr>)
      in if ob_type obs1 = Some ''mine''
         then obs1 \<lparr> ob_hunting := True, ob_huntSpeed := Some 40,
                    ob_damage := map_option (\<lambda>d. js_ceil (d * 1.5)) (ob_damage obs1) \<rparr>
         else obs1)"

definition poison_step ::
  "int \<Rightarrow> real \<Rightarrow> real \<Rightarrow> nat \<Rightarrow> rng \<times> obstacle list \<Rightarrow> rng \<times> obstacle list" where
  "poison_step depth w h i = (\<lambda>(r, obs).
     let (x, r1) = rng_range r 200 (w - 200);
         (y, r2) = rng_range r1 200 (h - 200);
         (radius, r3) = rng_int r2 80 160
     in (r3, obs @ [(mk_obstacle x y (Some ''poison_area'') radius 0 False None)
                      \<lparr> ob_dotDamage := Some (3 + js_floor (real_of_int depth * 0.1)),
                        ob_glow := Some ''#44ff00'' \<rparr>]))"

definition generateObstacles ::
  "rng \<Rightarrow> 'a game_state_scheme \<Rightarrow> real \<Rightarrow> real \<Rightarrow> real \<Rightarrow> options \<Rightarrow> obstacle list \<times> rng" where
  "generateObstacles r st density w h opts =
     (let tune = data_exploration st;
          maxObs = num_default (maxObstaclesPerZone tune) 1200;
          depth = depth_of (opt_depth opts);
          mods = list_or (opt_mods opts) [];
          countRaw = js_floor (w * h * density);
          budgetTotal = min countRaw maxObs;
          corridorBudget = js_floor (budgetTotal * 0.4);
          (corridorObs, r1) = generateCorridorWalls r w h corridorBudget;
          obstacles1 = [] @ corridorObs;
          clusterBudget = js_floor (budgetTotal * 0.3);
          (clusterCount, r2) = rng_int r1 3 6;
          (r3, obstacles2, clusterUsed) =
            for_loop 0 clusterCount (\<lambda>(r, obs, clusterUsed). real clusterUsed < clusterBudget)
              (cluster_step mods depth w h clusterBudget) (r2, obstacles1, 0);
          scatterBudget = budgetTotal - real (length obstacles2);
          (r4, obstacles3) =
            for_loop 0 scatterBudget (\<lambda>_. True) (scatter_step mods depth w h) (r3, obstacles2);
          diff = str_or (opt_difficulty opts) ''normal''
      in if diff = ''chaos'' then
           (let obstacles4 = map chaos_scale obstacles3;
                (poisonCount, r5) = rng_int r4 3 5;
                (r6, obstacles5) =
                  for_loop 0 poisonCount (\<lambda>_. True) (poison_step depth w h) (r5, obstacles4)
            in (obstacles5, r6))
         else (obstacles3, r4))"

section \<open>MapGenerator.js: decorations\<close>

text \<open>\<open>table[biome] || table['space']\<close> for the three tables keyed by biome.\<close>

definition dust_colors :: "string option \<Rightarrow> string list" where
  "dust_colors biome =
     (if biome = Some ''asteroid'' then [''#332211'', ''#221100'', ''#1a1a00'', ''#112211'']
      else if biome = Some ''station'' then [''#111122'', ''#0a0a1a'', ''#1a1122'', ''#0a1122'']
      else [''#221144'', ''#112244'', ''#110033'', ''#001122''])"

definition nebulaColors :: "string option \<Rightarrow> string list" where
  "nebulaColors biome =
     (if biome = Some ''asteroid'' then [''#664400'', ''#446600'', ''#884400'', ''#226622'']
      else if biome = Some ''station'' then [''#004488'', ''#440088'', ''#006688'', ''#880044'']
      else [''#4400aa'', ''#aa0044'', ''#0044aa'', ''#006644''])"

definition smallTypes :: "string option \<Rightarrow> string list" where
  "smallTypes biome =
     (if biome = Some ''asteroid'' then [''rock_small'', ''rock_tiny'', ''ice_shard'', ''metal_flake'']
      else if biome = Some ''station''
      then [''panel_fragment'', ''wire_coil'', ''light_flicker'', ''spark'']
      else [''star_bright'', ''star_dim'', ''star_colored'', ''sparkle''])"

definition getLandmarkTypes :: "string option \<Rightarrow> string list" where
  "getLandmarkTypes biome =
     (if biome = Some ''asteroid''
      then [''rock_formation'', ''ice_cluster'', ''ancient_marker'', ''dead_ship'', ''mining_rig'']
      else if biome = Some ''station''
      then [''station_hull'', ''antenna_array'', ''cargo_pod'', ''solar_panel'', ''dead_ship'']
      else [''gas_cloud'', ''dead_ship'', ''ancient_marker'', ''comet_trail'', ''beacon_ruins''])"

definition palettes :: "string \<Rightarrow> string list option" where
  "palettes t =
     (if t = ''star_bright'' then Some [''#ffffff'', ''#ffffcc'', ''#ccddff'']
      else if t = ''star_dim'' then Some [''#666688'', ''#556677'', ''#445566'']
      else if t = ''star_colored''
      then Some [''#ff8866'', ''#66aaff'', ''#ffcc44'', ''#88ff88'', ''#ff66aa'']
      else if t = ''sparkle'' then Some [''#ffffff'', ''#aaddff'', ''#ffddaa'']
      else if t = ''rock_small'' then Some [''#667788'', ''#556677'', ''#445566'']
      else if t = ''rock_tiny'' then Some [''#778899'', ''#556677'', ''#445566'']
      else if t = ''ice_shard'' then Some [''#88ccff'', ''#aaddff'', ''#66bbee'']
      else if t = ''metal_flake'' then Some [''#8899aa'', ''#99aabb'', ''#778899'']
      else if t = ''panel_fragment'' then Some [''#556677'', ''#667788'', ''#445566'']
      else if t = ''wire_coil'' then Some [''#887744'', ''#776633'', ''#665522'']
      else if t = ''light_flicker'' then Some [''#ffcc00'', ''#ff8800'', ''#00aaff'']
      else if t = ''spark'' then Some [''#ffdd44'', ''#ff8844'', ''#ffffff'']
      else None)"

definition getDecoColor :: "rng \<Rightarrow> string option \<Rightarrow> string option \<times> rng" where
  "getDecoColor r t =
     rng_pick r (case t of
                   None \<Rightarrow> [''#888888'']
                 | Some s \<Rightarrow> list_or (palettes s) [''#888888''])"

text \<open>\<open>type.includes(sub)\<close>.\<close>

fun str_includes :: "string \<Rightarrow> string \<Rightarrow> bool" where
  "str_includes [] sub = (sub = [])"
| "str_includes (c # cs) sub = (take (length sub) (c # cs) = sub \<or> str_includes cs sub)"

definition mk_decoration :: "real \<Rightarrow> real \<Rightarrow> string option \<Rightarrow> decoration" where
  "mk_decoration x y t =
     \<lparr> dc_x = x, dc_y = y, dc_type = t, dc_width = None, dc_height = None, dc_radius = None,
       dc_color = None, dc_alpha = 0, dc_rotation = 0, dc_scale = 1, dc_variant = None,
       dc_size = None \<rparr>"

definition dust_step ::
  "string option \<Rightarrow> real \<Rightarrow> real \<Rightarrow> nat \<Rightarrow> rng \<times> decoration list \<Rightarrow> rng \<times> decoration list" where
  "dust_step biome w h i = (\<lambda>(r, decs).
     let (x, r1) = rng_range r 0 w;
         (y, r2) = rng_range r1 0 h;
         (width, r3) = rng_range r2 400 900;
         (height, r4) = rng_range r3 250 600;
         (color, r5) = rng_pick r4 (dust_colors biome);
         (alpha, r6) = rng_range r5 0.06 0.15;
         (rotation, r7) = rng_range r6 0 (pi * 2)
     in (r7, decs @ [(mk_decoration x y (Some ''dust_cloud''))
                       \<lparr> dc_width := Some width, dc_height := Some height, dc_color := color,
                         dc_alpha := alpha, dc_rotation := rotation, dc_scale := 1 \<rparr>]))"

definition nebula_step ::
  "string option \<Rightarrow> real \<Rightarrow> real \<Rightarrow> nat \<Rightarrow> rng \<times> decoration list \<Rightarrow> rng \<times> decoration list" where
  "nebula_step biome w h i = (\<lambda>(r, decs).
     let (x, r1) = rng_range r 100 (w - 100);
         (y, r2) = rng_range r1 100 (h - 100);
         (radius, r3) = rng_range r2 150 400;
         (color, r4) = rng_pick r3 (nebulaColors biome);
         (alpha, r5) = rng_range r4 0.04 0.12;
         (rotation, r6) = rng_range r5 0 (pi * 2)
     in (r6, decs @ [(mk_decoration x y (Some ''nebula_patch''))
                       \<lparr> dc_radius := Some radius, dc_color := color, dc_alpha := alpha,
                         dc_rotation := rotation, dc_scale := 1 \<rparr>]))"

definition landmark_step ::
  "string list \<Rightarrow> real \<Rightarrow> real \<Rightarrow> nat \<Rightarrow> rng \<times> decoration list \<Rightarrow> rng \<times> decoration list" where
  "landmark_step landmarkTypes w h i = (\<lambda>(r, decs).
     let (type, r1) = rng_pick r landmarkTypes;
         (x, r2) = rng_range r1 200 (w - 200);
         (y, r3) = rng_range r2 200 (h - 200);
         (scale, r4) = rng_range r3 0.7 1.5;
         (rotation, r5) = rng_range r4 0 (pi * 2);
         (alpha, r6) = rng_range r5 0.4 0.8;
         (variant, r7) = rng_int r6 0 3
     in (r7, decs @ [(mk_decoration x y type)
                       \<lparr> dc_alpha := alpha, dc_rotation := rotation, dc_scale := scale,
                         dc_variant := Some variant \<rparr>]))"

definition small_step ::
  "string list \<Rightarrow> real \<Rightarrow> real \<Rightarrow> nat \<Rightarrow> rng \<times> decoration list \<Rightarrow> rng \<times> decoration list" where
  "small_step smallPool w h i = (\<lambda>(r, decs).
     let (type, r1) = rng_pick r smallPool;
         (x, r2) = rng_range r1 0 w;
         (y, r3) = rng_range r2 0 h;
         (scale, r4) = rng_range r3 0.3 1.2;
         (rotation, r5) = rng_range r4 0 (pi * 2);
         (alpha, r6) = (if (case type of None \<Rightarrow> False | Some s \<Rightarrow> str_includes s ''dim'')
                        then rng_range r5 0.15 0.4 else rng_range r5 0.4 0.9);
         (color, r7) = getDecoColor r6 type;
         (size, r8) = rng_range r7 1 4
     in (r8, decs @ [(mk_decoration x y type)
                       \<lparr> dc_color := color, dc_alpha := alpha, dc_rotation := rotation,
                         dc_scale := scale, dc_size := Some size \<rparr>]))"

definition generateDecorations ::
  "rng \<Rightarrow> 'a game_state_scheme \<Rightarrow> string option \<Rightarrow> real \<Rightarrow> real \<Rightarrow> decoration list \<times> rng" where
  "generateDecorations r st biome w h =
     (let tune = data_exploration st;
          maxDec = num_default (maxDecorationsPerZone tune) 3000;
          (dustCount, r1) = rng_int r 4 8;
          (r2, decs1) = for_loop 0 dustCount (\<lambda>_. True) (dust_step biome w h) (r1, []);
          (nebulaCount, r3) = rng_int r2 2 5;
          (r4, decs2) = for_loop 0 nebulaCount (\<lambda>_. True) (nebula_step biome w h) (r3, decs1);
          (landmarkCount, r5) = rng_int r4 3 6;
          landmarkTypes = getLandmarkTypes biome;
          (r6, decs3) =
            for_loop 0 landmarkCount (\<lambda>_. True) (landmark_step landmarkTypes w h) (r5, decs2);
          smallPool = smallTypes biome;
          smallCount = min (maxDec - real (length decs3)) (js_floor (w * h * 0.0004));
          (r7, decs4) = for_loop 0 smallCount (\<lambda>_. True) (small_step smallPool w h) (r6, decs3)
      in (decs4, r7))"

section \<open>MapGenerator.js: points of interest\<close>

definition mk_poi_enemy :: "real \<Rightarrow> real \<Rightarrow> string option \<Rightarrow> string \<Rightarrow> real \<Rightarrow> poi_enemy" where
  "mk_poi_enemy x y t patrol patrolRadius =
     \<lparr> pe_x = x, pe_y = y, pe_type = t, pe_patrol = patrol, pe_patrolRadius = patrolRadius,
       pe_ambush = False, pe_ambushDelay = None, pe_isElite = False \<rparr>"

definition mk_poi ::
  "nat \<Rightarrow> string \<Rightarrow> real \<Rightarrow> real \<Rightarrow> real \<Rightarrow> string \<Rightarrow> reward option \<Rightarrow> poi_enemy list
     \<Rightarrow> obstacle list \<Rightarrow> bool \<Rightarrow> bool \<Rightarrow> poi" where
  "mk_poi index t cx cy radius label rw enemies obs triggered cleared =
     \<lparr> poi_id = (index, t), poi_type = t, poi_x = cx, poi_y = cy, poi_radius = radius,
       poi_label = label, poi_reward = rw, poi_enemies = enemies, poi_obstacles = obs,
       poi_triggered = triggered, poi_cleared = cleared, poi_collected = False,
       poi_hidden = False, poi_interactable = False, poi_interactPrompt = None,
       poi_waveConfig = None \<rparr>"

definition mk_reward :: "string \<Rightarrow> string option \<Rightarrow> reward" where
  "mk_reward t rarity =
     \<lparr> rw_type = t, rw_rarity = rarity, rw_scrap = None, rw_cells = None, rw_value = None,
       rw_voidShards = None \<rparr>"

subsection \<open>Guard post\<close>

definition guard_step ::
  "string list \<Rightarrow> real \<Rightarrow> real \<Rightarrow> real \<Rightarrow> real \<Rightarrow> nat \<Rightarrow> rng \<times> poi_enemy list \<Rightarrow> rng \<times> poi_enemy list" where
  "guard_step pool cx cy guardCount radius i = (\<lambda>(r, enemies).
     let a = (real i / guardCount) * pi * 2;
         (type, r1) = rng_pick r pool
     in (r1, enemies @ [mk_poi_enemy (cx + cos a * radius) (cy + sin a * radius) type
                          ''circle'' 40]))"

definition guard_cover_step ::
  "real \<Rightarrow> real \<Rightarrow> real \<Rightarrow> nat \<Rightarrow> rng \<times> obstacle list \<Rightarrow> rng \<times> obstacle list" where
  "guard_cover_step cx cy radius i = (\<lambda>(r, obs).
     let (a, r1) = rng_range r 0 (pi * 2);
         (oradius, r2) = rng_int r1 20 35;
         (rotation, r3) = rng_range r2 0 (pi * 2)
     in (r3, obs @ [mk_obstacle (cx + cos a * (radius * 0.5)) (cy + sin a * (radius * 0.5))
                      (Some ''debris'') oradius rotation True (Some 20)]))"

definition poi_guard_post ::
  "rng \<Rightarrow> nat \<Rightarrow> real \<Rightarrow> real \<Rightarrow> int \<Rightarrow> string list \<Rightarrow> poi \<times> rng" where
  "poi_guard_post r index cx cy depth pool =
     (let (guardCount, r1) = rng_int r 4 6;
          (radius, r2) = rng_int r1 100 160;
          (r3, enemies) =
            for_loop 0 guardCount (\<lambda>_. True) (guard_step pool cx cy guardCount radius) (r2, []);
          (r4, obs) = for_loop 0 3 (\<lambda>_. True) (guard_cover_step cx cy radius) (r3, []);
          (scrap, r5) = rng_int r4 15 40
      in (mk_poi index ''guard_post'' cx cy (radius + 80) ''Guarded Cache''
            (Some ((mk_reward ''loot_cache'' (Some (if depth > 20 then ''rare'' else ''uncommon'')))
                     \<lparr> rw_scrap := Some scrap \<rparr>))
            enemies obs False False, r5))"

subsection \<open>Treasure cache\<close>

definition poi_treasure_cache ::
  "rng \<Rightarrow> nat \<Rightarrow> real \<Rightarrow> real \<Rightarrow> string list \<Rightarrow> poi \<times> rng" where
  "poi_treasure_cache r index cx cy pool =
     (let (hasGuard, r1) = rng_chance r 0.4;
          (enemies, r4) =
            (if hasGuard then
               (let (ox, r2) = rng_range r1 (- 60) 60;
                    (oy, r3) = rng_range r2 (- 60) 60;
                    (type, r4) = rng_pick r3 pool
                in ([mk_poi_enemy (cx + ox) (cy + oy) type ''static'' 30], r4))
             else ([], r1));
          (epic, r5) = rng_chance r4 0.15;
          (scrap, r6) = rng_int r5 8 20
      in (mk_poi index ''treasure_cache'' cx cy 80 ''Hidden Cache''
            (Some ((mk_reward ''loot_cache'' (Some (if epic then ''epic'' else ''rare'')))
                     \<lparr> rw_scrap := Some scrap \<rparr>))
            enemies [] False (\<not> hasGuard), r6))"

subsection \<open>Ambush zone\<close>

definition ambush_step ::
  "string list \<Rightarrow> real \<Rightarrow> real \<Rightarrow> nat \<Rightarrow> rng \<times> poi_enemy list \<Rightarrow> rng \<times> poi_enemy list" where
  "ambush_step pool cx cy i = (\<lambda>(r, enemies).
     let (a, r1) = rng_range r 0 (pi * 2);
         (d, r2) = rng_range r1 80 200;
         (type, r3) = rng_pick r2 pool;
         (delay, r4) = rng_range r3 0.2 1.5
     in (r4, enemies @ [(mk_poi_enemy (cx + cos a * d) (cy + sin a * d) type ''wander'' 60)
                          \<lparr> pe_ambush := True, pe_ambushDelay := Some delay \<rparr>]))"

definition poi_ambush_zone ::
  "rng \<Rightarrow> nat \<Rightarrow> real \<Rightarrow> real \<Rightarrow> string list \<Rightarrow> poi \<times> rng" where
  "poi_ambush_zone r index cx cy pool =
     (let (count, r1) = rng_int r 5 8;
          (r2, enemies) = for_loop 0 count (\<lambda>_. True) (ambush_step pool cx cy) (r1, []);
          (v, r3) = rng_int r2 20 50;
          (scrap, r4) = rng_int r3 20 50
      in ((mk_poi index ''ambush_zone'' cx cy 250 ''Danger Zone''
             (Some ((mk_reward ''cells'' None) \<lparr> rw_value := Some v, rw_scrap := Some scrap \<rparr>))
             enemies [] False False) \<lparr> poi_hidden := True \<rparr>, r4))"

subsection \<open>Elite den\<close>

definition minion_step ::
  "string list \<Rightarrow> real \<Rightarrow> real \<Rightarrow> nat \<Rightarrow> rng \<times> poi_enemy list \<Rightarrow> rng \<times> poi_enemy list" where
  "minion_step pool cx cy i = (\<lambda>(r, enemies).
     let (a, r1) = rng_range r 0 (pi * 2);
         (type, r2) = rng_pick r1 pool
     in (r2, enemies @ [mk_poi_enemy (cx + cos a * 120) (cy + sin a * 120) type ''circle'' 50]))"

definition den_wall_step ::
  "real \<Rightarrow> real \<Rightarrow> real \<Rightarrow> nat \<Rightarrow> rng \<times> obstacle list \<Rightarrow> rng \<times> obstacle list" where
  "den_wall_step cx cy wallCount i = (\<lambda>(r, obs).
     let (j, r1) = rng_range r (- 0.3) 0.3;
         a = (real i / wallCount) * pi * 2 + j;
         (radius, r2) = rng_int r1 35 55;
         (rotation, r3) = rng_range r2 0 (pi * 2)
     in (r3, obs @ [mk_obstacle (cx + cos a * 200) (cy + sin a * 200) (Some ''asteroid'')
                      radius rotation True (Some 40)]))"

definition poi_elite_den ::
  "rng \<Rightarrow> nat \<Rightarrow> real \<Rightarrow> real \<Rightarrow> string list \<Rightarrow> string list \<Rightarrow> poi \<times> rng" where
  "poi_elite_den r index cx cy pool elitePool =
     (let (etype, r1) = rng_pick r elitePool;
          enemies0 = [(mk_poi_enemy cx cy etype ''circle'' 80) \<lparr> pe_isElite := True \<rparr>];
          (minionCount, r2) = rng_int r1 2 3;
          (r3, enemies) = for_loop 0 minionCount (\<lambda>_. True) (minion_step pool cx cy) (r2, enemies0);
          (wallCount, r4) = rng_int r3 4 6;
          (r5, obs) = for_loop 0 wallCount (\<lambda>_. True) (den_wall_step cx cy wallCount) (r4, []);
          (scrap, r6) = rng_int r5 30 60;
          (cells, r7) = rng_int r6 15 30
      in (mk_poi index ''elite_den'' cx cy 220 ''Elite Den''
            (Some ((mk_reward ''loot_cache'' (Some ''epic''))
                     \<lparr> rw_scrap := Some scrap, rw_cells := Some cells \<rparr>))
            enemies obs False False, r7))"

subsection \<open>Ore deposit\<close>

definition ore_step ::
  "real \<Rightarrow> real \<Rightarrow> nat \<Rightarrow> rng \<times> obstacle list \<Rightarrow> rng \<times> obstacle list" where
  "ore_step cx cy i = (\<lambda>(r, obs).
     let (a, r1) = rng_range r 0 (pi * 2);
         (d, r2) = rng_range r1 30 100;
         (radius, r3) = rng_int r2 25 50;
         (hp, r4) = rng_int r3 30 60;
         (rotation, r5) = rng_range r4 0 (pi * 2)
     in (r5, obs @ [(mk_obstacle (cx + cos a * d) (cy + sin a * d) (Some ''ore_rich'')
                       radius rotation True (Some hp))
                      \<lparr> ob_glow := Some ''#ffaa00'', ob_resourceType := Some ''scrap'',
                        ob_resourceMult := Some 3 \<rparr>]))"

definition poi_ore_deposit :: "rng \<Rightarrow> nat \<Rightarrow> real \<Rightarrow> real \<Rightarrow> poi \<times> rng" where
  "poi_ore_deposit r index cx cy =
     (let (nodeCount, r1) = rng_int r 3 5;
          (r2, obs) = for_loop 0 nodeCount (\<lambda>_. True) (ore_step cx cy) (r1, [])
      in (mk_poi index ''ore_deposit'' cx cy 150 ''Ore Deposit'' None [] obs True True, r2))"

subsection \<open>Crystal cavern\<close>

definition crystal_step ::
  "int \<Rightarrow> real \<Rightarrow> real \<Rightarrow> real \<Rightarrow> nat \<Rightarrow> rng \<times> obstacle list \<Rightarrow> rng \<times> obstacle list" where
  "crystal_step depth cx cy nodeCount i = (\<lambda>(r, obs).
     let (j, r1) = rng_range r (- 0.4) 0.4;
         a = (real i / nodeCount) * pi * 2 + j;
         (d, r2) = rng_range r1 40 90;
         (radius, r3) = rng_int r2 20 40;
         (hp, r4) = rng_int r3 20 45;
         (rotation, r5) = rng_range r4 0 (pi * 2)
     in (r5, obs @ [(mk_obstacle (cx + cos a * d) (cy + sin a * d) (Some ''crystal_node'')
                       radius rotation True (Some hp))
                      \<lparr> ob_glow := Some ''#00aaff'', ob_resourceType := Some ''cells'',
                        ob_resourceMult := Some 4,
                        ob_voidShardChance := Some (if depth \<ge> 30 then 0.15 else 0.05) \<rparr>]))"

definition poi_crystal_cavern ::
  "rng \<Rightarrow> nat \<Rightarrow> real \<Rightarrow> real \<Rightarrow> int \<Rightarrow> string list \<Rightarrow> poi \<times> rng" where
  "poi_crystal_cavern r index cx cy depth pool =
     (let (nodeCount, r1) = rng_int r 3 4;
          (r2, obs) = for_loop 0 nodeCount (\<lambda>_. True) (crystal_step depth cx cy nodeCount) (r1, []);
          (guard, r3) = rng_chance r2 0.5;
          (enemies, r6) =
            (if guard then
               (let (ox, r4) = rng_range r3 (- 80) 80;
                    (oy, r5) = rng_range r4 (- 80) 80;
                    (type, r6) = rng_pick r5 pool
                in ([mk_poi_enemy (cx + ox) (cy + oy) type ''circle'' 60], r6))
             else ([], r3))
      in (mk_poi index ''crystal_cavern'' cx cy 140 ''Crystal Cavern'' None enemies obs
            True (length enemies = 0), r6))"

subsection \<open>Salvage wreck\<close>

definition wreck_debris_step ::
  "real \<Rightarrow> real \<Rightarrow> nat \<Rightarrow> rng \<times> obstacle list \<Rightarrow> rng \<times> obstacle list" where
  "wreck_debris_step cx cy i = (\<lambda>(r, obs).
     let (a, r1) = rng_range r 0 (pi * 2);
         (dx, r2) = rng_range r1 60 120;
         (dy, r3) = rng_range r2 60 120;
         (radius, r4) = rng_int r3 15 30;
         (rotation, r5) = rng_range r4 0 (pi * 2)
     in (r5, obs @ [mk_obstacle (cx + cos a * dx) (cy + sin a * dy) (Some ''debris'')
                      radius rotation True (Some 12)]))"

definition poi_salvage_wreck :: "rng \<Rightarrow> nat \<Rightarrow> real \<Rightarrow> real \<Rightarrow> poi \<times> rng" where
  "poi_salvage_wreck r index cx cy =
     (let (radius, r1) = rng_int r 40 65;
          (hp, r2) = rng_int r1 50 90;
          (rotation, r3) = rng_range r2 0 (pi * 2);
          wreck = (mk_obstacle cx cy (Some ''salvage_wreck'') radius rotation True (Some hp))
                   \<lparr> ob_glow := Some ''#88ff44'', ob_resourceType := Some ''mixed'',
                     ob_resourceMult := Some 2, ob_itemChance := Some 0.3 \<rparr>;
          (r4, obs) = for_loop_int 0 2 4 (wreck_debris_step cx cy) (r3, [wreck])
      in (mk_poi index ''salvage_wreck'' cx cy 150 ''Salvage Wreck'' None [] obs True True, r4))"

subsection \<open>Defense beacon\<close>

definition poi_defense_beacon ::
  "rng \<Rightarrow> nat \<Rightarrow> real \<Rightarrow> real \<Rightarrow> int \<Rightarrow> string list \<Rightarrow> poi \<times> rng" where
  "poi_defense_beacon r index cx cy depth pool =
     (let (cells, r1) = rng_int r 30 60;
          (count, r2) = rng_int r1 2 3;
          (perWave, r3) = rng_int r2 4 7
      in ((mk_poi index ''defense_beacon'' cx cy 120 ''Defense Beacon''
             (Some ((mk_reward ''loot_cache'' (Some (if depth > 40 then ''legendary'' else ''epic'')))
                      \<lparr> rw_cells := Some cells \<rparr>))
             [] [] False False)
            \<lparr> poi_interactable := True,
              poi_interactPrompt := Some ''Press E to activate beacon'',
              poi_waveConfig := Some \<lparr> wave_count = count, wave_enemiesPerWave = perWave,
                                       wave_pool = pool \<rparr> \<rparr>, r3))"

subsection \<open>Void rift\<close>

definition void_node_step ::
  "real \<Rightarrow> real \<Rightarrow> nat \<Rightarrow> rng \<times> obstacle list \<Rightarrow> rng \<times> obstacle list" where
  "void_node_step cx cy i = (\<lambda>(r, obs).
     let (a, r1) = rng_range r 0 (pi * 2);
         (d, r2) = rng_range r1 30 80;
         (radius, r3) = rng_int r2 20 35;
         (hp, r4) = rng_int r3 40 70;
         (rotation, r5) = rng_range r4 0 (pi * 2)
     in (r5, obs @ [(mk_obstacle (cx + cos a * d) (cy + sin a * d) (Some ''void_crystal'')
                       radius rotation True (Some hp))
                      \<lparr> ob_glow := Some ''#aa55ff'', ob_resourceType := Some ''voidShard'',
                        ob_resourceMult := Some 1, ob_cosmicDustChance := Some 0.10 \<rparr>]))"

definition rift_enemy_step ::
  "string list \<Rightarrow> real \<Rightarrow> real \<Rightarrow> nat \<Rightarrow> rng \<times> poi_enemy list \<Rightarrow> rng \<times> poi_enemy list" where
  "rift_enemy_step pool cx cy i = (\<lambda>(r, enemies).
     let (a, r1) = rng_range r 0 (pi * 2);
         (type, r2) = rng_pick r1 pool
     in (r2, enemies @ [mk_poi_enemy (cx + cos a * 180) (cy + sin a * 180) type ''wander'' 100]))"

definition poi_void_rift :: "rng \<Rightarrow> nat \<Rightarrow> real \<Rightarrow> real \<Rightarrow> string list \<Rightarrow> poi \<times> rng" where
  "poi_void_rift r index cx cy pool =
     (let (nodeCount, r1) = rng_int r 2 3;
          (r2, obs) = for_loop 0 nodeCount (\<lambda>_. True) (void_node_step cx cy) (r1, []);
          (r3, enemies) = for_loop_int 0 2 4 (rift_enemy_step pool cx cy) (r2, [])
      in (mk_poi index ''void_rift'' cx cy 200 ''Void Rift'' None enemies obs False False, r3))"

subsection \<open>Ancient vault\<close>

definition vault_elite_step ::
  "string list \<Rightarrow> real \<Rightarrow> real \<Rightarrow> nat \<Rightarrow> rng \<times> poi_enemy list \<Rightarrow> rng \<times> poi_enemy list" where
  "vault_elite_step elitePool cx cy i = (\<lambda>(r, enemies).
     let a = (if i = 0 then - 1 else 1) * pi * 0.3;
         (type, r1) = rng_pick r elitePool
     in (r1, enemies @ [(mk_poi_enemy (cx + cos a * 150) (cy + sin a * 150) type ''circle'' 80)
                          \<lparr> pe_isElite := True \<rparr>]))"

definition vault_minion_step ::
  "string list \<Rightarrow> real \<Rightarrow> real \<Rightarrow> nat \<Rightarrow> rng \<times> poi_enemy list \<Rightarrow> rng \<times> poi_enemy list" where
  "vault_minion_step pool cx cy i = (\<lambda>(r, enemies).
     let (a, r1) = rng_range r 0 (pi * 2);
         (dx, r2) = rng_range r1 100 250;
         (dy, r3) = rng_range r2 100 250;
         (type, r4) = rng_pick r3 pool
     in (r4, enemies @ [mk_poi_enemy (cx + cos a * dx) (cy + sin a * dy) type ''wander'' 80]))"

definition vault_wall_step ::
  "real \<Rightarrow> real \<Rightarrow> nat \<Rightarrow> rng \<times> obstacle list \<Rightarrow> rng \<times> obstacle list" where
  "vault_wall_step cx cy i = (\<lambda>(r, obs).
     let a = (real i / 8) * pi * 2;
         (radius, r1) = rng_int r 40 60;
         (rotation, r2) = rng_range r1 0 (pi * 2)
     in (r2, obs @ [mk_obstacle (cx + cos a * 280) (cy + sin a * 280) (Some ''asteroid'')
                      radius rotation True (Some 60)]))"

definition poi_ancient_vault ::
  "rng \<Rightarrow> nat \<Rightarrow> real \<Rightarrow> real \<Rightarrow> string list \<Rightarrow> string list \<Rightarrow> poi \<times> rng" where
  "poi_ancient_vault r index cx cy pool elitePool =
     (let (r1, enemies1) = for_loop 0 2 (\<lambda>_. True) (vault_elite_step elitePool cx cy) (r, []);
          (r2, enemies) = for_loop_int 0 4 6 (vault_minion_step pool cx cy) (r1, enemies1);
          (r3, obs) = for_loop 0 8 (\<lambda>_. True) (vault_wall_step cx cy) (r2, []);
          (scrap, r4) = rng_int r3 50 100;
          (cells, r5) = rng_int r4 30 60;
          (shards, r6) = rng_int r5 1 3
      in (mk_poi index ''ancient_vault'' cx cy 300 ''Ancient Vault''
            (Some ((mk_reward ''loot_cache'' (Some ''legendary''))
                     \<lparr> rw_scrap := Some scrap, rw_cells := Some cells,
                       rw_voidShards := Some shards \<rparr>))
            enemies obs False False, r6))"

subsection \<open>The dispatch, the way-points and the loop\<close>

text \<open>\<open>_createPOI\<close>: the \<open>switch\<close> on the type; an unknown type (and \<open>undefined\<close>)
  gives \<open>null\<close>.\<close>

definition createPOI ::
  "rng \<Rightarrow> string option \<Rightarrow> real \<Rightarrow> real \<Rightarrow> int \<Rightarrow> act_config \<Rightarrow> nat \<Rightarrow> poi option \<times> rng" where
  "createPOI r t cx cy depth actConfig index =
     (let pool = list_or (act_pool actConfig) [''grunt''];
          elitePool = list_or (act_elitePool actConfig) [''commander''];
          some = (\<lambda>(p, r'). (Some p, r'))
      in if t = Some ''guard_post'' then some (poi_guard_post r index cx cy depth pool)
         else if t = Some ''treasure_cache'' then some (poi_treasure_cache r index cx cy pool)
         else if t = Some ''ambush_zone'' then some (poi_ambush_zone r index cx cy pool)
         else if t = Some ''elite_den'' then some (poi_elite_den r index cx cy pool elitePool)
         else if t = Some ''ore_deposit'' then some (poi_ore_deposit r index cx cy)
         else if t = Some ''crystal_cavern''
         then some (poi_crystal_cavern r index cx cy depth pool)
         else if t = Some ''salvage_wreck'' then some (poi_salvage_wreck r index cx cy)
         else if t = Some ''defense_beacon''
         then some (poi_defense_beacon r index cx cy depth pool)
         else if t = Some ''void_rift'' then some (poi_void_rift r index cx cy pool)
         else if t = Some ''ancient_vault''
         then some (poi_ancient_vault r index cx cy pool elitePool)
         else (None, r))"

definition getPOITypesForTier :: "int \<Rightarrow> string list" where
  "getPOITypesForTier depth =
     [''guard_post'', ''treasure_cache'', ''ore_deposit'']
     @ (if depth \<ge> 5 then [''ambush_zone'', ''salvage_wreck''] else [])
     @ (if depth \<ge> 10 then [''elite_den'', ''crystal_cavern''] else [])
     @ (if depth \<ge> 20 then [''defense_beacon'', ''void_rift''] else [])
     @ (if depth \<ge> 50 then [''ancient_vault''] else [])"

definition path_point_step ::
  "point \<Rightarrow> point \<Rightarrow> real \<Rightarrow> real \<Rightarrow> real \<Rightarrow> nat \<Rightarrow> rng \<times> point list \<Rightarrow> rng \<times> point list" where
  "path_point_step spawn exit w h count i = (\<lambda>(r, points).
     let margin = 200;
         t = (real i + 1) / (count + 1);
         baseX = pt_x spawn + (pt_x exit - pt_x spawn) * t;
         baseY = pt_y spawn + (pt_y exit - pt_y spawn) * t;
         perpX = - (pt_y exit - pt_y spawn);
         perpY = pt_x exit - pt_x spawn;
         perpLen = (if hypot perpX perpY = 0 then 1 else hypot perpX perpY);
         maxOffset = min w h * 0.3;
         (offset, r1) = rng_range r (- maxOffset) maxOffset;
         x = baseX + (perpX / perpLen) * offset;
         y = baseY + (perpY / perpLen) * offset;
         x' = max margin (min (w - margin) x);
         y' = max margin (min (h - margin) y)
     in (r1, points @ [\<lparr> pt_x = x', pt_y = y' \<rparr>]))"

definition generatePathPoints ::
  "rng \<Rightarrow> point \<Rightarrow> point \<Rightarrow> real \<Rightarrow> real \<Rightarrow> real \<Rightarrow> point list \<times> rng" where
  "generatePathPoints r spawn exit w h count =
     (let (r1, points) =
            for_loop 0 count (\<lambda>_. True) (path_point_step spawn exit w h count) (r, [])
      in (points, r1))"

text \<open>The copy \<open>{ ...e, poiId: poi.id, active: false, killed: false }\<close>.\<close>

definition poi_spawn :: "nat \<times> string \<Rightarrow> poi_enemy \<Rightarrow> enemy_spawn" where
  "poi_spawn pid e =
     \<lparr> es_x = pe_x e, es_y = pe_y e, es_type = pe_type e, es_patrol = Some (pe_patrol e),
       es_patrolRadius = pe_patrolRadius e, es_active = False, es_killed = False,
       es_packId = None, es_poiId = Some pid, es_ambush = pe_ambush e,
       es_ambushDelay = pe_ambushDelay e, es_isElite = pe_isElite e \<rparr>"

text \<open>One way-point: the POI is appended to \<open>pois\<close>, its enemies to
  \<open>zone.enemySpawns\<close>, its obstacles to \<open>zone.obstacles\<close>.\<close>

definition poi_step ::
  "string list \<Rightarrow> int \<Rightarrow> act_config \<Rightarrow> nat \<times> point \<Rightarrow> rng \<times> poi list \<times> zone
     \<Rightarrow> rng \<times> poi list \<times> zone" where
  "poi_step tierPOIs depth actConfig = (\<lambda>(i, pt) (r, ps, z).
     let (poiType, r1) = rng_pick r tierPOIs;
         (created, r2) = createPOI r1 poiType (pt_x pt) (pt_y pt) depth actConfig i
     in (case created of
           None \<Rightarrow> (r2, ps, z)
         | Some p \<Rightarrow>
             (r2, ps @ [p],
              z \<lparr> enemySpawns := enemySpawns z @ map (poi_spawn (poi_id p)) (poi_enemies p),
                  obstacles := obstacles z @ poi_obstacles p \<rparr>)))"

definition generatePOIs ::
  "rng \<Rightarrow> zone \<Rightarrow> act_config \<Rightarrow> options \<Rightarrow> poi list \<times> zone \<times> rng" where
  "generatePOIs r z actConfig opts =
     (let depth = depth_of (opt_depth opts);
          w = zone_width z;
          h = zone_height z;
          spawn = zone_spawn z;
          exit = zone_exit z;
          area = w * h;
          basePOIs = max 2 (js_floor (area / 15000000) + 1);
          depthBonus = js_floor (real_of_int depth / 15);
          maxPOIs = min 7 (basePOIs + depthBonus);
          (poiCount, r1) = rng_int r (max 2 (maxPOIs - 1)) maxPOIs;
          (pathPoints, r2) = generatePathPoints r1 spawn exit w h poiCount;
          tierPOIs = getPOITypesForTier depth;
          (r3, ps, z') =
            fold (poi_step tierPOIs depth actConfig) (enumerate 0 pathPoints) (r2, [], z)
      in (ps, z', r3))"

section \<open>MapGenerator.js: resource nodes\<close>

record node_type =
  nt_type :: string
  nt_weight :: real
  nt_glow :: string
  nt_resource :: string
  nt_mult :: real

definition nodeTypes :: "int \<Rightarrow> node_type list" where
  "nodeTypes depth =
     [\<lparr> nt_type = ''ore_rich'', nt_weight = 50, nt_glow = ''#ffaa00'', nt_resource = ''scrap'',
        nt_mult = 3 \<rparr>,
      \<lparr> nt_type = ''crystal_node'', nt_weight = 25, nt_glow = ''#00aaff'', nt_resource = ''cells'',
        nt_mult = 3 \<rparr>]
     @ (if depth \<ge> 30
        then [\<lparr> nt_type = ''void_crystal'', nt_weight = 10, nt_glow = ''#aa55ff'',
                nt_resource = ''voidShard'', nt_mult = 1 \<rparr>]
        else [])"

text \<open>One attempt at a position; the loop stops (\<open>break\<close>) once \<open>valid\<close> is set.
  \<open>x\<close> and \<open>y\<close> are undefined before the first attempt (0 here, never read).\<close>

definition node_attempt_step ::
  "zone \<Rightarrow> nat \<Rightarrow> rng \<times> real \<times> real \<times> bool \<Rightarrow> rng \<times> real \<times> real \<times> bool" where
  "node_attempt_step z attempt = (\<lambda>(r, x0, y0, valid).
     let (x, r1) = rng_range r 150 (zone_width z - 150);
         (y, r2) = rng_range r1 150 (zone_height z - 150)
     in if hypot (x - pt_x (zone_spawn z)) (y - pt_y (zone_spawn z)) < 300 then (r2, x, y, False)
        else if hypot (x - pt_x (zone_exit z)) (y - pt_y (zone_exit z)) < 200 then (r2, x, y, False)
        else (r2, x, y, True))"

definition resource_node_step ::
  "int \<Rightarrow> nat \<Rightarrow> rng \<times> obstacle list \<times> zone \<Rightarrow> rng \<times> obstacle list \<times> zone" where
  "resource_node_step depth i = (\<lambda>(r, nodes, z).
     let (r1, x, y, valid) =
           for_loop 0 20 (\<lambda>(r, x, y, valid). \<not> valid) (node_attempt_step z) (r, 0, 0, False)
     in if \<not> valid then (r1, nodes, z)
        else
          (let totalWeight = fold (\<lambda>n s. s + nt_weight n) (nodeTypes depth) 0;
               (roll, r2) = rng_range r1 0 totalWeight;
               picked = (case pick_weighted nt_weight roll (nodeTypes depth) of
                           Some nt \<Rightarrow> nt
                         | None \<Rightarrow> hd (nodeTypes depth));
               (radius, r3) = rng_int r2 25 50;
               (hp, r4) = rng_int r3 25 55;
               (rotation, r5) = rng_range r4 0 (pi * 2);
               node0 = (mk_obstacle x y (Some (nt_type picked)) radius rotation True (Some hp))
                         \<lparr> ob_glow := Some (nt_glow picked),
                           ob_resourceType := Some (nt_resource picked),
                           ob_resourceMult := Some (nt_mult picked) \<rparr>;
               node1 = (if nt_type picked = ''crystal_node''
                        then node0 \<lparr> ob_voidShardChance := Some (if depth \<ge> 30 then 0.12 else 0.03) \<rparr>
                        else node0);
               node = (if nt_type picked = ''void_crystal''
                       then node1 \<lparr> ob_cosmicDustChance := Some 0.08 \<rparr>
                       else node1)
           in (r5, nodes @ [node], z \<lparr> obstacles := obstacles z @ [node] \<rparr>)))"

definition generateResourceNodes ::
  "rng \<Rightarrow> zone \<Rightarrow> options \<Rightarrow> obstacle list \<times> zone \<times> rng" where
  "generateResourceNodes r z opts =
     (let depth = depth_of (opt_depth opts);
          (count, r1) = rng_int r 3 (min 6 (3 + js_floor (real_of_int depth / 15)));
          (r2, nodes, z') =
            for_loop 0 count (\<lambda>_. True) (resource_node_step depth) (r1, [], z)
      in (nodes, z', r2))"

section \<open>MapGenerator.js: the zone objective\<close>

text \<open>The five archetypes with their weights; survival and corruption weigh 0 below
  depth 5.\<close>

definition objectives :: "int \<Rightarrow> (string \<times> real) list" where
  "objectives depth =
     [(''exterminate'', 30),
      (''survival'', if depth < 5 then 0 else 20),
      (''timetrial'', 15),
      (''corruption'', if depth < 5 then 0 else 15),
      (''lockdown'', 20)]"

definition mk_objective ::
  "string \<Rightarrow> string \<Rightarrow> real \<Rightarrow> bool \<Rightarrow> real \<Rightarrow> real \<Rightarrow> objective" where
  "mk_objective t label target exitLocked bonusScrap bonusCells =
     \<lparr> obj_type = t, obj_label = label, obj_progress = 0, obj_target = target,
       obj_complete = False, obj_exitLocked = exitLocked, obj_bonusScrap = bonusScrap,
       obj_bonusCells = bonusCells, obj_arenaCenter = None, obj_arenaRadius = None,
       obj_failed = None, obj_corruptionRate = None, obj_currentMult = None,
       obj_generators = None \<rparr>"

definition generator_step ::
  "int \<Rightarrow> nat \<Rightarrow> rng \<times> obstacle list \<times> zone \<Rightarrow> rng \<times> obstacle list \<times> zone" where
  "generator_step depth i = (\<lambda>(r, generators, z).
     let genCount = 3;
         (j, r1) = rng_range r (- 0.4) 0.4;
         a = (real i / genCount) * pi * 2 + j;
         dist = min (zone_width z) (zone_height z) * 0.3;
         gx = zone_width z / 2 + cos a * dist;
         gy = zone_height z / 2 + sin a * dist;
         gen = (mk_obstacle gx gy (Some ''generator'') 30 0 True
                  (Some (50 + real_of_int depth * 5)))
                 \<lparr> ob_glow := Some ''#ff4444'', ob_isGenerator := True \<rparr>
     in (r1, generators @ [gen], z \<lparr> obstacles := obstacles z @ [gen] \<rparr>))"

definition generateObjective ::
  "rng \<Rightarrow> zone \<Rightarrow> int \<Rightarrow> objective option \<times> zone \<times> rng" where
  "generateObjective r z depth =
     (if depth \<le> 2 then (None, z, r)
      else
        (let totalW = fold (\<lambda>ob s. s + snd ob) (objectives depth) 0;
             (roll, r1) = rng_range r 0 totalW;
             picked = (case pick_weighted snd roll (objectives depth) of
                         Some ob \<Rightarrow> ob
                       | None \<Rightarrow> hd (objectives depth));
             d = real_of_int depth
         in if fst picked = ''exterminate'' then
              (let total = real (length (enemySpawns z)) + real (length (eliteSpawns z));
                   target = max 5 (js_floor (total * 0.8))
               in (Some (mk_objective ''exterminate'' ''EXTERMINATE'' target True
                           (30 + d * 5) (10 + d * 2)), z, r1))
            else if fst picked = ''survival'' then
              (let duration = 30 + min d 50
               in (Some ((mk_objective ''survival'' ''SURVIVE'' duration True
                            (40 + d * 6) (15 + d * 3))
                           \<lparr> obj_arenaCenter := Some \<lparr> pt_x = zone_width z / 2,
                                                       pt_y = zone_height z / 2 \<rparr>,
                             obj_arenaRadius := Some 400 \<rparr>), z, r1))
            else if fst picked = ''timetrial'' then
              (let timeLimit = 20 + js_floor (zone_width z / 100)
               in (Some ((mk_objective ''timetrial'' ''TIME TRIAL'' timeLimit False
                            (60 + d * 8) (20 + d * 4))
                           \<lparr> obj_failed := Some False \<rparr>), z, r1))
            else if fst picked = ''corruption'' then
              (Some ((mk_objective ''corruption'' ''CORRUPTION'' 100 False
                        (20 + d * 3) (5 + d))
                       \<lparr> obj_corruptionRate := Some (1.0 + d * 0.02),
                         obj_currentMult := Some 1.0 \<rparr>), z, r1)
            else if fst picked = ''lockdown'' then
              (let (r2, generators, z') =
                     for_loop 0 3 (\<lambda>_. True) (generator_step depth) (r1, [], z)
               in (Some ((mk_objective ''lockdown'' ''LOCKDOWN'' 3 True
                            (50 + d * 7) (15 + d * 3))
                           \<lparr> obj_generators := Some generators \<rparr>), z', r2))
            else (None, z, r1)))"

section \<open>MapGenerator.js: branching exits\<close>

definition branch_types :: "branch_exit list" where
  "branch_types =
     [\<lparr> br_id = ''safe'', br_label = ''SAFE ROUTE'', br_color = ''#00ff88'',
        br_desc = ''Standard zone'', br_modifiers = 0, br_lootMult = 1.0, br_isVault = False,
        br_x = 0, br_y = 0, br_radius = 0 \<rparr>,
      \<lparr> br_id = ''risky'', br_label = ''RISKY ROUTE'', br_color = ''#ffcc00'',
        br_desc = ''+1 modifier, +50% loot'', br_modifiers = 1, br_lootMult = 1.5,
        br_isVault = False, br_x = 0, br_y = 0, br_radius = 0 \<rparr>,
      \<lparr> br_id = ''vault'', br_label = ''VAULT'', br_color = ''#ff4444'',
        br_desc = ''Dead end, guaranteed rare+'', br_modifiers = 2, br_lootMult = 2.0,
        br_isVault = True, br_x = 0, br_y = 0, br_radius = 0 \<rparr>]"

text \<open>\<open>zone.exit\<close> is never \<open>null\<close> here, so the early \<open>return null\<close> is not taken.
  \<open>types.splice(2, 1)\<close> drops the vault; the position fields are filled in the loop.\<close>

definition generateBranchExits :: "rng \<Rightarrow> zone \<Rightarrow> int \<Rightarrow> branch_exit list \<times> rng" where
  "generateBranchExits r z depth =
     (let exit = zone_exit z;
          (types, r1) =
            (if depth < 10 then
               (let (drop, r1) = rng_chance r 0.4
                in (if drop then take 2 branch_types else branch_types, r1))
             else (branch_types, r));
          spacing = 120;
          totalW = (real (length types) - 1) * spacing
      in (map (\<lambda>(i, t).
                 let offsetX = - totalW / 2 + real i * spacing
                 in t \<lparr> br_x := pt_x exit + offsetX,
                        br_y := pt_y exit + \<bar>offsetX\<bar> * 0.3,
                        br_radius := 35 \<rparr>)
              (enumerate 0 types), r1))"

section \<open>MapGenerator.generate\<close>

definition pickRange :: "rng \<Rightarrow> dim \<Rightarrow> real \<Rightarrow> real \<Rightarrow> real \<times> rng" where
  "pickRange r v fallbackMin fallbackMax =
     (case v of
        DimRange a b \<Rightarrow> rng_int r a b
      | DimFixed n \<Rightarrow> (n, r)
      | DimAbsent \<Rightarrow> rng_int r fallbackMin fallbackMax)"

text \<open>The three densities after the depth ramp, the modifiers, the difficulty lane and
  the tuning overrides, in the order of the source.\<close>

definition enemy_density :: "'a game_state_scheme \<Rightarrow> act_config \<Rightarrow> options \<Rightarrow> real" where
  "enemy_density st actConfig opts =
     (let cfg = act_generation actConfig;
          depth = depth_of (opt_depth opts);
          mods = list_or (opt_mods opts) [];
          depthEnemyMult = 1 + min (real_of_int depth * 0.012) 1.6;
          d0 = num_or (gen_enemyDensity cfg) 0.0005 * depthEnemyMult;
          d1 = (if ''BULLET_HELL'' \<in> set mods then d0 * 1.35 else d0);
          d2 = (if ''FAST_ENEMIES'' \<in> set mods then d1 * 1.10 else d1);
          d3 = (if str_or (opt_difficulty opts) ''normal'' = ''chaos'' then d2 * 1.3 else d2)
      in case enemyDensityMult (data_exploration st) of
           Some m \<Rightarrow> d3 * m
         | None \<Rightarrow> d3)"

definition elite_density :: "'a game_state_scheme \<Rightarrow> act_config \<Rightarrow> options \<Rightarrow> real" where
  "elite_density st actConfig opts =
     (let cfg = act_generation actConfig;
          depth = depth_of (opt_depth opts);
          mods = list_or (opt_mods opts) [];
          diff = str_or (opt_difficulty opts) ''normal'';
          depthEliteMult = 1 + min (real_of_int depth * 0.010) 1.2;
          d0 = num_or (gen_eliteDensity cfg) 0.00008 * depthEliteMult;
          d1 = (if ''ELITE_PACKS'' \<in> set mods then d0 * 1.55 else d0);
          d2 = (if diff = ''risk'' then d1 * 3.0 else if diff = ''chaos'' then d1 * 5.0 else d1)
      in case eliteDensityMult (data_exploration st) of
           Some m \<Rightarrow> d2 * m
         | None \<Rightarrow> d2)"

definition obstacle_density :: "act_config \<Rightarrow> options \<Rightarrow> real" where
  "obstacle_density actConfig opts =
     (let cfg = act_generation actConfig;
          depth = depth_of (opt_depth opts);
          mods = list_or (opt_mods opts) [];
          depthObsMult = 1 + min (real_of_int depth * 0.008) 1.0;
          d0 = num_or (gen_obstacleDensity cfg) 0.0002 * depthObsMult;
          d1 = (if ''DENSE_OBSTACLES'' \<in> set mods then d0 * 1.35 else d0);
          d2 = (if ''MINEFIELD'' \<in> set mods then d1 * 1.15 else d1)
      in if str_or (opt_difficulty opts) ''normal'' = ''chaos'' then d2 * 1.4 else d2)"

text \<open>The zone dimensions: the two \<open>pickRange\<close> draws, the cramped modifier and the map
  scale (a \<open>mapScale\<close> that is not a positive number counts as 1).\<close>

definition zone_dims ::
  "rng \<Rightarrow> 'a game_state_scheme \<Rightarrow> act_config \<Rightarrow> options \<Rightarrow> (real \<times> real) \<times> rng" where
  "zone_dims r st actConfig opts =
     (let cfg = act_generation actConfig;
          mods = list_or (opt_mods opts) [];
          crampedMult = (if ''CRAMPED_ZONE'' \<in> set mods then 0.85 else 1.0);
          (width0, r1) = pickRange r (gen_width cfg) 1500 3000;
          (height0, r2) = pickRange r1 (gen_height cfg) 1500 3000;
          width1 = (if crampedMult \<noteq> 1.0 then js_floor (width0 * crampedMult) else width0);
          height1 = (if crampedMult \<noteq> 1.0 then js_floor (height0 * crampedMult) else height0);
          scale = (case mapScale (data_exploration st) of
                     Some m \<Rightarrow> if m > 0 then m else 1.0
                   | None \<Rightarrow> 1.0);
          width = (if scale \<noteq> 1.0 then max 600 (js_floor (width1 * scale)) else width1);
          height = (if scale \<noteq> 1.0 then max 600 (js_floor (height1 * scale)) else height1)
      in ((width, height), r2))"

text \<open>\<open>generate(actConfig, zoneSeed, options)\<close>. \<open>SeededRandom\<close> is the constructor
  \<open>new SeededRandom(zoneSeed)\<close>; \<open>st\<close> is the global \<open>State\<close>. The obstacle generator is
  called with \<open>{ depth, mods }\<close> only, so it never sees the difficulty.\<close>

definition generate ::
  "(nat \<Rightarrow> rng) \<Rightarrow> 'a game_state_scheme \<Rightarrow> act_config \<Rightarrow> nat \<Rightarrow> options \<Rightarrow> zone" where
  "generate SeededRandom st actConfig zoneSeed opts =
     (let rng = SeededRandom zoneSeed;
          depth = depth_of (opt_depth opts);
          mods = list_or (opt_mods opts) [];
          enemyDensity = enemy_density st actConfig opts;
          eliteDensity = elite_density st actConfig opts;
          obstacleDensity = obstacle_density actConfig opts;
          ((width, height), r1) = zone_dims rng st actConfig opts;
          (spawn, r2) = generateSpawnPoint r1 width height;
          (par, r3) = generateParallax r2 st actConfig width height;
          (exit, r4) = generateExitPoint r3 spawn width height;
          pool = list_or (act_pool actConfig) [''grunt''];
          (spawns0, r5) = generateEnemySpawns r4 st pool enemyDensity width height spawn exit;
          (spawns1, r6) = applyPackDirector r5 st spawns0 pool spawn exit;
          (elites, r7) =
            generateEliteSpawns r6 st (list_or (act_elitePool actConfig) [''commander''])
              eliteDensity width height;
          (obs, r8) =
            generateObstacles r7 st obstacleDensity width height
              \<lparr> opt_depth = Some depth, opt_mods = Some mods, opt_difficulty = None \<rparr>;
          (decs, r9) = generateDecorations r8 st (act_biome actConfig) width height;
          zone0 = \<lparr> zone_seed = zoneSeed, zone_width = width, zone_height = height,
                    zone_biome = str_or (act_biome actConfig) ''space'', zone_spawn = spawn,
                    zone_exit = exit, enemySpawns = spawns1, eliteSpawns = elites,
                    obstacles = obs, decorations = decs, zone_parallax = par, pois = [],
                    resourceNodes = [], zone_objective = None, branchExits = None \<rparr>;
          (ps, zone1, r10) = generatePOIs r9 zone0 actConfig opts;
          (nodes, zone2, r11) = generateResourceNodes r10 (zone1 \<lparr> pois := ps \<rparr>) opts;
          (objective, zone3, r12) =
            generateObjective r11 (zone2 \<lparr> resourceNodes := nodes \<rparr>) depth;
          zone4 = zone3 \<lparr> zone_objective := objective \<rparr>
      in if depth \<ge> 3
         then zone4 \<lparr> branchExits := Some (fst (generateBranchExits r12 zone4 depth)) \<rparr>
         else zone4)"

section \<open>Notions used in the statements about the spatial hash\<close>

text \<open>The bucket stored under a key, empty when the key is absent.\<close>

definition bucket_of :: "(cellkey \<rightharpoonup> ref list) \<Rightarrow> cellkey \<Rightarrow> ref list" where
  "bucket_of c k = (case c k of None \<Rightarrow> [] | Some b \<Rightarrow> b)"

text \<open>What \<open>remove\<close> leaves of a bucket: the entity deleted, the bucket dropped when that
  empties it.\<close>

definition removed :: "ref \<Rightarrow> ref list option \<Rightarrow> ref list option" where
  "removed e v = (case v of None \<Rightarrow> None
                  | Some b \<Rightarrow> if set_delete e b = [] then None else Some (set_delete e b))"

text \<open>The invariant that \<open>insert\<close> and \<open>remove\<close> keep: no stored bucket is empty.\<close>

definition no_empty_bucket :: "grid \<Rightarrow> bool" where
  "no_empty_bucket g = (\<forall>k b. cells g k = Some b \<longrightarrow> b \<noteq> [])"

text \<open>The grid does not contain the entity: no recorded cell list, and in no bucket.\<close>

definition absent :: "grid \<Rightarrow> ref \<Rightarrow> bool" where
  "absent g e = (entityCells g e = None \<and> (\<forall>k b. cells g k = Some b \<longrightarrow> e \<notin> set b))"

text \<open>Three stores for concrete runs: every entity at the origin with radius 10; every
  entity at \<open>(310, 0)\<close> with no radius, size or r; every entity at the origin with the
  radius \<open>-200\<close>.\<close>

definition unit_entity :: entity where
  "unit_entity = \<lparr> ent_x = 0, ent_y = 0, ent_radius = Some 10, ent_size = None, ent_r = None \<rparr>"

definition unit_store :: store where
  "unit_store = (\<lambda>_. unit_entity)"

definition bare_entity :: entity where
  "bare_entity = \<lparr> ent_x = 310, ent_y = 0, ent_radius = None, ent_size = None, ent_r = None \<rparr>"

definition bare_store :: store where
  "bare_store = (\<lambda>_. bare_entity)"

definition neg_entity :: entity where
  "neg_entity = \<lparr> ent_x = 0, ent_y = 0, ent_radius = Some (- 200), ent_size = None, ent_r = None \<rparr>"

definition neg_store :: store where
  "neg_store = (\<lambda>_. neg_entity)"

section \<open>Notions used in the statements about the generator\<close>

text \<open>Two zones that differ at most in \<open>enemySpawns\<close> and \<open>obstacles\<close>, the two lists
  that the stages after the zone literal append to.\<close>

definition same_frame :: "zone \<Rightarrow> zone \<Rightarrow> bool" where
  "same_frame z z' = (z' = z \<lparr> enemySpawns := enemySpawns z', obstacles := obstacles z' \<rparr>)"

text \<open>The entries that a POI adds to \<open>zone.enemySpawns\<close>.\<close>

definition poi_spawns :: "poi \<Rightarrow> enemy_spawn list" where
  "poi_spawns p = map (poi_spawn (poi_id p)) (poi_enemies p)"

text \<open>The generators of a lockdown objective, none for any other objective.\<close>

definition objective_generators :: "objective option \<Rightarrow> obstacle list" where
  "objective_generators ob =
     (case ob of None \<Rightarrow> [] | Some v \<Rightarrow> (case obj_generators v of None \<Rightarrow> [] | Some g \<Rightarrow> g))"

text \<open>The two distance tests of a resource node.\<close>

definition node_ok :: "zone \<Rightarrow> obstacle \<Rightarrow> bool" where
  "node_ok z n =
     (hypot (ob_x n - pt_x (zone_spawn z)) (ob_y n - pt_y (zone_spawn z)) \<ge> 300 \<and>
      hypot (ob_x n - pt_x (zone_exit z)) (ob_y n - pt_y (zone_exit z)) \<ge> 200)"

text \<open>Concrete inputs: a state with no tuning and no packs, an act configuration with
  every field absent, the same with a fixed square size, options with a depth only, and
  two constructors of generators (0.5 then 0.75 for ever, and constant 0).\<close>

definition default_tuning :: tuning where
  "default_tuning =
     \<lparr> enemyDensityMult = None, eliteDensityMult = None, mapScale = None,
       maxEnemySpawnsPerZone = None, enemySpawnMinDistFromSpawn = None,
       enemySpawnMinDistFromExit = None, enemySpawnMinDistBetween = None,
       maxEliteSpawnsPerZone = None, maxObstaclesPerZone = None,
       maxDecorationsPerZone = None, maxStarsBackground = None, maxStarsMidground = None \<rparr>"

definition default_state :: game_state where
  "default_state = \<lparr> data_exploration = default_tuning, data_packs = None \<rparr>"

definition default_generation :: generation_cfg where
  "default_generation =
     \<lparr> gen_enemyDensity = None, gen_eliteDensity = None, gen_obstacleDensity = None,
       gen_width = DimAbsent, gen_height = DimAbsent \<rparr>"

definition default_act :: act_config where
  "default_act =
     \<lparr> act_generation = default_generation, act_biome = None, act_pool = None,
       act_elitePool = None, act_bgColor = None, act_nebula = None \<rparr>"

definition square_act :: "real \<Rightarrow> act_config" where
  "square_act n =
     default_act \<lparr> act_generation :=
                     default_generation \<lparr> gen_width := DimFixed n, gen_height := DimFixed n \<rparr> \<rparr>"

definition opts_depth :: "int \<Rightarrow> options" where
  "opts_depth d = \<lparr> opt_depth = Some d, opt_mods = None, opt_difficulty = None \<rparr>"

definition left_low_rng :: "nat \<Rightarrow> rng" where
  "left_low_rng seed = 2147483648 ## sconst 3221225472"

definition zero_rng :: "nat \<Rightarrow> rng" where
  "zero_rng seed = sconst 0"

text \<open>Concrete inputs for the pack director: three spawns and one template with no
  members.\<close>

definition plain_spawn :: "real \<Rightarrow> real \<Rightarrow> enemy_spawn" where
  "plain_spawn x y =
     \<lparr> es_x = x, es_y = y, es_type = Some ''grunt'', es_patrol = Some ''static'',
       es_patrolRadius = 100, es_active = False, es_killed = False, es_packId = None,
       es_poiId = None, es_ambush = False, es_ambushDelay = None, es_isElite = False \<rparr>"

definition three_spawns :: "enemy_spawn list" where
  "three_spawns = [plain_spawn 1000 1000, plain_spawn 1200 1000, plain_spawn 1400 1000]"

definition one_template :: packs_data where
  "one_template =
     \<lparr> packs_templates = Some [\<lparr> tpl_id = Some ''squad'', tpl_weight = None,
                                 tpl_members = None, tpl_types = None \<rparr>],
       packChance = None, packSizeMin = None, packSizeMax = None, maxPacksPerZone = None,
       memberSpacing = None, packs_minDistFromSpawn = None, packs_minDistFromExit = None \<rparr>"

definition pack_state :: game_state where
  "pack_state = \<lparr> data_exploration = default_tuning, data_packs = Some one_template \<rparr>"

definition half_rng :: rng where
  "half_rng = sconst 2147483648"

text \<open>An enemy spawn that is neither a pack member nor a POI enemy.\<close>

definition is_single :: "enemy_spawn \<Rightarrow> bool" where
  "is_single e = (es_packId e = None \<and> es_poiId e = None)"

definition zone_singles :: "zone \<Rightarrow> enemy_spawn list" where
  "zone_singles z = filter is_single (enemySpawns z)"

text \<open>Distances between two enemy spawns, and from an enemy spawn to a point.\<close>

definition apart :: "real \<Rightarrow> enemy_spawn \<Rightarrow> enemy_spawn \<Rightarrow> bool" where
  "apart d a b = (d \<le> hypot (es_x a - es_x b) (es_y a - es_y b))"

definition away_from :: "real \<Rightarrow> point \<Rightarrow> enemy_spawn \<Rightarrow> bool" where
  "away_from d p e = (d \<le> hypot (es_x e - pt_x p) (es_y e - pt_y p))"

text \<open>What the rejection sampling of \<open>generateEnemySpawns\<close> keeps true of its list.\<close>

definition spawns_ok :: "point \<Rightarrow> point \<Rightarrow> real \<Rightarrow> real \<Rightarrow> real \<Rightarrow> enemy_spawn list \<Rightarrow> bool" where
  "spawns_ok sp ex d1 d2 d3 xs =
     ((\<forall>e \<in> set xs. is_single e \<and> away_from d1 sp e \<and> away_from d2 ex e) \<and>
      sorted_wrt (apart d3) xs)"

text \<open>What the cluster phase keeps true: it has added \<open>clusterUsed\<close> obstacles, at most
  its budget.\<close>

definition cluster_inv :: "nat \<Rightarrow> real \<Rightarrow> rng \<times> obstacle list \<times> nat \<Rightarrow> bool" where
  "cluster_inv n0 budget t =
     (length (fst (snd t)) = n0 + snd (snd t) \<and> snd (snd t) \<le> nat \<lceil>budget\<rceil>)"

text \<open>A state whose tuning sets \<open>maxEliteSpawnsPerZone\<close> to 0.\<close>

definition no_elite_state :: game_state where
  "no_elite_state =
     \<lparr> data_exploration = default_tuning \<lparr> maxEliteSpawnsPerZone := Some 0 \<rparr>,
       data_packs = None \<rparr>"

text \<open>A state whose tuning sets \<open>maxEliteSpawnsPerZone\<close> to 2.5.\<close>

definition frac_elite_state :: game_state where
  "frac_elite_state =
     \<lparr> data_exploration = default_tuning \<lparr> maxEliteSpawnsPerZone := Some (5 / 2) \<rparr>,
       data_packs = None \<rparr>"

text \<open>A generator that repeats one draw for ever.\<close>

definition steady :: "rng \<Rightarrow> bool" where
  "steady r = (stl r = r)"





section \<open>SpatialHash: what a query finds\<close>

lemma set_set_add: "set (set_add e b) = insert e (set b)"
  by (auto simp: set_add_def)

lemma fold_set_add: "set (fold set_add b res) = set b \<union> set res"
  by (induction b arbitrary: res) (auto simp: set_set_add)

lemma bucket_of_bucket_add:
  "set (bucket_of (bucket_add e k c) k') =
     (if k' = k then insert e (set (bucket_of c k')) else set (bucket_of c k'))"
  by (auto simp: bucket_of_def bucket_add_def set_set_add split: option.splits)

lemma bucket_of_fold_add:
  "set (bucket_of (fold (bucket_add e) ks c) k') =
     set (bucket_of c k') \<union> (if k' \<in> set ks then {e} else {})"
  by (induction ks arbitrary: c) (auto simp: bucket_of_bucket_add)

lemma invCell_insert_entity [simp]: "invCell (insert_entity g h e) = invCell g"
  by (simp add: insert_entity_def Let_def)

lemma entity_cells_cong: "invCell g = invCell g' \<Longrightarrow> entity_cells g e = entity_cells g' e"
  by (simp add: entity_cells_def)

lemma invCell_insertAll [simp]: "invCell (insertAll g h es) = invCell g"
  unfolding insertAll_def by (induction es arbitrary: g) simp_all

lemma bucket_of_insert_entity:
  "set (bucket_of (cells (insert_entity g h e)) k) =
     set (bucket_of (cells g) k) \<union> (if k \<in> set (entity_cells g (h e)) then {e} else {})"
  by (simp add: insert_entity_def Let_def bucket_of_fold_add)

lemma bucket_of_insertAll:
  "set (bucket_of (cells (insertAll g h es)) k) =
     set (bucket_of (cells g) k) \<union> {e \<in> set es. k \<in> set (entity_cells g (h e))}"
proof (induction es arbitrary: g)
  case Nil
  show ?case by (simp add: insertAll_def)
next
  case (Cons e es)
  have step: "insertAll g h (e # es) = insertAll (insert_entity g h e) h es"
    by (simp add: insertAll_def)
  have ec: "\<And>a. entity_cells (insert_entity g h e) a = entity_cells g a"
    by (rule entity_cells_cong) simp
  show ?case
    unfolding step Cons.IH bucket_of_insert_entity ec by auto
qed

lemma set_query_fold:
  "set (fold (\<lambda>key result. case c key of None \<Rightarrow> result | Some bucket \<Rightarrow> fold set_add bucket result) ks res)
     = set res \<union> (\<Union>k \<in> set ks. set (bucket_of c k))"
  by (induction ks arbitrary: res) (auto simp: bucket_of_def fold_set_add split: option.splits)

lemma set_cell_range:
  "set (cell_range a b c d) = {cell_key cx cy | cx cy. a \<le> cx \<and> cx \<le> b \<and> c \<le> cy \<and> cy \<le> d}"
  by (fastforce simp: cell_range_def)

lemma set_query:
  "set (query g x y r) =
     (\<Union>k \<in> set (cell_range \<lfloor>(x - r) * invCell g\<rfloor> \<lfloor>(x + r) * invCell g\<rfloor>
                               \<lfloor>(y - r) * invCell g\<rfloor> \<lfloor>(y + r) * invCell g\<rfloor>).
        set (bucket_of (cells g) k))"
  by (simp add: query_def Let_def set_query_fold)

lemma bare_cells: "entity_cells (create 128) bare_entity = cell_range 2 2 (- 1) 0"
  by (simp add: entity_cells_def create_def bare_entity_def radius_or_def num_or_def Let_def)

lemma bare_candidate: "set (query (insertAll (create 128) bare_store [0]) 0 0 300) = {0}"
proof -
  let ?g = "insertAll (create 128) bare_store [0]"
  have bk: "set (bucket_of (cells ?g) k) = (if k \<in> set (cell_range 2 2 (- 1) 0) then {0} else {})"
    for k
    by (simp add: bucket_of_insertAll bare_store_def bare_cells) (simp add: create_def bucket_of_def)
  have range: "set (query ?g 0 0 300)
      = (\<Union>k \<in> set (cell_range (- 3) 2 (- 3) 2). set (bucket_of (cells ?g) k))"
    unfolding set_query by (simp add: create_def)
  have "cell_key 2 0 \<in> set (cell_range 2 2 (- 1) 0)" "cell_key 2 0 \<in> set (cell_range (- 3) 2 (- 3) 2)"
    unfolding set_cell_range by fastforce+
  then show ?thesis
    unfolding range bk by auto
qed

text \<open>
  Claim C3 fails on the code. An entity at \<open>(310, 0)\<close> with no radius, size or r is
  registered by \<open>insert\<close> as a circle of radius 16 (\<open>_entityCells\<close> ends its fallback
  chain with \<open>|| 16\<close>, as \<open>checkCollision\<close> does): cells \<open>(2, -1)\<close> and \<open>(2, 0)\<close>. A
  query of radius 300 at the origin finds it in the broad phase, and its distance 310 is
  within \<open>300 + 16\<close>; but \<open>queryCircle\<close> ends its own chain with \<open>|| 0\<close>, tests
  \<open>310 * 310 <= 300 * 300\<close> and returns nothing. Every number is an integer and the cell
  size a power of two, so no rounding is involved.
\<close>

theorem queryCircle_misses_default_radius:
  "entity_cells (create 128) (bare_store 0) = cell_range 2 2 (- 1) 0 \<and>
   radius_or (bare_store 0) 16 = 16 \<and>
   set (query (insertAll (create 128) bare_store [0]) 0 0 300) = {0} \<and>
   hypot (ent_x (bare_store 0) - 0) (ent_y (bare_store 0) - 0) \<le> 300 + radius_or (bare_store 0) 16 \<and>
   queryCircle (insertAll (create 128) bare_store [0]) bare_store 0 0 300 = []"
proof -
  have "in_circle bare_store 0 0 300 e = False" for e
    by (simp add: in_circle_def bare_store_def bare_entity_def radius_or_def num_or_def)
  then have "queryCircle (insertAll (create 128) bare_store [0]) bare_store 0 0 300 = []"
    by (simp add: queryCircle_def)
  moreover have "hypot (ent_x (bare_store 0) - 0) (ent_y (bare_store 0) - 0)
      \<le> 300 + radius_or (bare_store 0) 16"
    by (simp add: bare_store_def bare_entity_def radius_or_def num_or_def hypot_def real_sqrt_abs2)
  moreover have "radius_or (bare_store 0) 16 = 16"
    by (simp add: bare_store_def bare_entity_def radius_or_def num_or_def)
  moreover have "entity_cells (create 128) (bare_store 0) = cell_range 2 2 (- 1) 0"
    by (simp add: bare_store_def bare_cells)
  ultimately show ?thesis
    using bare_candidate by simp
qed

text \<open>
  An entity with a negative radius is a second miss: at the origin with radius \<open>-200\<close>
  its cell range is empty (from cell 1 down to cell \<open>-2\<close>), so \<open>insert\<close> puts it in no
  bucket and a query of radius 300 at the origin returns nothing, while its distance 0 is
  within \<open>300 + (-200)\<close>.
\<close>

lemma neg_cells: "entity_cells (create 128) neg_entity = []"
  by (simp add: entity_cells_def create_def neg_entity_def radius_or_def num_or_def cell_range_def Let_def)

lemma queryCircle_negative_radius:
  "set (query (insertAll (create 128) neg_store [0]) 0 0 300) = {} \<and>
   hypot (ent_x (neg_store 0) - 0) (ent_y (neg_store 0) - 0) \<le> 300 + radius_or (neg_store 0) 16"
proof -
  have "set (bucket_of (cells (insertAll (create 128) neg_store [0])) k) = {}" for k
    by (simp add: bucket_of_insertAll neg_store_def neg_cells) (simp add: create_def bucket_of_def)
  then have "set (query (insertAll (create 128) neg_store [0]) 0 0 300) = {}"
    unfolding set_query by simp
  moreover have "hypot (ent_x (neg_store 0) - 0) (ent_y (neg_store 0) - 0)
      \<le> 300 + radius_or (neg_store 0) 16"
    by (simp add: neg_store_def neg_entity_def radius_or_def num_or_def hypot_def)
  ultimately show ?thesis by simp
qed

section \<open>SpatialHash: remove and update of an entity that was never inserted\<close>

text \<open>
  Claim C8, as amended. For an entity with no recorded cell list, \<open>remove\<close> leaves the
  grid as it is, and \<open>update\<close>, being \<open>remove\<close> then \<open>insert\<close>, inserts the entity.
  Neither raises: both are total.
\<close>

theorem remove_never_inserted:
  "entityCells g e = None \<Longrightarrow>
     remove_entity g e = g \<and> update_entity g h e = insert_entity g h e"
  by (simp add: remove_entity_def update_entity_def)

text \<open>
  Claim C8 as stated fails for \<open>update\<close>: on a fresh grid it records the entity, so the
  grid is not unchanged.
\<close>

theorem update_never_inserted_counterexample:
  "update_entity (create 128) unit_store 0 \<noteq> create 128"
proof
  assume "update_entity (create 128) unit_store 0 = create 128"
  then have "entityCells (update_entity (create 128) unit_store 0) 0 = entityCells (create 128) 0"
    by simp
  then show False
    by (simp add: update_entity_def remove_entity_def insert_entity_def create_def Let_def)
qed

text \<open>The amended C8 on a fresh grid.\<close>

theorem remove_never_inserted_witness:
  "entityCells (create 128) 0 = None \<and> remove_entity (create 128) 0 = create 128
     \<and> update_entity (create 128) unit_store 0 = insert_entity (create 128) unit_store 0"
  using remove_never_inserted [of "create 128" 0 unit_store] by (simp add: create_def)

section \<open>SpatialHash: insert then remove, and update\<close>

lemma bucket_add_apply:
  "bucket_add e a c k = (if k = a then Some (set_add e (bucket_of c k)) else c k)"
  by (simp add: bucket_add_def bucket_of_def split: option.splits)

lemma set_add_idem: "set_add e (set_add e b) = set_add e b"
  by (simp add: set_add_def)

lemma fold_bucket_add_apply:
  "fold (bucket_add e) ks c k =
     (if k \<in> set ks then Some (set_add e (bucket_of c k)) else c k)"
proof (induction ks arbitrary: c)
  case Nil
  show ?case by simp
next
  case (Cons a ks)
  have "fold (bucket_add e) (a # ks) c k = fold (bucket_add e) ks (bucket_add e a c) k"
    by simp
  also have "\<dots> = (if k \<in> set ks then Some (set_add e (bucket_of (bucket_add e a c) k))
                    else bucket_add e a c k)"
    by (rule Cons.IH)
  also have "\<dots> = (if k \<in> set (a # ks) then Some (set_add e (bucket_of c k)) else c k)"
    by (cases "k = a") (simp_all add: bucket_add_apply bucket_of_def set_add_idem)
  finally show ?case .
qed

lemma set_delete_idem: "set_delete e (set_delete e b) = set_delete e b"
  by (simp add: set_delete_def)

lemma removed_idem: "removed e (removed e v) = removed e v"
  by (simp add: removed_def set_delete_idem split: option.splits)

lemma bucket_remove_removed:
  "bucket_remove e a c k = (if k = a then removed e (c k) else c k)"
  by (simp add: bucket_remove_def removed_def Let_def split: option.splits)

lemma fold_bucket_remove_apply:
  "fold (bucket_remove e) ks c k = (if k \<in> set ks then removed e (c k) else c k)"
proof (induction ks arbitrary: c)
  case Nil
  show ?case by simp
next
  case (Cons a ks)
  have "fold (bucket_remove e) (a # ks) c k = fold (bucket_remove e) ks (bucket_remove e a c) k"
    by simp
  also have "\<dots> = (if k \<in> set ks then removed e (bucket_remove e a c k)
                    else bucket_remove e a c k)"
    by (rule Cons.IH)
  also have "\<dots> = (if k \<in> set (a # ks) then removed e (c k) else c k)"
    by (cases "k = a") (simp_all add: bucket_remove_removed removed_idem)
  finally show ?case .
qed

text \<open>
  Claim C9. On a grid that holds no empty bucket (every grid that the operations build)
  and does not contain the entity, \<open>insert\<close> followed by \<open>remove\<close> gives back the
  grid, every bucket and the map of cell lists as before; and on every grid \<open>update\<close>
  is \<open>remove\<close> followed by \<open>insert\<close> at the entity's current position.
\<close>

theorem insert_remove_restores:
  "(no_empty_bucket g \<and> absent g e \<longrightarrow> remove_entity (insert_entity g h e) e = g)
   \<and> update_entity g h e = insert_entity (remove_entity g e) h e"
proof (intro conjI impI)
  assume a: "no_empty_bucket g \<and> absent g e"
  let ?keys = "entity_cells g (h e)"
  have cells: "fold (bucket_remove e) ?keys (fold (bucket_add e) ?keys (cells g)) = cells g"
  proof
    fix k
    show "fold (bucket_remove e) ?keys (fold (bucket_add e) ?keys (cells g)) k = cells g k"
    proof (cases "cells g k")
      case None
      then show ?thesis
        by (simp add: fold_bucket_remove_apply fold_bucket_add_apply bucket_of_def set_add_def
            set_delete_def removed_def)
    next
      case (Some b)
      with a have "b \<noteq> []" "e \<notin> set b" by (auto simp: no_empty_bucket_def absent_def)
      with Some show ?thesis
        by (simp add: fold_bucket_remove_apply fold_bucket_add_apply bucket_of_def set_add_def
            set_delete_def removed_def)
    qed
  qed
  have ec: "(entityCells g)(e := None) = entityCells g"
    using a by (auto simp: absent_def)
  show "remove_entity (insert_entity g h e) e = g"
    by (simp add: remove_entity_def insert_entity_def Let_def cells ec)
next
  show "update_entity g h e = insert_entity (remove_entity g e) h e"
    by (simp add: update_entity_def)
qed

text \<open>The invariant holds of a fresh grid and is kept by every operation.\<close>

lemma no_empty_bucket_create: "no_empty_bucket (create cs)"
  by (simp add: no_empty_bucket_def create_def)

lemma no_empty_bucket_insert: "no_empty_bucket g \<Longrightarrow> no_empty_bucket (insert_entity g h e)"
  by (auto simp: no_empty_bucket_def insert_entity_def Let_def fold_bucket_add_apply set_add_def split: if_splits)

lemma no_empty_bucket_remove: "no_empty_bucket g \<Longrightarrow> no_empty_bucket (remove_entity g e)"
  by (auto simp: no_empty_bucket_def remove_entity_def fold_bucket_remove_apply removed_def
      split: option.splits if_splits)

lemma no_empty_bucket_update: "no_empty_bucket g \<Longrightarrow> no_empty_bucket (update_entity g h e)"
  by (simp add: update_entity_def no_empty_bucket_insert no_empty_bucket_remove)

lemma no_empty_bucket_clear: "no_empty_bucket (clear g)"
  by (simp add: no_empty_bucket_def clear_def)

text \<open>Claim C9 on a fresh grid.\<close>

theorem insert_remove_restores_witness:
  "no_empty_bucket (create 128) \<and> absent (create 128) 0
   \<and> remove_entity (insert_entity (create 128) unit_store 0) 0 = create 128
   \<and> update_entity (create 128) unit_store 0
       = insert_entity (remove_entity (create 128) 0) unit_store 0"
  using insert_remove_restores [of "create 128" 0 unit_store]
  by (simp add: no_empty_bucket_def absent_def create_def)

section \<open>Loops: unfolding and invariants\<close>

lemma for_loop_step:
  "real i < n \<Longrightarrow> cond s \<Longrightarrow> for_loop i n cond body s = for_loop (Suc i) n cond body (body i s)"
  by (subst for_loop.simps) simp

lemma for_loop_stop:
  "\<not> (real i < n \<and> cond s) \<Longrightarrow> for_loop i n cond body s = s"
  by (subst for_loop.simps) auto

text \<open>An invariant of the body holds after the loop, together with the negated test.\<close>

lemma for_loop_rule:
  assumes "P i s"
    and "\<And>j t. i \<le> j \<Longrightarrow> P j t \<Longrightarrow> real j < n \<Longrightarrow> cond t \<Longrightarrow> P (Suc j) (body j t)"
  shows "\<exists>j\<ge>i. P j (for_loop i n cond body s) \<and> \<not> (real j < n \<and> cond (for_loop i n cond body s))"
  using assms
proof (induction i n cond body s rule: for_loop.induct)
  case (1 i n cond body s)
  show ?case
  proof (cases "real i < n \<and> cond s")
    case True
    then have eq: "for_loop i n cond body s = for_loop (Suc i) n cond body (body i s)"
      by (simp add: for_loop_step)
    have "P (Suc i) (body i s)"
      using "1.prems"(2) [of i s] "1.prems"(1) True by simp
    moreover have "\<And>j t. Suc i \<le> j \<Longrightarrow> P j t \<Longrightarrow> real j < n \<Longrightarrow> cond t \<Longrightarrow> P (Suc j) (body j t)"
      using "1.prems"(2) by simp
    ultimately have "\<exists>j\<ge>Suc i. P j (for_loop (Suc i) n cond body (body i s))
        \<and> \<not> (real j < n \<and> cond (for_loop (Suc i) n cond body (body i s)))"
      using "1.IH" [OF True] by blast
    then show ?thesis unfolding eq by (meson Suc_leD)
  next
    case False
    then have "for_loop i n cond body s = s" by (rule for_loop_stop)
    with False "1.prems"(1) show ?thesis by auto
  qed
qed

lemma for_loop_inv:
  assumes "P s" and "\<And>j t. P t \<Longrightarrow> real j < n \<Longrightarrow> cond t \<Longrightarrow> P (body j t)"
  shows "P (for_loop i n cond body s)"
  using for_loop_rule [where P = "\<lambda>(_::nat). P" and i = i and s = s and n = n and cond = cond
      and body = body] assms by blast

text \<open>A loop without a test on the state runs \<open>\<lceil>n\<rceil> - i\<close> times.\<close>

lemma for_loop_count:
  assumes "\<And>j t. f (body j t) = Suc (f t)"
  shows "f (for_loop i n (\<lambda>_. True) body s) = f s + (nat \<lceil>n\<rceil> - i)"
  using assms
proof (induction i n "\<lambda>_::'a. True" body s rule: for_loop.induct)
  case (1 i n body s)
  show ?case
  proof (cases "real i < n")
    case True
    then have lt: "i < nat \<lceil>n\<rceil>" by linarith
    have "f (for_loop i n (\<lambda>_. True) body s) = f (for_loop (Suc i) n (\<lambda>_. True) body (body i s))"
      using True by (simp add: for_loop_step)
    also have "\<dots> = f (body i s) + (nat \<lceil>n\<rceil> - Suc i)"
      using "1.hyps" "1.prems" True by simp
    also have "\<dots> = Suc (f s) + (nat \<lceil>n\<rceil> - Suc i)"
      by (simp only: "1.prems")
    also have "\<dots> = f s + (nat \<lceil>n\<rceil> - i)"
      using lt by arith
    finally show ?thesis .
  next
    case False
    then have "nat \<lceil>n\<rceil> \<le> i" by linarith
    then show ?thesis
      using False by (simp add: for_loop_stop)
  qed
qed

text \<open>A loop whose body adds at most one to a counter that its test keeps below \<open>c\<close>
  leaves the counter at most \<open>\<lceil>c\<rceil>\<close>, or where it started.\<close>

lemma for_loop_guard:
  assumes "\<And>j t. cond t \<Longrightarrow> f (body j t) \<le> Suc (f t)"
    and "\<And>t. cond t \<Longrightarrow> real (f t) < c"
  shows "f (for_loop i n cond body s) \<le> max (f s) (nat \<lceil>c\<rceil>)"
proof (rule for_loop_inv [where P = "\<lambda>t. f t \<le> max (f s) (nat \<lceil>c\<rceil>)"])
  show "f s \<le> max (f s) (nat \<lceil>c\<rceil>)" by simp
next
  fix j t
  assume "f t \<le> max (f s) (nat \<lceil>c\<rceil>)" "cond t"
  then have "real (f t) < c" "f (body j t) \<le> Suc (f t)"
    using assms by auto
  then have "Suc (f t) \<le> nat \<lceil>c\<rceil>" by linarith
  with \<open>f (body j t) \<le> Suc (f t)\<close> show "f (body j t) \<le> max (f s) (nat \<lceil>c\<rceil>)"
    by simp
qed

lemma for_loop_le_step:
  "real i \<le> n \<Longrightarrow> for_loop_le i n body s = for_loop_le (Suc i) n body (body i s)"
  by (subst for_loop_le.simps) simp

lemma for_loop_le_stop:
  "\<not> real i \<le> n \<Longrightarrow> for_loop_le i n body s = s"
  by (subst for_loop_le.simps) simp

lemma for_loop_le_inv:
  assumes "P s" and "\<And>j t. P t \<Longrightarrow> P (body j t)"
  shows "P (for_loop_le i n body s)"
  using assms
proof (induction i n body s rule: for_loop_le.induct)
  case (1 i n body s)
  show ?case
  proof (cases "real i \<le> n")
    case True
    then show ?thesis
      using "1.IH" [OF True] "1.prems" by (simp add: for_loop_le_step)
  next
    case False
    then show ?thesis using "1.prems"(1) by (simp add: for_loop_le_stop)
  qed
qed

lemma for_loop_int_inv:
  assumes "P (snd rs)" and "\<And>j r t. P t \<Longrightarrow> P (snd (body j (r, t)))"
  shows "P (snd (for_loop_int i a b body rs))"
  using assms
proof (induction i a b body rs rule: for_loop_int.induct)
  case (1 i a b body r s)
  show ?case
  proof (cases "real i < fst (rng_int r a b)")
    case True
    have "P (snd (body i (snd (rng_int r a b), s)))"
      using "1.prems" by simp
    then show ?thesis
      using "1.IH" [OF True] "1.prems"(2) True by (subst for_loop_int.simps) simp
  next
    case False
    then show ?thesis using "1.prems"(1) by (subst for_loop_int.simps) simp
  qed
qed

section \<open>The generator's draws\<close>

lemma rng_next_bounds: "0 \<le> fst (rng_next r) \<and> fst (rng_next r) < 1"
proof -
  have "shd r mod 4294967296 < 4294967296"
    by simp
  then have "real (shd r mod 4294967296) < real 4294967296"
    by (rule less_imp_of_nat_less)
  then show ?thesis
    by (simp add: rng_next_def)
qed

lemma rng_range_bounds:
  assumes "a \<le> b"
  shows "a \<le> fst (rng_range r a b) \<and> fst (rng_range r a b) \<le> b"
proof -
  let ?u = "fst (rng_next r)"
  have u: "0 \<le> ?u" "?u < 1" using rng_next_bounds by auto
  have "0 \<le> ?u * (b - a)" using u assms by simp
  moreover have "?u * (b - a) \<le> 1 * (b - a)"
    using u assms by (intro mult_right_mono) auto
  ultimately show ?thesis by (simp add: rng_range_def)
qed

lemma rng_range_same: "fst (rng_range r a a) = a"
  by (simp add: rng_range_def)

lemma rng_int_bounds:
  assumes "a \<le> b + 1"
  shows "of_int \<lfloor>a\<rfloor> \<le> fst (rng_int r a b) \<and> fst (rng_int r a b) \<le> b + 1"
proof -
  let ?u = "fst (rng_next r)"
  have u: "0 \<le> ?u" "?u < 1" using rng_next_bounds by auto
  have lo: "0 \<le> ?u * (b - a + 1)" using u assms by simp
  have hi: "?u * (b - a + 1) \<le> 1 * (b - a + 1)"
    using u assms by (intro mult_right_mono) auto
  have "\<lfloor>a\<rfloor> \<le> \<lfloor>a + ?u * (b - a + 1)\<rfloor>"
    using lo by (intro floor_mono) simp
  moreover have "of_int \<lfloor>a + ?u * (b - a + 1)\<rfloor> \<le> a + ?u * (b - a + 1)"
    by simp
  ultimately show ?thesis
    using hi by (simp add: rng_int_def js_floor_def) linarith
qed

text \<open>With integer bounds \<open>a \<le> b\<close> the draw is an integer in \<open>[a, b]\<close>.\<close>

lemma rng_int_int_bounds:
  assumes "a \<le> b"
  shows "of_int a \<le> fst (rng_int r (of_int a) (of_int b)) \<and>
         fst (rng_int r (of_int a) (of_int b)) \<le> of_int b"
proof -
  let ?u = "fst (rng_next r)"
  have u: "0 \<le> ?u" "?u < 1" using rng_next_bounds by auto
  have ab: "0 < real_of_int b - real_of_int a + 1" using assms by simp
  have lo: "0 \<le> ?u * (of_int b - of_int a + 1)" using u ab by simp
  have hi: "?u * (real_of_int b - of_int a + 1) < 1 * (of_int b - of_int a + 1)"
    using u ab by (intro mult_strict_right_mono) auto
  have "of_int a + ?u * (real_of_int b - of_int a + 1) < of_int (b + 1)"
    using hi by simp
  then have "\<lfloor>of_int a + ?u * (real_of_int b - of_int a + 1)\<rfloor> < b + 1"
    by (simp only: floor_less_iff)
  moreover have "of_int a \<le> of_int a + ?u * (real_of_int b - of_int a + 1)"
    using lo by simp
  then have "a \<le> \<lfloor>of_int a + ?u * (real_of_int b - of_int a + 1)\<rfloor>"
    by (simp only: le_floor_iff)
  ultimately show ?thesis
    by (simp add: rng_int_def js_floor_def del: floor_add_int floor_add2)
qed

lemma same_frame_refl: "same_frame z z"
  by (simp add: same_frame_def)

lemma same_frame_fields:
  assumes "same_frame z z'"
  shows "zone_seed z' = zone_seed z" "zone_width z' = zone_width z"
    "zone_height z' = zone_height z" "zone_biome z' = zone_biome z"
    "zone_spawn z' = zone_spawn z" "zone_exit z' = zone_exit z"
    "eliteSpawns z' = eliteSpawns z" "decorations z' = decorations z"
    "zone_parallax z' = zone_parallax z" "pois z' = pois z"
    "resourceNodes z' = resourceNodes z" "zone_objective z' = zone_objective z"
    "branchExits z' = branchExits z"
proof -
  from assms obtain A B where z': "z' = z \<lparr> enemySpawns := A, obstacles := B \<rparr>"
    unfolding same_frame_def by blast
  show "zone_seed z' = zone_seed z" "zone_width z' = zone_width z"
    "zone_height z' = zone_height z" "zone_biome z' = zone_biome z"
    "zone_spawn z' = zone_spawn z" "zone_exit z' = zone_exit z"
    "eliteSpawns z' = eliteSpawns z" "decorations z' = decorations z"
    "zone_parallax z' = zone_parallax z" "pois z' = pois z"
    "resourceNodes z' = resourceNodes z" "zone_objective z' = zone_objective z"
    "branchExits z' = branchExits z"
    by (simp_all add: z')
qed

lemma same_frame_trans: "same_frame z z' \<Longrightarrow> same_frame z' z'' \<Longrightarrow> same_frame z z''"
proof -
  assume a: "same_frame z z'" and b: "same_frame z' z''"
  from a obtain A B where z': "z' = z \<lparr> enemySpawns := A, obstacles := B \<rparr>"
    unfolding same_frame_def by blast
  from b obtain C D where z'': "z'' = z' \<lparr> enemySpawns := C, obstacles := D \<rparr>"
    unfolding same_frame_def by blast
  show ?thesis
    unfolding same_frame_def by (simp add: z' z'')
qed

lemma same_frame_update:
  "same_frame z (z \<lparr> enemySpawns := A, obstacles := B \<rparr>)"
  "same_frame z (z \<lparr> obstacles := B \<rparr>)"
  by (simp_all add: same_frame_def)

subsection \<open>Elite spawns\<close>

lemma elite_spawn_step_length:
  "length (snd (elite_spawn_step pool w h i (r, acc))) = Suc (length acc)"
  by (simp add: elite_spawn_step_def split_def Let_def)

lemma generateEliteSpawns_length:
  "length (fst (generateEliteSpawns r st pool density w h))
     = nat \<lceil>max 1 (min (js_floor (w * h * density))
                    (num_default (maxEliteSpawnsPerZone (data_exploration st)) 8))\<rceil>"
proof -
  have "\<And>j t. length (snd (elite_spawn_step pool w h j t)) = Suc (length (snd t))"
    subgoal for j t using elite_spawn_step_length [of pool w h j "fst t" "snd t"] by simp
    done
  from for_loop_count [where f = "\<lambda>t. length (snd t)", OF this]
  show ?thesis
    by (simp add: generateEliteSpawns_def Let_def split_def)
qed

lemma generateEliteSpawns_nonempty:
  "1 \<le> length (fst (generateEliteSpawns r st pool density w h))"
proof -
  have "1 \<le> \<lceil>max 1 (min (js_floor (w * h * density))
                    (num_default (maxEliteSpawnsPerZone (data_exploration st)) 8))\<rceil>"
    by (simp add: le_ceiling_iff)
  then show ?thesis
    unfolding generateEliteSpawns_length by linarith
qed

subsection \<open>What the three mutating stages do to the zone\<close>

lemma poi_step_shape:
  assumes "poi_step t d a ip (r, ps, z) = (r', ps', z')"
  shows "\<exists>new. ps' = ps @ new \<and> enemySpawns z' = enemySpawns z @ concat (map poi_spawns new)
           \<and> obstacles z' = obstacles z @ concat (map poi_obstacles new) \<and> same_frame z z'"
proof (cases "fst (createPOI (snd (rng_pick r t)) (fst (rng_pick r t)) (pt_x (snd ip)) (pt_y (snd ip)) d a (fst ip))")
  case None
  with assms have "ps' = ps" "z' = z"
    by (simp_all add: poi_step_def split_def Let_def)
  then show ?thesis
    by (intro exI [of _ "[]"]) (simp add: same_frame_refl)
next
  case (Some p)
  with assms have "ps' = ps @ [p]"
    "z' = z \<lparr> enemySpawns := enemySpawns z @ poi_spawns p, obstacles := obstacles z @ poi_obstacles p \<rparr>"
    by (simp_all add: poi_step_def split_def Let_def poi_spawns_def)
  then show ?thesis
    by (intro exI [of _ "[p]"]) (simp add: same_frame_update)
qed

lemma fold_poi_step_shape:
  assumes "fold (poi_step t d a) xs (r, ps, z) = (r', ps', z')"
  shows "\<exists>new. ps' = ps @ new \<and> enemySpawns z' = enemySpawns z @ concat (map poi_spawns new)
           \<and> obstacles z' = obstacles z @ concat (map poi_obstacles new) \<and> same_frame z z'"
  using assms
proof (induction xs arbitrary: r ps z)
  case Nil
  then show ?case by (intro exI [of _ "[]"]) (simp add: same_frame_refl)
next
  case (Cons ip xs)
  obtain r1 ps1 z1 where step: "poi_step t d a ip (r, ps, z) = (r1, ps1, z1)"
    by (metis surj_pair)
  from poi_step_shape [OF step] obtain new1 where
    n1: "ps1 = ps @ new1" "enemySpawns z1 = enemySpawns z @ concat (map poi_spawns new1)"
      "obstacles z1 = obstacles z @ concat (map poi_obstacles new1)" "same_frame z z1"
    by blast
  from Cons.prems step have "fold (poi_step t d a) xs (r1, ps1, z1) = (r', ps', z')"
    by simp
  from Cons.IH [OF this] obtain new2 where
    n2: "ps' = ps1 @ new2" "enemySpawns z' = enemySpawns z1 @ concat (map poi_spawns new2)"
      "obstacles z' = obstacles z1 @ concat (map poi_obstacles new2)" "same_frame z1 z'"
    by blast
  show ?case
    using n1 n2 by (intro exI [of _ "new1 @ new2"]) (simp add: same_frame_trans [OF n1(4) n2(4)])
qed

lemma generatePOIs_shape:
  assumes "generatePOIs r z a opts = (ps, z', r')"
  shows "enemySpawns z' = enemySpawns z @ concat (map poi_spawns ps)
           \<and> obstacles z' = obstacles z @ concat (map poi_obstacles ps) \<and> same_frame z z'"
proof -
  obtain xs r2 t d where "fold (poi_step t d a) xs (r2, [], z) = (r', ps, z')"
    using assms unfolding generatePOIs_def Let_def split_def
    by (metis (no_types, lifting) prod.collapse prod.inject)
  from fold_poi_step_shape [OF this] show ?thesis by auto
qed

lemma node_attempts_valid:
  fixes z :: zone
  defines "good \<equiv> \<lambda>t :: rng \<times> real \<times> real \<times> bool.
    snd (snd (snd t)) \<longrightarrow>
      hypot (fst (snd t) - pt_x (zone_spawn z)) (fst (snd (snd t)) - pt_y (zone_spawn z)) \<ge> 300 \<and>
      hypot (fst (snd t) - pt_x (zone_exit z)) (fst (snd (snd t)) - pt_y (zone_exit z)) \<ge> 200"
  shows "good (for_loop 0 20 (\<lambda>(r, x, y, valid). \<not> valid) (node_attempt_step z) (r, 0, 0, False))"
proof (rule for_loop_inv)
  show "good (r, 0, 0, False)" by (simp add: good_def)
next
  fix j and t :: "rng \<times> real \<times> real \<times> bool"
  show "good (node_attempt_step z j t)"
    by (cases t) (simp add: good_def node_attempt_step_def split_def Let_def)
qed

lemma resource_node_step_shape:
  assumes "resource_node_step d i (r, nodes, z) = (r', nodes', z')"
  shows "\<exists>new. nodes' = nodes @ new \<and> obstacles z' = obstacles z @ new
           \<and> enemySpawns z' = enemySpawns z \<and> same_frame z z' \<and> (\<forall>n \<in> set new. node_ok z n)"
proof -
  let ?att = "for_loop 0 20 (\<lambda>(r, x, y, valid). \<not> valid) (node_attempt_step z) (r, 0, 0, False)"
  obtain r1 x y valid where att: "?att = (r1, x, y, valid)"
    by (metis surj_pair)
  show ?thesis
  proof (cases valid)
    case False
    with assms att have "nodes' = nodes" "z' = z"
      by (simp_all add: resource_node_step_def Let_def)
    then show ?thesis
      by (intro exI [of _ "[]"]) (simp add: same_frame_refl)
  next
    case True
    from node_attempts_valid [of z r] att True
    have ok: "hypot (x - pt_x (zone_spawn z)) (y - pt_y (zone_spawn z)) \<ge> 300"
      "hypot (x - pt_x (zone_exit z)) (y - pt_y (zone_exit z)) \<ge> 200"
      by simp_all
    from assms att True have "\<exists>node. nodes' = nodes @ [node]
        \<and> z' = z \<lparr> obstacles := obstacles z @ [node] \<rparr> \<and> ob_x node = x \<and> ob_y node = y"
      by (auto simp: resource_node_step_def Let_def split_def mk_obstacle_def)
    then obtain node where
      node: "nodes' = nodes @ [node]" "z' = z \<lparr> obstacles := obstacles z @ [node] \<rparr>"
        "ob_x node = x" "ob_y node = y"
      by blast
    show ?thesis
      using node ok
      by (intro exI [of _ "[node]"]) (simp add: same_frame_update node_ok_def)
  qed
qed

lemma node_ok_frame: "same_frame z z' \<Longrightarrow> node_ok z' n = node_ok z n"
  by (simp add: node_ok_def same_frame_fields)

lemma generateResourceNodes_shape:
  assumes "generateResourceNodes r z opts = (nodes, z', r')"
  shows "obstacles z' = obstacles z @ nodes \<and> enemySpawns z' = enemySpawns z
           \<and> same_frame z z' \<and> (\<forall>n \<in> set nodes. node_ok z n)"
proof -
  define P where "P = (\<lambda>t :: rng \<times> obstacle list \<times> zone.
     obstacles (snd (snd t)) = obstacles z @ fst (snd t) \<and>
     enemySpawns (snd (snd t)) = enemySpawns z \<and> same_frame z (snd (snd t)) \<and>
     (\<forall>n \<in> set (fst (snd t)). node_ok z n))"
  have step: "P (resource_node_step d j t)" if "P t" for d j t
  proof -
    obtain r0 ns0 z0 where t: "t = (r0, ns0, z0)" by (metis surj_pair)
    obtain r1 ns1 z1 where s: "resource_node_step d j (r0, ns0, z0) = (r1, ns1, z1)"
      by (metis surj_pair)
    from resource_node_step_shape [OF s] obtain new where
      new: "ns1 = ns0 @ new" "obstacles z1 = obstacles z0 @ new" "enemySpawns z1 = enemySpawns z0"
        "same_frame z0 z1" "\<forall>n \<in> set new. node_ok z0 n"
      by blast
    from that t have p: "obstacles z0 = obstacles z @ ns0" "enemySpawns z0 = enemySpawns z"
      "same_frame z z0" "\<forall>n \<in> set ns0. node_ok z n"
      by (simp_all add: P_def)
    have "\<forall>n \<in> set new. node_ok z n"
      using new(5) node_ok_frame [OF p(3)] by simp
    then show ?thesis
      using new p same_frame_trans [OF p(3) new(4)] by (auto simp: t s P_def)
  qed
  have "P (for_loop 0 c (\<lambda>_. True) (resource_node_step d) (r1, [], z))" for c d r1
    by (rule for_loop_inv) (simp_all add: P_def same_frame_refl step [unfolded P_def])
  then show ?thesis
    using assms unfolding generateResourceNodes_def Let_def split_def P_def
    by (metis (no_types, lifting) fst_conv snd_conv prod.inject)
qed

subsection \<open>The objective\<close>

lemma generator_step_shape:
  assumes "generator_step d i (r, gens, z) = (r', gens', z')"
  shows "\<exists>g. gens' = gens @ [g] \<and> z' = z \<lparr> obstacles := obstacles z @ [g] \<rparr>"
  using assms by (auto simp: generator_step_def Let_def split_def)

lemma generators_loop:
  assumes "for_loop 0 3 (\<lambda>_. True) (generator_step d) (r, [], z) = (r', gens, z')"
  shows "obstacles z' = obstacles z @ gens \<and> enemySpawns z' = enemySpawns z
           \<and> same_frame z z' \<and> length gens = 3"
proof -
  define P where "P = (\<lambda>t :: rng \<times> obstacle list \<times> zone.
     obstacles (snd (snd t)) = obstacles z @ fst (snd t) \<and>
     enemySpawns (snd (snd t)) = enemySpawns z \<and> same_frame z (snd (snd t)))"
  have step: "P (generator_step d j t)" if "P t" for j t
  proof -
    obtain r0 g0 z0 where t: "t = (r0, g0, z0)" by (metis surj_pair)
    obtain r1 g1 z1 where s: "generator_step d j (r0, g0, z0) = (r1, g1, z1)"
      by (metis surj_pair)
    from generator_step_shape [OF s] obtain g where
      g: "g1 = g0 @ [g]" "z1 = z0 \<lparr> obstacles := obstacles z0 @ [g] \<rparr>" by blast
    from that t have p: "obstacles z0 = obstacles z @ g0" "enemySpawns z0 = enemySpawns z"
      "same_frame z z0"
      by (simp_all add: P_def)
    have "same_frame z z1"
      using same_frame_trans [OF p(3)] g(2) same_frame_update(2) by simp
    then show ?thesis
      using g p by (simp add: t s P_def)
  qed
  have "P (for_loop 0 3 (\<lambda>_. True) (generator_step d) (r, [], z))"
    by (rule for_loop_inv) (simp_all add: P_def same_frame_refl step [unfolded P_def])
  moreover have "length (fst (snd (for_loop 0 3 (\<lambda>_. True) (generator_step d) (r, [], z))))
      = length (fst (snd (r, [] :: obstacle list, z))) + (nat \<lceil>3 :: real\<rceil> - 0)"
  proof (rule for_loop_count)
    fix j and t :: "rng \<times> obstacle list \<times> zone"
    obtain r0 g0 z0 where t: "t = (r0, g0, z0)" by (metis surj_pair)
    obtain r1 g1 z1 where s: "generator_step d j (r0, g0, z0) = (r1, g1, z1)"
      by (metis surj_pair)
    from generator_step_shape [OF s] show
      "length (fst (snd (generator_step d j t))) = Suc (length (fst (snd t)))"
      by (auto simp: t s)
  qed
  ultimately show ?thesis
    using assms by (simp add: P_def)
qed

lemma generateObjective_shape:
  assumes "generateObjective r z d = (ob, z', r')"
  shows "obstacles z' = obstacles z @ objective_generators ob \<and> enemySpawns z' = enemySpawns z
           \<and> same_frame z z' \<and> length (objective_generators ob) \<le> 3"
proof (cases "d > 2 \<and> fst (case pick_weighted snd (fst (rng_range r 0 (fold (\<lambda>ob s. s + snd ob) (objectives d) 0))) (objectives d) of
                         Some ob \<Rightarrow> ob
                       | None \<Rightarrow> hd (objectives d)) = ''lockdown''")
  case True
  obtain r2 gens z2 where loop:
    "for_loop 0 3 (\<lambda>_. True) (generator_step d)
       (snd (rng_range r 0 (fold (\<lambda>ob s. s + snd ob) (objectives d) 0)), [], z) = (r2, gens, z2)"
    by (metis surj_pair)
  from assms True loop have "z' = z2" "objective_generators ob = gens"
    by (auto simp: generateObjective_def Let_def split_def objective_generators_def mk_objective_def)
  with generators_loop [OF loop] show ?thesis by simp
next
  case False
  with assms have "z' = z" "objective_generators ob = []"
    by (auto simp: generateObjective_def Let_def split_def objective_generators_def
        mk_objective_def split: if_splits)
  then show ?thesis by (simp add: same_frame_refl)
qed

subsection \<open>The zone that \<open>generate\<close> returns, field by field\<close>

lemma generate_shape:
  fixes SeededRandom st actConfig zoneSeed opts
  defines "z \<equiv> generate SeededRandom st actConfig zoneSeed opts"
  defines "w \<equiv> zone_width z" and "h \<equiv> zone_height z"
  defines "pool \<equiv> list_or (act_pool actConfig) [''grunt'']"
  defines "r1 \<equiv> snd (zone_dims (SeededRandom zoneSeed) st actConfig opts)"
  shows "\<exists>r3 r4 r5 r6 r7 r8 r10 r11 z1 z2.
      (w, h) = fst (zone_dims (SeededRandom zoneSeed) st actConfig opts) \<and>
      zone_spawn z = fst (generateSpawnPoint r1 w h) \<and>
      r3 = snd (generateParallax (snd (generateSpawnPoint r1 w h)) st actConfig w h) \<and>
      zone_exit z = fst (generateExitPoint r3 (zone_spawn z) w h) \<and>
      r4 = snd (generateExitPoint r3 (zone_spawn z) w h) \<and>
      r5 = snd (generateEnemySpawns r4 st pool (enemy_density st actConfig opts) w h
                  (zone_spawn z) (zone_exit z)) \<and>
      enemySpawns z =
        fst (applyPackDirector r5 st
               (fst (generateEnemySpawns r4 st pool (enemy_density st actConfig opts) w h
                       (zone_spawn z) (zone_exit z)))
               pool (zone_spawn z) (zone_exit z))
        @ concat (map poi_spawns (pois z)) \<and>
      eliteSpawns z =
        fst (generateEliteSpawns r6 st (list_or (act_elitePool actConfig) [''commander''])
               (elite_density st actConfig opts) w h) \<and>
      obstacles z =
        fst (generateObstacles r7 st (obstacle_density actConfig opts) w h
               \<lparr> opt_depth = Some (depth_of (opt_depth opts)),
                 opt_mods = Some (list_or (opt_mods opts) []), opt_difficulty = None \<rparr>)
        @ concat (map poi_obstacles (pois z)) @ resourceNodes z
        @ objective_generators (zone_objective z) \<and>
      decorations z = fst (generateDecorations r8 st (act_biome actConfig) w h) \<and>
      resourceNodes z = fst (generateResourceNodes r10 z1 opts) \<and>
      zone_spawn z1 = zone_spawn z \<and> zone_exit z1 = zone_exit z \<and>
      zone_objective z = fst (generateObjective r11 z2 (depth_of (opt_depth opts))) \<and>
      enemySpawns z2 = enemySpawns z \<and> eliteSpawns z2 = eliteSpawns z \<and>
      zone_width z2 = w \<and> zone_height z2 = h"
proof -
  obtain w0 h0 where dims: "zone_dims (SeededRandom zoneSeed) st actConfig opts = ((w0, h0), r1)"
    unfolding r1_def by (metis prod.collapse)
  obtain spawn r2 where sp: "generateSpawnPoint r1 w0 h0 = (spawn, r2)"
    by (metis surj_pair)
  obtain par r3 where par: "generateParallax r2 st actConfig w0 h0 = (par, r3)"
    by (metis surj_pair)
  obtain exit r4 where ex: "generateExitPoint r3 spawn w0 h0 = (exit, r4)"
    by (metis surj_pair)
  obtain spawns0 r5 where es: "generateEnemySpawns r4 st pool (enemy_density st actConfig opts)
      w0 h0 spawn exit = (spawns0, r5)"
    by (metis surj_pair)
  obtain spawns1 r6 where pk: "applyPackDirector r5 st spawns0 pool spawn exit = (spawns1, r6)"
    by (metis surj_pair)
  obtain elites r7 where el: "generateEliteSpawns r6 st
      (list_or (act_elitePool actConfig) [''commander'']) (elite_density st actConfig opts) w0 h0
      = (elites, r7)"
    by (metis surj_pair)
  obtain obs r8 where ob: "generateObstacles r7 st (obstacle_density actConfig opts) w0 h0
      \<lparr> opt_depth = Some (depth_of (opt_depth opts)),
        opt_mods = Some (list_or (opt_mods opts) []), opt_difficulty = None \<rparr> = (obs, r8)"
    by (metis surj_pair)
  obtain decs r9 where dc: "generateDecorations r8 st (act_biome actConfig) w0 h0 = (decs, r9)"
    by (metis surj_pair)
  define zone0 where "zone0 =
    \<lparr> zone_seed = zoneSeed, zone_width = w0, zone_height = h0,
      zone_biome = str_or (act_biome actConfig) ''space'', zone_spawn = spawn,
      zone_exit = exit, enemySpawns = spawns1, eliteSpawns = elites,
      obstacles = obs, decorations = decs, zone_parallax = par, pois = [],
      resourceNodes = [], zone_objective = None, branchExits = None \<rparr>"
  obtain ps zone1 r10 where po: "generatePOIs r9 zone0 actConfig opts = (ps, zone1, r10)"
    by (metis surj_pair)
  obtain nodes zone2 r11 where rn:
    "generateResourceNodes r10 (zone1 \<lparr> pois := ps \<rparr>) opts = (nodes, zone2, r11)"
    by (metis surj_pair)
  obtain objective zone3 r12 where oj:
    "generateObjective r11 (zone2 \<lparr> resourceNodes := nodes \<rparr>) (depth_of (opt_depth opts))
       = (objective, zone3, r12)"
    by (metis surj_pair)
  define zone4 where "zone4 = zone3 \<lparr> zone_objective := objective \<rparr>"
  have z: "z = (if depth_of (opt_depth opts) \<ge> 3
                then zone4 \<lparr> branchExits :=
                       Some (fst (generateBranchExits r12 zone4 (depth_of (opt_depth opts)))) \<rparr>
                else zone4)"
    unfolding z_def generate_def Let_def
    by (simp add: dims sp par ex es [unfolded pool_def] pk [unfolded pool_def] el ob dc
        zone0_def [symmetric] po rn oj zone4_def [symmetric])
  \<comment> \<open>the three mutating stages\<close>
  from generatePOIs_shape [OF po] have p1:
    "enemySpawns zone1 = spawns1 @ concat (map poi_spawns ps)"
    "obstacles zone1 = obs @ concat (map poi_obstacles ps)" "same_frame zone0 zone1"
    by (simp_all add: zone0_def)
  from generateResourceNodes_shape [OF rn] have p2:
    "obstacles zone2 = obstacles zone1 @ nodes" "enemySpawns zone2 = enemySpawns zone1"
    "same_frame (zone1 \<lparr> pois := ps \<rparr>) zone2"
    by simp_all
  from generateObjective_shape [OF oj] have p3:
    "obstacles zone3 = obstacles zone2 @ objective_generators objective"
    "enemySpawns zone3 = enemySpawns zone2"
    "same_frame (zone2 \<lparr> resourceNodes := nodes \<rparr>) zone3"
    by simp_all
  note f1 = same_frame_fields [OF p1(3)]
  note f2 = same_frame_fields [OF p2(3)]
  note f3 = same_frame_fields [OF p3(3)]
  have fields: "zone_width z = w0" "zone_height z = h0" "zone_spawn z = spawn" "zone_exit z = exit"
    "eliteSpawns z = elites" "decorations z = decs" "pois z = ps" "resourceNodes z = nodes"
    "zone_objective z = objective"
    "enemySpawns z = spawns1 @ concat (map poi_spawns ps)"
    "obstacles z = obs @ concat (map poi_obstacles ps) @ nodes @ objective_generators objective"
    by (simp_all add: z zone4_def f1 f2 f3 p1 p2 p3 zone0_def)
  have wh: "w = w0" "h = h0"
    by (simp_all add: w_def h_def fields)
  have z1: "zone_spawn (zone1 \<lparr> pois := ps \<rparr>) = spawn" "zone_exit (zone1 \<lparr> pois := ps \<rparr>) = exit"
    by (simp_all add: f1 zone0_def)
  have z2: "enemySpawns (zone2 \<lparr> resourceNodes := nodes \<rparr>) = enemySpawns z"
    "eliteSpawns (zone2 \<lparr> resourceNodes := nodes \<rparr>) = eliteSpawns z"
    "zone_width (zone2 \<lparr> resourceNodes := nodes \<rparr>) = w"
    "zone_height (zone2 \<lparr> resourceNodes := nodes \<rparr>) = h"
    by (simp_all add: fields wh f2 f1 p2 p1 zone0_def)
  show ?thesis
    apply (rule exI [of _ r3], rule exI [of _ r4], rule exI [of _ r5], rule exI [of _ r6])
    apply (rule exI [of _ r7], rule exI [of _ r8], rule exI [of _ r10], rule exI [of _ r11])
    apply (rule exI [of _ "zone1 \<lparr> pois := ps \<rparr>"])
    apply (rule exI [of _ "zone2 \<lparr> resourceNodes := nodes \<rparr>"])
    apply (simp only: fields wh z1 z2 dims sp par ex es pk el ob dc rn oj fst_conv snd_conv)
    done
qed

lemma rng_range_less:
  assumes "a < b"
  shows "fst (rng_range r a b) < b"
proof -
  have "fst (rng_next r) * (b - a) < 1 * (b - a)"
    using rng_next_bounds [of r] assms by (intro mult_strict_right_mono) auto
  then show ?thesis by (simp add: rng_range_def)
qed

section \<open>Claims about the generated zone\<close>

text \<open>
  Claim C10. Every zone that \<open>generate\<close> returns holds at least one elite spawn: the
  count is \<open>max(1, min(countRaw, maxElites))\<close>, whatever the density and the
  configured maximum, and nothing after \<open>generateEliteSpawns\<close> touches the list.
\<close>

theorem elite_spawns_nonempty:
  "1 \<le> length (eliteSpawns (generate SeededRandom st actConfig zoneSeed opts))"
proof -
  from generate_shape [of SeededRandom st actConfig zoneSeed opts]
  obtain r6 d w h where
    "eliteSpawns (generate SeededRandom st actConfig zoneSeed opts) =
       fst (generateEliteSpawns r6 st (list_or (act_elitePool actConfig) [''commander'']) d w h)"
    by blast
  then show ?thesis
    by (simp only: generateEliteSpawns_nonempty)
qed

lemma picked_objective_low:
  assumes "d < 5"
  shows "fst (case pick_weighted snd roll (objectives d) of Some ob \<Rightarrow> ob
              | None \<Rightarrow> hd (objectives d))
           \<in> {''exterminate'', ''timetrial'', ''lockdown''}"
  using assms by (simp add: objectives_def Let_def)

lemma generateObjective_tutorial: "d < 3 \<Longrightarrow> fst (generateObjective r z d) = None"
  by (simp add: generateObjective_def)

lemma generateObjective_low:
  assumes "d < 5" and "fst (generateObjective r z d) = Some ob"
  shows "obj_type ob \<in> {''exterminate'', ''timetrial'', ''lockdown''}"
proof -
  let ?p = "fst (case pick_weighted snd (fst (rng_range r 0 (fold (\<lambda>ob s. s + snd ob) (objectives d) 0)))
                   (objectives d) of Some ob \<Rightarrow> ob | None \<Rightarrow> hd (objectives d))"
  have "?p \<in> {''exterminate'', ''timetrial'', ''lockdown''}"
    using assms(1) by (rule picked_objective_low)
  then consider "?p = ''exterminate''" | "?p = ''timetrial''" | "?p = ''lockdown''"
    by auto
  then show ?thesis
  proof cases
    case 1
    with assms(2) show ?thesis
      by (auto simp: generateObjective_def Let_def split_def mk_objective_def split: if_splits)
  next
    case 2
    with assms(2) show ?thesis
      by (auto simp: generateObjective_def Let_def split_def mk_objective_def split: if_splits)
  next
    case 3
    with assms(2) show ?thesis
      by (auto simp: generateObjective_def Let_def split_def mk_objective_def split: if_splits)
  qed
qed

lemma generateObjective_Some:
  assumes "3 \<le> d" "d < 5"
  shows "fst (generateObjective r z d) \<noteq> None"
proof -
  let ?p = "fst (case pick_weighted snd (fst (rng_range r 0 (fold (\<lambda>ob s. s + snd ob) (objectives d) 0)))
                   (objectives d) of Some ob \<Rightarrow> ob | None \<Rightarrow> hd (objectives d))"
  have "?p \<in> {''exterminate'', ''timetrial'', ''lockdown''}"
    using assms(2) by (rule picked_objective_low)
  then consider "?p = ''exterminate''" | "?p = ''timetrial''" | "?p = ''lockdown''"
    by auto
  then show ?thesis
    using assms(1) by cases (simp_all add: generateObjective_def Let_def split_def)
qed

text \<open>
  Claim C6. With \<open>depth\<close> the effective depth \<open>options.depth || 1\<close>: below depth 3 the
  objective is \<open>null\<close>, and below depth 5 an objective is never of type survival or
  corruption (their weights are 0 and the weighted pick skips a weight of 0).
\<close>

theorem objective_gating:
  "(depth_of (opt_depth opts) < 3 \<longrightarrow>
      zone_objective (generate SeededRandom st actConfig zoneSeed opts) = None) \<and>
   (depth_of (opt_depth opts) < 5 \<longrightarrow>
      (\<forall>ob. zone_objective (generate SeededRandom st actConfig zoneSeed opts) = Some ob \<longrightarrow>
            obj_type ob \<noteq> ''survival'' \<and> obj_type ob \<noteq> ''corruption''))"
proof -
  from generate_shape [of SeededRandom st actConfig zoneSeed opts]
  obtain r11 z2 where ob:
    "zone_objective (generate SeededRandom st actConfig zoneSeed opts) =
       fst (generateObjective r11 z2 (depth_of (opt_depth opts)))"
    by blast
  show ?thesis
    unfolding ob using generateObjective_tutorial generateObjective_low by fastforce
qed

lemma generate_objective_Some:
  assumes "3 \<le> depth_of (opt_depth opts)" "depth_of (opt_depth opts) < 5"
  shows "zone_objective (generate SeededRandom st actConfig zoneSeed opts) \<noteq> None"
proof -
  from generate_shape [of SeededRandom st actConfig zoneSeed opts]
  obtain r11 z2 where ob:
    "zone_objective (generate SeededRandom st actConfig zoneSeed opts) =
       fst (generateObjective r11 z2 (depth_of (opt_depth opts)))"
    by blast
  show ?thesis
    unfolding ob using assms by (rule generateObjective_Some)
qed

text \<open>Claim C6 at depth 1 (no objective) and at depth 4 (an objective, of neither type).\<close>

theorem objective_gating_witness:
  "depth_of (opt_depth (opts_depth 1)) < 3 \<and>
   zone_objective (generate zero_rng default_state default_act 0 (opts_depth 1)) = None \<and>
   depth_of (opt_depth (opts_depth 4)) < 5 \<and>
   zone_objective (generate zero_rng default_state default_act 0 (opts_depth 4)) \<noteq> None \<and>
   obj_type (the (zone_objective (generate zero_rng default_state default_act 0 (opts_depth 4))))
     \<noteq> ''survival'' \<and>
   obj_type (the (zone_objective (generate zero_rng default_state default_act 0 (opts_depth 4))))
     \<noteq> ''corruption''"
proof -
  have d1: "depth_of (opt_depth (opts_depth 1)) < 3" and d4: "depth_of (opt_depth (opts_depth 4)) < 5"
    and d4': "3 \<le> depth_of (opt_depth (opts_depth 4))"
    by (simp_all add: opts_depth_def depth_of_def)
  from generate_objective_Some [OF d4' d4, of zero_rng default_state default_act 0]
  obtain ob where ob: "zone_objective (generate zero_rng default_state default_act 0 (opts_depth 4)) = Some ob"
    by blast
  from objective_gating [of "opts_depth 1" zero_rng default_state default_act 0] d1
  have "zone_objective (generate zero_rng default_state default_act 0 (opts_depth 1)) = None"
    by blast
  moreover from objective_gating [of "opts_depth 4" zero_rng default_state default_act 0] d4 ob
  have "obj_type ob \<noteq> ''survival'' \<and> obj_type ob \<noteq> ''corruption''"
    by blast
  ultimately show ?thesis
    using d1 d4 ob by simp
qed

text \<open>
  Claim C7 fails on the code. In a 2000 by 2000 zone, a generator whose first draw picks
  the left edge and whose second draw is 0.75 puts the spawn at \<open>(100, 1450)\<close>, on the
  left edge and in the lower half. \<open>generateExitPoint\<close> tests \<open>spawn.y > h / 2\<close> first,
  so the exit goes to the top edge (\<open>y = 100\<close>) and not to the right edge
  (\<open>x = 1900\<close>).
\<close>

theorem exit_not_opposite_left_spawn:
  "zone_spawn (generate left_low_rng default_state (square_act 2000) 0 (opts_depth 1))
     = \<lparr> pt_x = 100, pt_y = 1450 \<rparr> \<and>
   pt_y (zone_exit (generate left_low_rng default_state (square_act 2000) 0 (opts_depth 1))) = 100 \<and>
   pt_x (zone_exit (generate left_low_rng default_state (square_act 2000) 0 (opts_depth 1))) < 1900"
proof -
  let ?z = "generate left_low_rng default_state (square_act 2000) 0 (opts_depth 1)"
  have dims: "zone_dims (left_low_rng 0) default_state (square_act 2000) (opts_depth 1)
      = ((2000, 2000), 2147483648 ## sconst 3221225472)"
    by (simp add: zone_dims_def square_act_def default_act_def default_generation_def
        opts_depth_def list_or_def pickRange_def default_state_def default_tuning_def
        left_low_rng_def)
  from generate_shape [of left_low_rng default_state "square_act 2000" 0 "opts_depth 1"]
  obtain r3 where
    wh: "(zone_width ?z, zone_height ?z) = (2000, 2000)" and
    sp: "zone_spawn ?z = fst (generateSpawnPoint (2147483648 ## sconst 3221225472)
                                (zone_width ?z) (zone_height ?z))" and
    ex: "zone_exit ?z = fst (generateExitPoint r3 (zone_spawn ?z) (zone_width ?z) (zone_height ?z))"
    unfolding dims fst_conv snd_conv by blast
  have spawn: "zone_spawn ?z = \<lparr> pt_x = 100, pt_y = 1450 \<rparr>"
    using wh by (simp add: sp generateSpawnPoint_def rng_pick_def rng_range_def rng_next_def Let_def)
  have "fst (rng_range r3 100 1900) < 1900"
    by (rule rng_range_less) simp
  then show ?thesis
    using wh by (simp add: spawn ex generateExitPoint_def split_def Let_def)
qed

lemma hypot_ge_iff: "0 \<le> d \<Longrightarrow> d \<le> hypot a b \<longleftrightarrow> d * d \<le> a * a + b * b"
proof -
  assume d: "0 \<le> d"
  have "d \<le> sqrt (a * a + b * b) \<longleftrightarrow> d\<^sup>2 \<le> a * a + b * b"
    using d by (metis real_le_rsqrt real_sqrt_le_iff real_sqrt_abs abs_of_nonneg)
  then show ?thesis by (simp add: hypot_def power2_eq_square)
qed


lemma rng_next_half: "rng_next half_rng = (1 / 2, half_rng)"
  by (simp add: rng_next_def half_rng_def)

lemma rng_half:
  "rng_range half_rng a b = (a + (b - a) / 2, half_rng)"
  "rng_int half_rng a b = (js_floor (a + (b - a + 1) / 2), half_rng)"
  by (simp_all add: rng_range_def rng_int_def rng_next_half)

lemma rng_pick_half: "snd (rng_pick half_rng xs) = half_rng"
  by (simp add: rng_pick_def rng_next_half Let_def)

lemma shuffle_half: "shuffle_from 2 (half_rng, [0, 1, 2]) = (half_rng, [0, 2, 1])"
proof -
  have "shuffle_from (Suc (Suc 0)) (half_rng, [0, 1, 2]) = (half_rng, [0, 2, 1])"
    by (simp add: rng_half js_floor_def Let_def)
  then show ?thesis by (simp add: numeral_2_eq_2)
qed

text \<open>
  Claim C5 fails on the code. Three spawns, one template without members and a generator
  whose draws are all 0.5: the first anchor is accepted, the pack size is
  \<open>int(3, 5) = 4\<close>, only three indices are left to consume, and four members are
  pushed: the list grows from 3 to 4.
\<close>

theorem pack_director_grows:
  "length three_spawns = 3 \<and>
   length (fst (applyPackDirector half_rng pack_state three_spawns [''grunt'']
                  \<lparr> pt_x = 100, pt_y = 1900 \<rparr> \<lparr> pt_x = 100, pt_y = 100 \<rparr>)) = 4"
proof -
  have valid: "validAnchor \<lparr> pt_x = 100, pt_y = 1900 \<rparr> \<lparr> pt_x = 100, pt_y = 100 \<rparr> 350 250
      (plain_spawn 1000 1000)"
    by (simp add: validAnchor_def plain_spawn_def hypot_ge_iff)
  show ?thesis
    by (simp add: applyPackDirector_def pack_state_def one_template_def num_default_def
        three_spawns_def shuffle_half [simplified] upt_rec for_loop.simps pack_step_def make_pack_def valid
        rng_half pickTemplate_def tpl_weight_of_def member_types_def js_floor_def
        consume_step_def pack_member_step_def rng_pick_half split_def Let_def
        remaining_singles_def enumerate_eq_zip no_type_def)
qed

subsection \<open>Enemy spawns: the rejection sampling\<close>

lemma hypot_minus: "hypot (a - b) (c - d) = hypot (b - a) (d - c)"
proof -
  have "(a - b) * (a - b) = (b - a) * (b - a)" "(c - d) * (c - d) = (d - c) * (d - c)"
    by (simp_all add: algebra_simps)
  then show ?thesis by (simp add: hypot_def)
qed

lemma apart_sym: "apart d a b = apart d b a"
  by (simp add: apart_def hypot_minus [of "es_x a"])

lemma enemy_spawn_step_ok:
  assumes "spawns_ok sp ex d1 d2 d3 xs"
  shows "spawns_ok sp ex d1 d2 d3 (snd (enemy_spawn_step pool w h sp ex d1 d2 d3 i (r, xs)))"
proof -
  let ?x = "fst (rng_range r 100 (w - 100))"
  let ?y = "fst (rng_range (snd (rng_range r 100 (w - 100))) 100 (h - 100))"
  show ?thesis
  proof (cases "hypot (?x - pt_x sp) (?y - pt_y sp) < d1 \<or> hypot (?x - pt_x ex) (?y - pt_y ex) < d2
      \<or> list_ex (\<lambda>s. hypot (?x - es_x s) (?y - es_y s) < d3) xs")
    case True
    then have "snd (enemy_spawn_step pool w h sp ex d1 d2 d3 i (r, xs)) = xs"
      by (auto simp: enemy_spawn_step_def split_def Let_def)
    with assms show ?thesis by simp
  next
    case False
    then obtain e where e: "snd (enemy_spawn_step pool w h sp ex d1 d2 d3 i (r, xs)) = xs @ [e]"
      "es_x e = ?x" "es_y e = ?y" "is_single e"
      by (auto simp: enemy_spawn_step_def split_def Let_def is_single_def)
    from False have far: "away_from d1 sp e" "away_from d2 ex e"
      "\<forall>s \<in> set xs. apart d3 e s"
      by (auto simp: away_from_def apart_def e list_ex_iff)
    then have "\<forall>s \<in> set xs. apart d3 s e"
      using apart_sym by blast
    with assms far e show ?thesis
      by (auto simp: spawns_ok_def sorted_wrt_append)
  qed
qed

lemma generateEnemySpawns_ok:
  fixes st :: "'a game_state_scheme"
  defines "tune \<equiv> data_exploration st"
  shows "spawns_ok sp ex (num_default (enemySpawnMinDistFromSpawn tune) 300)
           (num_default (enemySpawnMinDistFromExit tune) 200)
           (num_default (enemySpawnMinDistBetween tune) 150)
           (fst (generateEnemySpawns r st pool density w h sp ex))"
proof -
  let ?d1 = "num_default (enemySpawnMinDistFromSpawn tune) 300"
  let ?d2 = "num_default (enemySpawnMinDistFromExit tune) 200"
  let ?d3 = "num_default (enemySpawnMinDistBetween tune) 150"
  have "spawns_ok sp ex ?d1 ?d2 ?d3
          (snd (for_loop 0 n c (enemy_spawn_step pool w h sp ex ?d1 ?d2 ?d3) (r, [])))" for n c
  proof (rule for_loop_inv [where P = "\<lambda>t. spawns_ok sp ex ?d1 ?d2 ?d3 (snd t)"])
    show "spawns_ok sp ex ?d1 ?d2 ?d3 (snd (r, []))" by (simp add: spawns_ok_def)
  next
    fix j and t :: "rng \<times> enemy_spawn list"
    assume "spawns_ok sp ex ?d1 ?d2 ?d3 (snd t)"
    then show "spawns_ok sp ex ?d1 ?d2 ?d3 (snd (enemy_spawn_step pool w h sp ex ?d1 ?d2 ?d3 j t))"
      using enemy_spawn_step_ok [of sp ex ?d1 ?d2 ?d3 "snd t" pool w h j "fst t"] by simp
  qed
  then show ?thesis
    by (simp add: generateEnemySpawns_def Let_def split_def tune_def)
qed

lemma enemy_spawn_step_length:
  "length (snd (enemy_spawn_step pool w h sp ex d1 d2 d3 i t)) \<le> Suc (length (snd t))"
  by (cases t) (simp add: enemy_spawn_step_def split_def Let_def)

lemma generateEnemySpawns_length:
  "length (fst (generateEnemySpawns r st pool density w h sp ex))
     \<le> nat \<lceil>max 0 (num_default (maxEnemySpawnsPerZone (data_exploration st)) 120)\<rceil>"
proof -
  let ?max = "num_default (maxEnemySpawnsPerZone (data_exploration st)) 120"
  let ?count = "max 0 (min (js_floor (w * h * density)) ?max)"
  let ?d1 = "num_default (enemySpawnMinDistFromSpawn (data_exploration st)) 300"
  let ?d2 = "num_default (enemySpawnMinDistFromExit (data_exploration st)) 200"
  let ?d3 = "num_default (enemySpawnMinDistBetween (data_exploration st)) 150"
  have "length (snd (for_loop 0 (?count * 3) (\<lambda>(r, spawns). real (length spawns) < ?count)
          (enemy_spawn_step pool w h sp ex ?d1 ?d2 ?d3) (r, [])))
        \<le> max (length (snd (r, [] :: enemy_spawn list))) (nat \<lceil>?count\<rceil>)"
    by (rule for_loop_guard [where f = "\<lambda>t. length (snd t)"])
       (auto simp: enemy_spawn_step_length)
  moreover have "\<lceil>?count\<rceil> \<le> \<lceil>max 0 ?max\<rceil>"
    by (intro ceiling_mono) auto
  ultimately show ?thesis
    by (simp add: generateEnemySpawns_def Let_def split_def) linarith
qed

subsection \<open>The pack director: members carry a pack id, the rest are spawns it was given\<close>

lemma pack_member_step_tagged:
  assumes "\<forall>e \<in> set out. es_packId e \<noteq> None"
  shows "\<forall>e \<in> set (snd (pack_member_step anchor tpl mts sz spacing pool m (r, out))).
           es_packId e \<noteq> None"
  using assms by (simp add: pack_member_step_def split_def Let_def)

lemma make_pack_tagged:
  assumes "\<forall>e \<in> set out. es_packId e \<noteq> None"
  shows "\<forall>e \<in> set (fst (snd (snd (make_pack idx t0 ts pool mn mx spacing k i anchor
                                      (r, used, out, n))))). es_packId e \<noteq> None"
proof -
  have loop: "\<forall>e \<in> set (snd (for_loop 0 sz (\<lambda>_. True)
      (pack_member_step anchor tpl mts sz spacing pool) (r', out))). es_packId e \<noteq> None"
    for sz tpl mts r'
  proof (rule for_loop_inv [where P = "\<lambda>s. \<forall>e \<in> set (snd s). es_packId e \<noteq> None"])
    show "\<forall>e\<in>set (snd (r', out)). es_packId e \<noteq> None" using assms by simp
  next
    fix j and s :: "rng \<times> enemy_spawn list"
    assume "\<forall>e\<in>set (snd s). es_packId e \<noteq> None"
    then show "\<forall>e\<in>set (snd (pack_member_step anchor tpl mts sz spacing pool j s)). es_packId e \<noteq> None"
      using pack_member_step_tagged [of "snd s" anchor tpl mts sz spacing pool j "fst s"] by simp
  qed
  show ?thesis
    by (simp add: make_pack_def Let_def split_def loop)
qed

lemma pack_step_tagged:
  assumes "\<forall>e \<in> set (fst (snd (snd t))). es_packId e \<noteq> None"
  shows "\<forall>e \<in> set (fst (snd (snd (pack_step spawns idx t0 ts pool sp ex ch mn mx spacing d1 d2 k t)))).
           es_packId e \<noteq> None"
proof -
  obtain r used out n where t: "t = (r, used, out, n)" by (metis surj_pair)
  show ?thesis
    using assms make_pack_tagged [of out idx t0 ts pool mn mx spacing k]
    unfolding t by (simp add: pack_step_def Let_def split_def)
qed

lemma remaining_singles_all: "remaining_singles spawns {} = spawns"
  by (simp add: remaining_singles_def split_def)

lemma applyPackDirector_shape:
  "\<exists>out used. fst (applyPackDirector r st spawns pool sp ex) = out @ remaining_singles spawns used
      \<and> (\<forall>e \<in> set out. es_packId e \<noteq> None)"
proof -
  have same: "\<exists>out used. spawns = out @ remaining_singles spawns used
      \<and> (\<forall>e \<in> set out. es_packId e \<noteq> None)"
    by (intro exI [of _ "[]"] exI [of _ "{}"]) (simp add: remaining_singles_all)
  have loop: "\<forall>e \<in> set (fst (snd (snd (for_loop 0 n c
      (pack_step spawns idx t0 ts pool sp ex ch mn mx spacing d1 d2) (r', {}, [], 0))))).
      es_packId e \<noteq> None" for n c idx t0 ts ch mn mx spacing d1 d2 r'
    by (rule for_loop_inv [where P = "\<lambda>t. \<forall>e \<in> set (fst (snd (snd t))). es_packId e \<noteq> None"])
       (simp_all add: pack_step_tagged)
  show ?thesis
  proof (cases "data_packs st")
    case None
    then show ?thesis using same by (simp add: applyPackDirector_def)
  next
    case (Some pd)
    show ?thesis
    proof (cases "packs_templates pd")
      case None
      then show ?thesis using same Some by (simp add: applyPackDirector_def)
    next
      case tpls: (Some tl)
      show ?thesis
      proof (cases tl)
        case Nil
        then show ?thesis using same Some tpls by (simp add: applyPackDirector_def)
      next
        case (Cons t0 ts)
        show ?thesis
        proof (cases "real (length spawns) < num_default (packSizeMin pd) 3")
          case True
          then show ?thesis
            using same Some tpls Cons by (simp add: applyPackDirector_def Let_def)
        next
          case False
          have "\<exists>used n c idx ch mn mx spacing d1 d2 r'.
              fst (applyPackDirector r st spawns pool sp ex) =
                fst (snd (snd (for_loop 0 n c
                  (pack_step spawns idx t0 ts pool sp ex ch mn mx spacing d1 d2) (r', {}, [], 0))))
                @ remaining_singles spawns used"
            unfolding applyPackDirector_def Let_def split_def
            using False by (simp only: Some tpls Cons option.case list.case if_False fst_conv) blast
          then show ?thesis
            using loop by metis
        qed
      qed
    qed
  qed
qed

lemma remaining_singles_sub:
  "set (remaining_singles spawns used) \<subseteq> set spawns"
  "length (remaining_singles spawns used) \<le> length spawns"
  "sorted_wrt R spawns \<Longrightarrow> sorted_wrt R (remaining_singles spawns used)"
proof -
  show "set (remaining_singles spawns used) \<subseteq> set spawns"
    by (auto simp: remaining_singles_def in_set_enumerate_eq)
  have "length (remaining_singles spawns used) \<le> length (enumerate 0 spawns)"
    unfolding remaining_singles_def length_map by (rule length_filter_le)
  then show "length (remaining_singles spawns used) \<le> length spawns" by simp
  assume "sorted_wrt R spawns"
  then have "sorted_wrt (\<lambda>a b. R (snd a) (snd b)) (enumerate 0 spawns)"
    by (simp add: sorted_wrt_map [symmetric])
  then show "sorted_wrt R (remaining_singles spawns used)"
    by (simp add: remaining_singles_def sorted_wrt_map sorted_wrt_filter)
qed

text \<open>The single spawns of the packed list are the spawns that no pack consumed.\<close>

lemma packed_singles:
  assumes "\<forall>e \<in> set spawns. is_single e"
  shows "\<exists>used. filter is_single (fst (applyPackDirector r st spawns pool sp ex))
            = remaining_singles spawns used"
proof -
  from applyPackDirector_shape [of r st spawns pool sp ex] obtain out used where
    s: "fst (applyPackDirector r st spawns pool sp ex) = out @ remaining_singles spawns used"
      "\<forall>e \<in> set out. es_packId e \<noteq> None"
    by blast
  have "filter is_single out = []"
    using s(2) by (simp add: is_single_def filter_empty_conv)
  moreover have "filter is_single (remaining_singles spawns used) = remaining_singles spawns used"
    using assms remaining_singles_sub(1) [of spawns used] by (auto simp: filter_id_conv)
  ultimately show ?thesis
    by (intro exI [of _ used]) (simp add: s(1))
qed

lemma poi_spawns_not_single: "filter is_single (concat (map poi_spawns ps)) = []"
  by (auto simp: filter_empty_conv poi_spawns_def poi_spawn_def is_single_def)

subsection \<open>Obstacles: the three phases stay within the budget\<close>

lemma wall_step_length:
  "length (snd (wall_step w h bx by' jx jy px py cw side a t)) \<le> Suc (length (snd t))"
  by (cases t) (simp add: wall_step_def split_def Let_def)

lemma segment_step_bound:
  assumes "length (snd t) \<le> nat \<lceil>budget\<rceil>"
  shows "length (snd (segment_step w h budget per sx sy ex ey segs cw s t)) \<le> nat \<lceil>budget\<rceil>"
proof -
  have side: "length (snd (for_loop 0 n (\<lambda>(r, walls). real (length walls) < budget)
      (wall_step w h bx by' jx jy px py cw sd) u)) \<le> nat \<lceil>budget\<rceil>"
    if "length (snd u) \<le> nat \<lceil>budget\<rceil>" for n bx by' jx jy px py sd u
  proof -
    have "length (snd (for_loop 0 n (\<lambda>(r, walls). real (length walls) < budget)
        (wall_step w h bx by' jx jy px py cw sd) u)) \<le> max (length (snd u)) (nat \<lceil>budget\<rceil>)"
      by (rule for_loop_guard [where f = "\<lambda>t. length (snd t)"])
         (auto simp: wall_step_length)
    with that show ?thesis by simp
  qed
  obtain r walls where t: "t = (r, walls)" by (metis surj_pair)
  obtain jx r1 where j1: "rng_range r (- 80) 80 = (jx, r1)" by (metis surj_pair)
  obtain jy r2 where j2: "rng_range r1 (- 80) 80 = (jy, r2)" by (metis surj_pair)
  have "length (snd (r2, walls)) \<le> nat \<lceil>budget\<rceil>"
    using assms t by simp
  then show ?thesis
    unfolding t segment_step_def Let_def
    by (simp only: prod.case j1 j2 fold_simps side id_apply)
qed

lemma corridor_step_bound:
  assumes "length (snd t) \<le> nat \<lceil>budget\<rceil>"
  shows "length (snd (corridor_step w h budget per c t)) \<le> nat \<lceil>budget\<rceil>"
proof -
  have loop: "length (snd (for_loop_le 0 segs
      (segment_step w h budget per sx sy ex ey segs cw) u)) \<le> nat \<lceil>budget\<rceil>"
    if "length (snd u) \<le> nat \<lceil>budget\<rceil>" for segs sx sy ex ey cw u
    by (rule for_loop_le_inv [where P = "\<lambda>t. length (snd t) \<le> nat \<lceil>budget\<rceil>"])
       (simp_all add: that segment_step_bound)
  obtain r walls where t: "t = (r, walls)" by (metis surj_pair)
  show ?thesis
    using assms unfolding t corridor_step_def Let_def split_def
    by (simp add: loop)
qed

lemma generateCorridorWalls_length:
  "length (fst (generateCorridorWalls r w h budget)) \<le> nat \<lceil>budget\<rceil>"
proof -
  have "length (snd (for_loop 0 n (\<lambda>_. True) (corridor_step w h budget per) (r', [])))
      \<le> nat \<lceil>budget\<rceil>" for n per r'
    by (rule for_loop_inv [where P = "\<lambda>t. length (snd t) \<le> nat \<lceil>budget\<rceil>"])
       (simp_all add: corridor_step_bound)
  then show ?thesis
    by (simp add: generateCorridorWalls_def Let_def split_def)
qed

text \<open>The cluster phase adds exactly \<open>clusterUsed\<close> obstacles, at most the cluster budget.\<close>

lemma cluster_member_step_inv:
  assumes "cluster_inv n0 budget t" "real (snd (snd t)) < budget"
  shows "cluster_inv n0 budget (cluster_member_step mods d cx cy cr i t)"
proof -
  obtain r obs u where t: "t = (r, obs, u)" by (metis surj_pair)
  from assms(2) have "Suc (snd (snd t)) \<le> nat \<lceil>budget\<rceil>" by linarith
  with assms(1) show ?thesis
    unfolding t by (simp add: cluster_inv_def cluster_member_step_def split_def Let_def)
qed

lemma cluster_step_inv:
  assumes "cluster_inv n0 budget t"
  shows "cluster_inv n0 budget (cluster_step mods d w h budget c t)"
proof -
  obtain r obs u where t: "t = (r, obs, u)" by (metis surj_pair)
  have "cluster_inv n0 budget (for_loop 0 n (\<lambda>(r, obs, clusterUsed). real clusterUsed < budget)
      (cluster_member_step mods d cx cy cr) (r', obs, u))" for n cx cy cr r'
  proof (rule for_loop_inv [where P = "cluster_inv n0 budget"])
    show "cluster_inv n0 budget (r', obs, u)"
      using assms by (simp add: t cluster_inv_def)
  next
    fix j and s :: "rng \<times> obstacle list \<times> nat"
    assume "cluster_inv n0 budget s" "case s of (r, obs, clusterUsed) \<Rightarrow> real clusterUsed < budget"
    then show "cluster_inv n0 budget (cluster_member_step mods d cx cy cr j s)"
      by (intro cluster_member_step_inv) (auto simp: split_def)
  qed
  then show ?thesis
    unfolding t cluster_step_def Let_def split_def by simp
qed

lemma scatter_step_length:
  "length (snd (scatter_step mods d w h i t)) = Suc (length (snd t))"
  by (cases t) (simp add: scatter_step_def split_def Let_def)

lemma budget_split:
  fixes b :: real
  assumes "0 \<le> b"
  shows "nat \<lceil>js_floor (b * 0.4)\<rceil> + nat \<lceil>js_floor (b * 0.3)\<rceil> \<le> nat \<lceil>b\<rceil>"
proof -
  have "\<lfloor>b * 0.4\<rfloor> + \<lfloor>b * 0.3\<rfloor> \<le> \<lfloor>b * 0.4 + b * 0.3\<rfloor>"
    by (rule le_floor_add)
  also have "\<dots> \<le> \<lfloor>b\<rfloor>"
    using assms by (intro floor_mono) simp
  also have "\<dots> \<le> \<lceil>b\<rceil>"
    by (rule floor_le_ceiling)
  finally have "\<lfloor>b * 0.4\<rfloor> + \<lfloor>b * 0.3\<rfloor> \<le> \<lceil>b\<rceil>" .
  moreover have "0 \<le> \<lfloor>b * 0.4\<rfloor>" "0 \<le> \<lfloor>b * 0.3\<rfloor>"
    using assms by simp_all
  ultimately show ?thesis
    by (simp add: js_floor_def) linarith
qed

lemma generateObstacles_length:
  assumes "str_or (opt_difficulty opts) ''normal'' \<noteq> ''chaos''"
  shows "length (fst (generateObstacles r st density w h opts))
           \<le> nat \<lceil>max 0 (num_default (maxObstaclesPerZone (data_exploration st)) 1200)\<rceil>"
proof -
  let ?max = "num_default (maxObstaclesPerZone (data_exploration st)) 1200"
  let ?b = "min (js_floor (w * h * density)) ?max"
  let ?depth = "depth_of (opt_depth opts)"
  let ?mods = "list_or (opt_mods opts) []"
  obtain walls r1 where cw: "generateCorridorWalls r w h (js_floor (?b * 0.4)) = (walls, r1)"
    by (metis surj_pair)
  obtain cc r2 where ci: "rng_int r1 3 6 = (cc, r2)"
    by (metis surj_pair)
  obtain r3 obs2 used where cl:
    "for_loop 0 cc
       (\<lambda>(r, obs, clusterUsed). real clusterUsed < js_floor (?b * 0.3))
       (cluster_step ?mods ?depth w h (js_floor (?b * 0.3)))
       (r2, [] @ walls, 0) = (r3, obs2, used)"
    by (metis surj_pair)
  obtain r4 obs3 where sc:
    "for_loop 0 (?b - real (length obs2)) (\<lambda>_. True) (scatter_step ?mods ?depth w h) (r3, obs2)
       = (r4, obs3)"
    by (metis surj_pair)
  have res: "fst (generateObstacles r st density w h opts) = obs3"
    unfolding generateObstacles_def Let_def
    by (simp only: cw ci cl sc prod.case assms if_False fst_conv)
  have lw: "length walls \<le> nat \<lceil>js_floor (?b * 0.4)\<rceil>"
    using generateCorridorWalls_length [of r w h "js_floor (?b * 0.4)"] cw by simp
  have "cluster_inv (length walls) (js_floor (?b * 0.3)) (r3, obs2, used)"
    unfolding cl [symmetric]
  proof (rule for_loop_inv [where P = "cluster_inv (length walls) (js_floor (?b * 0.3))"])
    show "cluster_inv (length walls) (js_floor (?b * 0.3)) (r2, [] @ walls, 0)"
      by (simp add: cluster_inv_def)
  qed (rule cluster_step_inv)
  then have l2: "length obs2 = length walls + used" "used \<le> nat \<lceil>js_floor (?b * 0.3)\<rceil>"
    by (simp_all add: cluster_inv_def)
  have "length (snd (for_loop 0 (?b - real (length obs2)) (\<lambda>_. True)
      (scatter_step ?mods ?depth w h) (r3, obs2)))
      = length (snd (r3, obs2)) + (nat \<lceil>?b - real (length obs2)\<rceil> - 0)"
    by (rule for_loop_count [where f = "\<lambda>t. length (snd t)"]) (rule scatter_step_length)
  then have l3: "length obs3 = length obs2 + nat \<lceil>?b - real (length obs2)\<rceil>"
    by (simp add: sc)
  have "length obs3 \<le> nat \<lceil>max 0 ?b\<rceil>"
  proof (cases "0 \<le> ?b")
    case True
    have "length obs2 \<le> nat \<lceil>?b\<rceil>"
      using budget_split [OF True] lw l2 by linarith
    then have "real (length obs2) \<le> real_of_int \<lceil>?b\<rceil>"
      using True by linarith
    have "\<lceil>?b - real (length obs2)\<rceil> = \<lceil>?b\<rceil> - int (length obs2)"
      by (metis ceiling_diff_of_int of_int_of_nat_eq)
    then have "length obs3 = nat \<lceil>?b\<rceil>"
      using l3 \<open>length obs2 \<le> nat \<lceil>?b\<rceil>\<close> by linarith
    then show ?thesis using True by (simp add: max_def)
  next
    case False
    then have neg: "?b < 0" by (simp only: not_le)
    then have "js_floor (?b * 0.4) < 0" "js_floor (?b * 0.3) < 0"
      by (simp_all add: js_floor_def floor_less_iff)
    then have "length walls = 0" "used = 0"
      using lw l2(2) by simp_all
    then have "length obs2 = 0" using l2(1) by simp
    then have "length obs3 = 0"
      using l3 neg by simp
    then show ?thesis by simp
  qed
  moreover have "\<lceil>max 0 ?b\<rceil> \<le> \<lceil>max 0 ?max\<rceil>"
    by (intro ceiling_mono) auto
  ultimately show ?thesis
    unfolding res by linarith
qed

subsection \<open>Decorations: three fixed layers, then the capped scatter\<close>

lemma deco_step_length:
  "length (snd (dust_step biome w h i t)) = Suc (length (snd t))"
  "length (snd (nebula_step biome w h i t)) = Suc (length (snd t))"
  "length (snd (landmark_step lts w h i t)) = Suc (length (snd t))"
  "length (snd (small_step sp w h i t)) = Suc (length (snd t))"
proof -
  obtain r decs where t: "t = (r, decs)" by (metis surj_pair)
  show "length (snd (dust_step biome w h i t)) = Suc (length (snd t))"
    by (simp add: t dust_step_def split_def Let_def)
  show "length (snd (nebula_step biome w h i t)) = Suc (length (snd t))"
    by (simp add: t nebula_step_def split_def Let_def)
  show "length (snd (landmark_step lts w h i t)) = Suc (length (snd t))"
    by (simp add: t landmark_step_def split_def Let_def)
  show "length (snd (small_step sp w h i t)) = Suc (length (snd t))"
    by (simp add: t small_step_def split_def Let_def)
qed

lemma rng_int_ceiling:
  assumes "a \<le> b"
  shows "nat \<lceil>fst (rng_int r (of_int a) (of_int b))\<rceil> \<le> nat b"
    and "nat a \<le> nat \<lceil>fst (rng_int r (of_int a) (of_int b))\<rceil>"
proof -
  from rng_int_int_bounds [OF assms, of r]
  have "\<lceil>fst (rng_int r (of_int a) (of_int b))\<rceil> \<le> b"
    by (simp add: ceiling_le_iff)
  moreover from rng_int_int_bounds [OF assms, of r]
  have "a \<le> \<lceil>fst (rng_int r (of_int a) (of_int b))\<rceil>"
    by (meson ceiling_mono ceiling_of_int le_of_int_ceiling of_int_le_iff order_trans)
  ultimately have "\<lceil>fst (rng_int r (of_int a) (of_int b))\<rceil> \<le> b"
    "a \<le> \<lceil>fst (rng_int r (of_int a) (of_int b))\<rceil>"
    by simp_all
  then show "nat \<lceil>fst (rng_int r (of_int a) (of_int b))\<rceil> \<le> nat b"
    and "nat a \<le> nat \<lceil>fst (rng_int r (of_int a) (of_int b))\<rceil>"
    by linarith+
qed

lemma generateDecorations_length:
  "length (fst (generateDecorations r st biome w h))
     \<le> max 19 (nat \<lceil>num_default (maxDecorationsPerZone (data_exploration st)) 3000\<rceil>)"
  "9 \<le> length (fst (generateDecorations r st biome w h))"
proof -
  let ?max = "num_default (maxDecorationsPerZone (data_exploration st)) 3000"
  obtain dustCount r1 where c1: "rng_int r 4 8 = (dustCount, r1)" by (metis surj_pair)
  obtain r2 decs1 where l1: "for_loop 0 dustCount (\<lambda>_. True) (dust_step biome w h) (r1, []) = (r2, decs1)"
    by (metis surj_pair)
  obtain nebulaCount r3 where c2: "rng_int r2 2 5 = (nebulaCount, r3)" by (metis surj_pair)
  obtain r4 decs2 where l2: "for_loop 0 nebulaCount (\<lambda>_. True) (nebula_step biome w h) (r3, decs1) = (r4, decs2)"
    by (metis surj_pair)
  obtain landmarkCount r5 where c3: "rng_int r4 3 6 = (landmarkCount, r5)" by (metis surj_pair)
  obtain r6 decs3 where l3: "for_loop 0 landmarkCount (\<lambda>_. True)
      (landmark_step (getLandmarkTypes biome) w h) (r5, decs2) = (r6, decs3)"
    by (metis surj_pair)
  let ?small = "min (?max - real (length decs3)) (js_floor (w * h * 0.0004))"
  obtain r7 decs4 where l4: "for_loop 0 ?small (\<lambda>_. True)
      (small_step (smallTypes biome) w h) (r6, decs3) = (r7, decs4)"
    by (metis surj_pair)
  have res: "fst (generateDecorations r st biome w h) = decs4"
    unfolding generateDecorations_def Let_def
    by (simp only: c1 l1 c2 l2 c3 l3 l4 prod.case fst_conv)
  have n1: "length decs1 = nat \<lceil>dustCount\<rceil>"
    using for_loop_count [where f = "\<lambda>t. length (snd t)" and body = "dust_step biome w h"
        and i = 0 and n = dustCount and s = "(r1, [])", OF deco_step_length(1)]
    by (simp add: l1)
  have n2: "length decs2 = length decs1 + nat \<lceil>nebulaCount\<rceil>"
    using for_loop_count [where f = "\<lambda>t. length (snd t)" and body = "nebula_step biome w h"
        and i = 0 and n = nebulaCount and s = "(r3, decs1)", OF deco_step_length(2)]
    by (simp add: l2)
  have n3: "length decs3 = length decs2 + nat \<lceil>landmarkCount\<rceil>"
    using for_loop_count [where f = "\<lambda>t. length (snd t)"
        and body = "landmark_step (getLandmarkTypes biome) w h"
        and i = 0 and n = landmarkCount and s = "(r5, decs2)", OF deco_step_length(3)]
    by (simp add: l3)
  have n4: "length decs4 = length decs3 + nat \<lceil>?small\<rceil>"
    using for_loop_count [where f = "\<lambda>t. length (snd t)"
        and body = "small_step (smallTypes biome) w h"
        and i = 0 and n = ?small and s = "(r6, decs3)", OF deco_step_length(4)]
    unfolding l4 by simp
  have b1: "nat \<lceil>dustCount\<rceil> \<le> 8" "4 \<le> nat \<lceil>dustCount\<rceil>"
    using rng_int_ceiling [of 4 8 r] c1 by simp_all
  have b2: "nat \<lceil>nebulaCount\<rceil> \<le> 5" "2 \<le> nat \<lceil>nebulaCount\<rceil>"
    using rng_int_ceiling [of 2 5 r2] c2 by simp_all
  have b3: "nat \<lceil>landmarkCount\<rceil> \<le> 6" "3 \<le> nat \<lceil>landmarkCount\<rceil>"
    using rng_int_ceiling [of 3 6 r4] c3 by simp_all
  have three: "length decs3 \<le> 19" "9 \<le> length decs3"
    using n1 n2 n3 b1 b2 b3 by linarith+
  have "\<lceil>?small\<rceil> \<le> \<lceil>?max - real (length decs3)\<rceil>"
    by (intro ceiling_mono) simp
  also have "\<dots> = \<lceil>?max\<rceil> - int (length decs3)"
    by (metis ceiling_diff_of_int of_int_of_nat_eq)
  finally have "nat \<lceil>?small\<rceil> \<le> nat \<lceil>?max\<rceil> - length decs3"
    by linarith
  then show "length (fst (generateDecorations r st biome w h)) \<le> max 19 (nat \<lceil>?max\<rceil>)"
    unfolding res n4 using three(1) by linarith
  show "9 \<le> length (fst (generateDecorations r st biome w h))"
    unfolding res n4 using three(2) by linarith
qed

text \<open>
  Claim C2, as amended. In the zone that \<open>generate\<close> returns, with every configured
  maximum rounded up to a whole number (a loop \<open>i < count\<close> runs once more for a
  fractional \<open>count\<close>): the enemy spawns that are neither pack members nor POI enemies
  number at most \<open>max(0, maxEnemySpawnsPerZone)\<close>; the elite spawns at most
  \<open>max(1, maxEliteSpawnsPerZone)\<close>; the obstacles at most
  \<open>max(0, maxObstaclesPerZone)\<close> plus the obstacles of the POIs, the resource nodes and
  the generators of the objective; the decorations at most
  \<open>max(19, maxDecorationsPerZone)\<close>, 19 being the most the three fixed layers place.
  A maximum that is not configured is 120, 8, 1200 and 3000.
\<close>

theorem zone_counts_bounded:
  "length (zone_singles (generate SeededRandom st actConfig zoneSeed opts))
     \<le> nat \<lceil>max 0 (num_default (maxEnemySpawnsPerZone (data_exploration st)) 120)\<rceil> \<and>
   length (eliteSpawns (generate SeededRandom st actConfig zoneSeed opts))
     \<le> nat \<lceil>max 1 (num_default (maxEliteSpawnsPerZone (data_exploration st)) 8)\<rceil> \<and>
   length (obstacles (generate SeededRandom st actConfig zoneSeed opts))
     \<le> nat \<lceil>max 0 (num_default (maxObstaclesPerZone (data_exploration st)) 1200)\<rceil>
       + length (concat (map poi_obstacles (pois (generate SeededRandom st actConfig zoneSeed opts))))
       + length (resourceNodes (generate SeededRandom st actConfig zoneSeed opts))
       + length (objective_generators
                   (zone_objective (generate SeededRandom st actConfig zoneSeed opts))) \<and>
   length (decorations (generate SeededRandom st actConfig zoneSeed opts))
     \<le> max 19 (nat \<lceil>num_default (maxDecorationsPerZone (data_exploration st)) 3000\<rceil>)"
proof -
  let ?z = "generate SeededRandom st actConfig zoneSeed opts"
  let ?pool = "list_or (act_pool actConfig) [''grunt'']"
  from generate_shape [of SeededRandom st actConfig zoneSeed opts]
  obtain r4 r5 r6 r7 r8 where
    es: "enemySpawns ?z =
        fst (applyPackDirector r5 st
               (fst (generateEnemySpawns r4 st ?pool (enemy_density st actConfig opts)
                       (zone_width ?z) (zone_height ?z) (zone_spawn ?z) (zone_exit ?z)))
               ?pool (zone_spawn ?z) (zone_exit ?z))
        @ concat (map poi_spawns (pois ?z))" and
    el: "eliteSpawns ?z =
        fst (generateEliteSpawns r6 st (list_or (act_elitePool actConfig) [''commander''])
               (elite_density st actConfig opts) (zone_width ?z) (zone_height ?z))" and
    ob: "obstacles ?z =
        fst (generateObstacles r7 st (obstacle_density actConfig opts) (zone_width ?z) (zone_height ?z)
               \<lparr> opt_depth = Some (depth_of (opt_depth opts)),
                 opt_mods = Some (list_or (opt_mods opts) []), opt_difficulty = None \<rparr>)
        @ concat (map poi_obstacles (pois ?z)) @ resourceNodes ?z
        @ objective_generators (zone_objective ?z)" and
    dc: "decorations ?z = fst (generateDecorations r8 st (act_biome actConfig)
                                 (zone_width ?z) (zone_height ?z))"
    by blast
  let ?base = "fst (generateEnemySpawns r4 st ?pool (enemy_density st actConfig opts)
                       (zone_width ?z) (zone_height ?z) (zone_spawn ?z) (zone_exit ?z))"
  have "\<forall>e \<in> set ?base. is_single e"
    using generateEnemySpawns_ok [of "zone_spawn ?z" "zone_exit ?z" st r4 ?pool]
    by (simp add: spawns_ok_def)
  from packed_singles [OF this, of r5 st ?pool "zone_spawn ?z" "zone_exit ?z"]
  obtain used where "zone_singles ?z = remaining_singles ?base used"
    by (auto simp: zone_singles_def es poi_spawns_not_single)
  then have "length (zone_singles ?z) \<le> length ?base"
    by (simp add: remaining_singles_sub(2))
  then have a: "length (zone_singles ?z)
      \<le> nat \<lceil>max 0 (num_default (maxEnemySpawnsPerZone (data_exploration st)) 120)\<rceil>"
    using generateEnemySpawns_length [of r4 st ?pool "enemy_density st actConfig opts"
        "zone_width ?z" "zone_height ?z" "zone_spawn ?z" "zone_exit ?z"]
    by linarith
  have "\<lceil>max 1 (min (js_floor (zone_width ?z * zone_height ?z * elite_density st actConfig opts))
                (num_default (maxEliteSpawnsPerZone (data_exploration st)) 8))\<rceil>
      \<le> \<lceil>max 1 (num_default (maxEliteSpawnsPerZone (data_exploration st)) 8)\<rceil>"
    by (intro ceiling_mono) auto
  then have b: "length (eliteSpawns ?z)
      \<le> nat \<lceil>max 1 (num_default (maxEliteSpawnsPerZone (data_exploration st)) 8)\<rceil>"
    unfolding el generateEliteSpawns_length by linarith
  have c: "length (obstacles ?z)
     \<le> nat \<lceil>max 0 (num_default (maxObstaclesPerZone (data_exploration st)) 1200)\<rceil>
       + length (concat (map poi_obstacles (pois ?z))) + length (resourceNodes ?z)
       + length (objective_generators (zone_objective ?z))"
    using generateObstacles_length [of "\<lparr> opt_depth = Some (depth_of (opt_depth opts)),
                 opt_mods = Some (list_or (opt_mods opts) []), opt_difficulty = None \<rparr>"
        r7 st "obstacle_density actConfig opts" "zone_width ?z" "zone_height ?z"]
    by (subst ob) (simp add: str_or_def)
  have d: "length (decorations ?z)
     \<le> max 19 (nat \<lceil>num_default (maxDecorationsPerZone (data_exploration st)) 3000\<rceil>)"
    unfolding dc by (rule generateDecorations_length(1))
  from a b c d show ?thesis by blast
qed

text \<open>
  Claim C2 as stated fails: with \<open>maxEliteSpawnsPerZone = 0\<close> the zone still holds an
  elite spawn, more than the configured maximum.
\<close>

theorem elite_cap_counterexample:
  "maxEliteSpawnsPerZone (data_exploration no_elite_state) = Some 0 \<and>
   \<not> length (eliteSpawns (generate zero_rng no_elite_state default_act 0 (opts_depth 1))) \<le> 0"
proof -
  from generate_shape [of zero_rng no_elite_state default_act 0 "opts_depth 1"]
  obtain r6 d w h where
    "eliteSpawns (generate zero_rng no_elite_state default_act 0 (opts_depth 1)) =
       fst (generateEliteSpawns r6 no_elite_state
              (list_or (act_elitePool default_act) [''commander'']) d w h)"
    by blast
  then have "1 \<le> length (eliteSpawns (generate zero_rng no_elite_state default_act 0 (opts_depth 1)))"
    by (simp only: generateEliteSpawns_nonempty)
  moreover have "maxEliteSpawnsPerZone (data_exploration no_elite_state) = Some 0"
    by (simp add: no_elite_state_def)
  ultimately show ?thesis
    by auto
qed

text \<open>
  Why the maxima are rounded up: with \<open>maxEliteSpawnsPerZone = 2.5\<close> the count is
  \<open>max(1, min(323, 2.5)) = 2.5\<close> and the loop \<open>i < 2.5\<close> places three elites.
\<close>

lemma elite_cap_rounds_up:
  "length (eliteSpawns (generate zero_rng frac_elite_state (square_act 2000) 0 (opts_depth 1))) = 3"
proof -
  let ?z = "generate zero_rng frac_elite_state (square_act 2000) 0 (opts_depth 1)"
  have dims: "fst (zone_dims (zero_rng 0) frac_elite_state (square_act 2000) (opts_depth 1))
      = (2000, 2000)"
    by (simp add: zone_dims_def square_act_def default_act_def default_generation_def
        opts_depth_def list_or_def pickRange_def frac_elite_state_def default_tuning_def)
  have dens: "elite_density frac_elite_state (square_act 2000) (opts_depth 1) = 101 / 1250000"
    by (simp add: elite_density_def square_act_def default_act_def default_generation_def
        opts_depth_def list_or_def str_or_def num_or_def depth_of_def frac_elite_state_def
        default_tuning_def)
  from generate_shape [of zero_rng frac_elite_state "square_act 2000" 0 "opts_depth 1"]
  obtain r6 where
    wh: "(zone_width ?z, zone_height ?z) = (2000, 2000)" and
    el: "eliteSpawns ?z =
        fst (generateEliteSpawns r6 frac_elite_state
               (list_or (act_elitePool (square_act 2000)) [''commander''])
               (elite_density frac_elite_state (square_act 2000) (opts_depth 1))
               (zone_width ?z) (zone_height ?z))"
    unfolding dims by blast
  from wh have wh': "zone_width ?z = 2000" "zone_height ?z = 2000" by simp_all
  show ?thesis
    unfolding el generateEliteSpawns_length wh' dens
    by (simp add: js_floor_def frac_elite_state_def default_tuning_def num_default_def)
qed




subsection \<open>A generator that repeats one draw stays the same through every stage\<close>

lemma steady_ops:
  assumes "steady r"
  shows "snd (rng_next r) = r" "snd (rng_range r a b) = r" "snd (rng_int r a b) = r"
    "snd (rng_pick r xs) = r" "snd (rng_chance r p) = r"
  using assms
  by (simp_all add: steady_def rng_next_def rng_range_def rng_int_def rng_pick_def
      rng_chance_def Let_def)

lemma for_loop_steady:
  assumes "fst s = r" and "\<And>j t. fst t = r \<Longrightarrow> fst (body j t) = r"
  shows "fst (for_loop i n cond body s) = r"
  by (rule for_loop_inv [where P = "\<lambda>t. fst t = r"]) (simp_all add: assms)


lemma steady_star_step: "steady r \<Longrightarrow> fst t = r \<Longrightarrow> fst (star_step w h j t) = r"
  by (cases t) (simp add: star_step_def split_def Let_def steady_ops)

lemma steady_generateStarfield:
  "steady r \<Longrightarrow> snd (generateStarfield r w h density maxCount) = r"
  by (simp add: generateStarfield_def Let_def split_def for_loop_steady steady_star_step)

lemma steady_generateParallax:
  "steady r \<Longrightarrow> act_nebula actConfig = None \<Longrightarrow> snd (generateParallax r st actConfig w h) = r"
  by (simp add: generateParallax_def Let_def split_def steady_generateStarfield
      generateNebulaWisps_def)



































subsection \<open>\<open>generate\<close> when the generator is steady once the enemy spawns are placed\<close>


subsection \<open>A run with two placed spawns and three resource nodes\<close>












end
